theory Spec2Isabelle
  imports Complex_Main
begin

section \<open>Values and exceptions shared by both clients\<close>

text \<open>
  A decoded JSON document, as \<^verbatim>\<open>json.loads\<close> returns it. A Python dict is an association
  list read with \<open>map_of\<close>; an int is unbounded, a float is taken as the rational it
  denotes, so that Python's numeric \<^verbatim>\<open>==\<close> between an int and a float is equality of
  values.
\<close>

datatype json =
    JNull
  | JBool bool
  | JInt int
  | JFloat rat
  | JStr string
  | JArr "json list"
  | JObj "(string \<times> json) list"

text \<open>
  Exceptions are values. The message of an exception is kept as the fragments of the
  f-string that builds it: a literal piece, or \<^verbatim>\<open>str()\<close> of a JSON value, of an integer
  or of another exception (\<open>None\<close> when the variable holds \<^verbatim>\<open>None\<close>).
\<close>

datatype exn =
    MCPConnectionError "fragment list"
  | MCPToolError "fragment list"
  | RuntimeError "fragment list"
  | PyException "fragment list"
  | AttributeError "fragment list"
  | KeyError "fragment list"
  | IndexError "fragment list"
  | OverflowError "fragment list"
  | TypeError "fragment list"
  | OtherError "fragment list"
and fragment =
    Lit string
  | Str_json json
  | Str_int int
  | Str_exn "exn option"

text \<open>\<^verbatim>\<open>isinstance(e, MCPConnectionError)\<close>: the class has no subclass.\<close>

fun is_connection_error :: "exn \<Rightarrow> bool" where
  "is_connection_error (MCPConnectionError m) = True"
| "is_connection_error e = False"

text \<open>Python truthiness of a decoded JSON value.\<close>

fun truthy :: "json \<Rightarrow> bool" where
  "truthy JNull = False"
| "truthy (JBool b) = b"
| "truthy (JInt i) = (i \<noteq> 0)"
| "truthy (JFloat r) = (r \<noteq> 0)"
| "truthy (JStr s) = (s \<noteq> [])"
| "truthy (JArr xs) = (xs \<noteq> [])"
| "truthy (JObj kvs) = (kvs \<noteq> [])"

text \<open>
  \<^verbatim>\<open>response.get("id") == n\<close> for an integer \<open>n\<close>: the argument is what \<^verbatim>\<open>get\<close>
  returned (\<open>None\<close> for a missing key). Python compares numbers by value and
  \<^verbatim>\<open>True == 1\<close>, \<^verbatim>\<open>False == 0\<close>.
\<close>

fun py_eq_int :: "json option \<Rightarrow> int \<Rightarrow> bool" where
  "py_eq_int (Some (JInt i)) n = (i = n)"
| "py_eq_int (Some (JFloat r)) n = (r = of_int n)"
| "py_eq_int (Some (JBool b)) n = ((if b then 1 else 0) = n)"
| "py_eq_int v n = False"

text \<open>\<^verbatim>\<open>d.get(key, default)\<close> on a dict.\<close>

definition dict_get :: "(string \<times> json) list \<Rightarrow> string \<Rightarrow> json \<Rightarrow> json" where
  "dict_get kvs k d = (case map_of kvs k of None \<Rightarrow> d | Some v \<Rightarrow> v)"

section \<open>The stdio handshake client (mcp\_stdio\_client.py)\<close>

text \<open>
  The child process as the client sees it: the documents written to its stdin, and what
  the next reads of its stdout will find. An empty \<open>incoming\<close> queue is a read that
  times out.
\<close>

datatype rx = Rx_line json | Rx_invalid | Rx_blank | Rx_eof

record pipe =
  written :: "json list"
  incoming :: "rx list"
  alive :: bool

record stdio_client =
  server_executable :: string
  process :: "pipe option"
  initialized :: bool
  server_info :: "json option"
  request_id :: int

definition init_client :: "string \<Rightarrow> stdio_client" where
  "init_client exe =
     \<lparr>server_executable = exe, process = None, initialized = False,
      server_info = None, request_id = 0\<rparr>"

text \<open>
  \<^verbatim>\<open>start\<close>: \<open>spawned\<close> is \<open>None\<close> when \<^verbatim>\<open>create_subprocess_exec\<close> raised, and
  otherwise the lines the new child is going to print; nothing has been written to a new
  child yet.
\<close>

definition start :: "stdio_client \<Rightarrow> rx list option \<Rightarrow> bool \<times> stdio_client" where
  "start c spawned =
     (case spawned of
        None \<Rightarrow> (False, c)
      | Some rxs \<Rightarrow>
          (True, c\<lparr>process := Some \<lparr>written = [], incoming = rxs, alive = True\<rparr>\<rparr>))"

definition next_id :: "stdio_client \<Rightarrow> int \<times> stdio_client" where
  "next_id c = (request_id c + 1, c\<lparr>request_id := request_id c + 1\<rparr>)"

definition send_request :: "stdio_client \<Rightarrow> json \<Rightarrow> (exn + unit) \<times> stdio_client" where
  "send_request c request =
     (case process c of
        None \<Rightarrow> (Inl (RuntimeError [Lit ''MCP server process not available'']), c)
      | Some p \<Rightarrow>
          if alive p
          then (Inr (), c\<lparr>process := Some (p\<lparr>written := written p @ [request]\<rparr>)\<rparr>)
          else (Inl (OtherError [Lit ''ConnectionResetError'']), c))"

text \<open>
  \<^verbatim>\<open>_read_response\<close>: the check of the process is outside the \<^verbatim>\<open>try\<close> and raises;
  a timeout, end of file, a blank line and a line that is not JSON all give \<open>None\<close>.
\<close>

definition read_response :: "stdio_client \<Rightarrow> (exn + json option) \<times> stdio_client" where
  "read_response c =
     (case process c of
        None \<Rightarrow> (Inl (RuntimeError [Lit ''MCP server process not available'']), c)
      | Some p \<Rightarrow>
          (case incoming p of
             [] \<Rightarrow> (Inr None, c)
           | x # rest \<Rightarrow>
               (case x of Rx_line j \<Rightarrow> Inr (Some j) | _ \<Rightarrow> Inr None,
                c\<lparr>process := Some (p\<lparr>incoming := rest\<rparr>)\<rparr>)))"

definition initialize_params :: json where
  "initialize_params =
     JObj [(''protocolVersion'', JStr ''2024-11-05''),
           (''capabilities'',
              JObj [(''roots'', JObj [(''listChanged'', JBool True)]), (''sampling'', JObj [])]),
           (''clientInfo'',
              JObj [(''name'', JStr ''WhatsApp-Analyzer''), (''version'', JStr ''1.0.0'')])]"

definition initialized_notification :: json where
  "initialized_notification =
     JObj [(''jsonrpc'', JStr ''2.0''), (''method'', JStr ''notifications/initialized'')]"

text \<open>
  \<^verbatim>\<open>initialize\<close>: every exception inside is caught and turned into \<open>False\<close>; that
  includes the \<^verbatim>\<open>AttributeError\<close> of \<^verbatim>\<open>response.get\<close> on a response that is not a dict.
\<close>

definition initialize :: "stdio_client \<Rightarrow> bool \<times> stdio_client" where
  "initialize c =
     (let (rid, c1) = next_id c;
          init_request = JObj [(''jsonrpc'', JStr ''2.0''), (''id'', JInt rid),
                               (''method'', JStr ''initialize''), (''params'', initialize_params)]
      in case send_request c1 init_request of
           (Inl e, c2) \<Rightarrow> (False, c2)
         | (Inr u, c2) \<Rightarrow>
             (case read_response c2 of
                (Inl e, c3) \<Rightarrow> (False, c3)
              | (Inr None, c3) \<Rightarrow> (False, c3)
              | (Inr (Some (JObj kvs)), c3) \<Rightarrow>
                  if kvs \<noteq> [] \<and> py_eq_int (map_of kvs ''id'') rid then
                    if map_of kvs ''error'' \<noteq> None then (False, c3)
                    else
                      (let c4 = c3\<lparr>server_info := Some (dict_get kvs ''result'' (JObj []))\<rparr>
                       in case send_request c4 initialized_notification of
                            (Inl e, c5) \<Rightarrow> (False, c5)
                          | (Inr u, c5) \<Rightarrow> (True, c5\<lparr>initialized := True\<rparr>))
                  else (False, c3)
              | (Inr (Some r), c3) \<Rightarrow> (False, c3)))"

definition tool_call_request :: "int \<Rightarrow> string \<Rightarrow> json \<Rightarrow> json" where
  "tool_call_request rid tool_name arguments =
     JObj [(''jsonrpc'', JStr ''2.0''), (''id'', JInt rid),
           (''method'', JStr ''tools/call''),
           (''params'', JObj [(''name'', JStr tool_name), (''arguments'', arguments)])]"

definition call_tool :: "stdio_client \<Rightarrow> string \<Rightarrow> json \<Rightarrow> (exn + json) \<times> stdio_client" where
  "call_tool c tool_name arguments =
     (if \<not> initialized c then (Inl (RuntimeError [Lit ''MCP client not initialized'']), c)
      else
        (let (rid, c1) = next_id c
         in case send_request c1 (tool_call_request rid tool_name arguments) of
              (Inl e, c2) \<Rightarrow> (Inl e, c2)
            | (Inr u, c2) \<Rightarrow>
                (case read_response c2 of
                   (Inl e, c3) \<Rightarrow> (Inl e, c3)
                 | (Inr None, c3) \<Rightarrow> (Inl (PyException [Lit ''Invalid tool call response'']), c3)
                 | (Inr (Some (JObj kvs)), c3) \<Rightarrow>
                     if kvs \<noteq> [] \<and> py_eq_int (map_of kvs ''id'') rid then
                       (case map_of kvs ''error'' of
                          Some err \<Rightarrow> (Inl (PyException [Lit ''Tool call error: '', Str_json err]), c3)
                        | None \<Rightarrow> (Inr (dict_get kvs ''result'' (JObj [])), c3))
                     else (Inl (PyException [Lit ''Invalid tool call response'']), c3)
                 | (Inr (Some r), c3) \<Rightarrow>
                     if truthy r
                     then (Inl (AttributeError [Lit ''object has no attribute get'']), c3)
                     else (Inl (PyException [Lit ''Invalid tool call response'']), c3))))"

text \<open>The values that \<^verbatim>\<open>len\<close> accepts: a string, a list, a dict.\<close>

fun sized :: "json \<Rightarrow> bool" where
  "sized (JStr s) = True"
| "sized (JArr xs) = True"
| "sized (JObj kvs) = True"
| "sized j = False"

definition list_tools_request :: "int \<Rightarrow> json" where
  "list_tools_request rid =
     JObj [(''jsonrpc'', JStr ''2.0''), (''id'', JInt rid), (''method'', JStr ''tools/list'')]"

text \<open>
  \<^verbatim>\<open>list_tools\<close>: as \<^verbatim>\<open>call_tool\<close>, and the log line takes \<^verbatim>\<open>len(tools)\<close> before the
  tools are returned, which raises \<^verbatim>\<open>TypeError\<close> for a number, a boolean and \<open>null\<close>.
\<close>

definition stdio_list_tools :: "stdio_client \<Rightarrow> (exn + json) \<times> stdio_client" where
  "stdio_list_tools c =
     (if \<not> initialized c then (Inl (RuntimeError [Lit ''MCP client not initialized'']), c)
      else
        (let (rid, c1) = next_id c
         in case send_request c1 (list_tools_request rid) of
              (Inl e, c2) \<Rightarrow> (Inl e, c2)
            | (Inr u, c2) \<Rightarrow>
                (case read_response c2 of
                   (Inl e, c3) \<Rightarrow> (Inl e, c3)
                 | (Inr None, c3) \<Rightarrow> (Inl (PyException [Lit ''Invalid list tools response'']), c3)
                 | (Inr (Some (JObj kvs)), c3) \<Rightarrow>
                     if kvs \<noteq> [] \<and> py_eq_int (map_of kvs ''id'') rid then
                       (case map_of kvs ''error'' of
                          Some err \<Rightarrow> (Inl (PyException [Lit ''List tools error: '', Str_json err]), c3)
                        | None \<Rightarrow>
                            (case dict_get kvs ''result'' (JObj []) of
                               JObj res \<Rightarrow>
                                 (let tools = dict_get res ''tools'' (JArr [])
                                  in if sized tools then (Inr tools, c3)
                                     else (Inl (TypeError [Lit ''object has no len()'']), c3))
                             | other \<Rightarrow>
                                 (Inl (AttributeError [Lit ''object has no attribute get'']), c3)))
                     else (Inl (PyException [Lit ''Invalid list tools response'']), c3)
                 | (Inr (Some r), c3) \<Rightarrow>
                     if truthy r
                     then (Inl (AttributeError [Lit ''object has no attribute get'']), c3)
                     else (Inl (PyException [Lit ''Invalid list tools response'']), c3))))"

text \<open>
  \<^verbatim>\<open>close\<close> terminates the child and waits for it; an exception of either is logged.
  No field of the client is reset.
\<close>

definition close :: "stdio_client \<Rightarrow> stdio_client" where
  "close c =
     (case process c of
        None \<Rightarrow> c
      | Some p \<Rightarrow> c\<lparr>process := Some (p\<lparr>alive := False\<rparr>)\<rparr>)"

subsection \<open>Runs of the handshake client\<close>

text \<open>
  The public operations of one client object, run in any order. \<open>wire_ids\<close> are the
  ids of the requests written to the current child, oldest first (a notification has
  none); \<open>draw_ids n\<close> are the values of \<open>n\<close> successive calls of \<^verbatim>\<open>_next_id\<close>.
\<close>

datatype op = Op_start "rx list option" | Op_initialize | Op_call_tool string json
  | Op_list_tools | Op_close

fun step :: "stdio_client \<Rightarrow> op \<Rightarrow> stdio_client" where
  "step c (Op_start spawned) = snd (start c spawned)"
| "step c Op_initialize = snd (initialize c)"
| "step c (Op_call_tool t a) = snd (call_tool c t a)"
| "step c Op_list_tools = snd (stdio_list_tools c)"
| "step c Op_close = close c"

definition run_ops :: "stdio_client \<Rightarrow> op list \<Rightarrow> stdio_client" where
  "run_ops c ops = foldl step c ops"

fun doc_id :: "json \<Rightarrow> int list" where
  "doc_id (JObj kvs) = (case map_of kvs ''id'' of Some (JInt i) \<Rightarrow> [i] | _ \<Rightarrow> [])"
| "doc_id j = []"

definition wire_ids :: "stdio_client \<Rightarrow> int list" where
  "wire_ids c = (case process c of None \<Rightarrow> [] | Some p \<Rightarrow> concat (map doc_id (written p)))"

fun draw_ids :: "nat \<Rightarrow> stdio_client \<Rightarrow> int list" where
  "draw_ids 0 c = []"
| "draw_ids (Suc n) c = (case next_id c of (i, c') \<Rightarrow> i # draw_ids n c')"

definition ids_ok :: "stdio_client \<Rightarrow> bool" where
  "ids_ok c \<longleftrightarrow> 0 \<le> request_id c \<and> sorted_wrt (<) (wire_ids c) \<and> list_all (\<lambda>i. 1 \<le> i \<and> i \<le> request_id c) (wire_ids c)"

section \<open>The generic client (mcp\_client.py)\<close>

datatype connection_type = STDIO | SSE | WEBSOCKET

record server_config =
  name :: string
  connection_type :: connection_type
  endpoint :: string
  auth_token :: "string option"
  timeout :: int
  max_retries :: int
  retry_delay :: rat
  health_check_interval :: int
  session_timeout :: int
  custom_headers :: "(string \<times> string) list"

record session =
  session_id :: string
  server_name :: string
  created_at :: rat
  last_activity :: rat
  is_active :: bool

text \<open>
  An entry of \<^verbatim>\<open>self.connections\<close>: the \<^verbatim>\<open>"type"\<close> string, the endpoint, and the transport
  object (the \<open>handle\<close>-th one opened).
\<close>

record connection =
  conn_type :: string
  conn_endpoint :: string
  handle :: nat

text \<open>
  What a transport does when a request is put on it. \<open>Sse_response status reason body\<close>
  is an HTTP response whose body decodes to \<open>body\<close>; the \<open>raised\<close> cases are the
  exceptions of the library that the code does not name (a broken pipe, a line that is
  not JSON, a client error of the HTTP library).
\<close>

datatype sse_outcome = Sse_response int string json | Sse_timeout | Sse_raised exn
datatype ws_outcome = Ws_message json | Ws_timeout | Ws_closed | Ws_raised exn
datatype stdio_outcome = Stdio_line json | Stdio_timeout | Stdio_raised exn

text \<open>
  The effects of the client that the outside can see, in the order they happen: a
  transport is opened for a server (whether or not that succeeds);
  \<^verbatim>\<open>_execute_tool_request\<close> has built a request for a server, handed it to the transport
  that the connection's \<^verbatim>\<open>"type"\<close> names and come back with an outcome, an exception or
  a result; the retry loop logs its warning "Tool execution attempt n failed: e";
  \<^verbatim>\<open>asyncio.sleep\<close> is awaited; the retry loop logs "Attempting to reconnect to" a
  server; a transport is closed.
\<close>

datatype event =
    Ev_open string
  | Ev_request string json "exn + json"
  | Ev_attempt_failed int exn
  | Ev_sleep rat
  | Ev_reconnect string
  | Ev_close string

text \<open>
  Everything outside the client: the clock, which \<^verbatim>\<open>asyncio.sleep\<close> advances; whether
  the \<open>k\<close>-th attempt to open a transport succeeds; what the \<open>k\<close>-th request meets on
  each kind of transport; whether the \<open>k\<close>-th close of a transport raises; the values of
  \<^verbatim>\<open>uuid.uuid4()\<close>; and the effects so far, oldest first.
\<close>

record world =
  now :: rat
  open_ok :: "nat \<Rightarrow> bool"
  opened :: nat
  sse_replies :: "nat \<Rightarrow> sse_outcome"
  ws_replies :: "nat \<Rightarrow> ws_outcome"
  stdio_replies :: "nat \<Rightarrow> stdio_outcome"
  requested :: nat
  close_raises :: "nat \<Rightarrow> exn option"
  closed :: nat
  uuid4 :: "nat \<Rightarrow> string"
  uuids :: nat
  trace :: "event list"

record client =
  servers :: "string \<rightharpoonup> server_config"
  sessions :: "string \<rightharpoonup> session"
  connections :: "string \<rightharpoonup> connection"
  health_check_tasks :: "string set"
  world :: world

definition sleep :: "client \<Rightarrow> rat \<Rightarrow> client" where
  "sleep st d =
     st\<lparr>world := (world st)\<lparr>now := now (world st) + d,
                              trace := trace (world st) @ [Ev_sleep d]\<rparr>\<rparr>"

definition log_event :: "client \<Rightarrow> event \<Rightarrow> client" where
  "log_event st ev = st\<lparr>world := (world st)\<lparr>trace := trace (world st) @ [ev]\<rparr>\<rparr>"

definition new_uuid :: "client \<Rightarrow> string \<times> client" where
  "new_uuid st =
     (uuid4 (world st) (uuids (world st)),
      st\<lparr>world := (world st)\<lparr>uuids := Suc (uuids (world st))\<rparr>\<rparr>)"

text \<open>
  The three \<^verbatim>\<open>_connect_*\<close> methods: each opens its transport inside a \<^verbatim>\<open>try\<close>, stores
  the connection and returns \<open>True\<close>; any exception is logged and gives \<open>False\<close>, with
  \<^verbatim>\<open>self.connections\<close> untouched.
\<close>

definition open_transport :: "client \<Rightarrow> string \<Rightarrow> string \<Rightarrow> server_config \<Rightarrow> bool \<times> client" where
  "open_transport st kind sname config =
     (let w = world st;
          k = opened w;
          w' = w\<lparr>opened := Suc k, trace := trace w @ [Ev_open sname]\<rparr>
      in if open_ok w k
         then (True, st\<lparr>connections := (connections st)(sname \<mapsto>
                 \<lparr>conn_type = kind, conn_endpoint = endpoint config, handle = k\<rparr>),
               world := w'\<rparr>)
         else (False, st\<lparr>world := w'\<rparr>))"

definition connect_sse :: "client \<Rightarrow> string \<Rightarrow> server_config \<Rightarrow> bool \<times> client" where
  "connect_sse st sname config = open_transport st ''sse'' sname config"

definition connect_websocket :: "client \<Rightarrow> string \<Rightarrow> server_config \<Rightarrow> bool \<times> client" where
  "connect_websocket st sname config = open_transport st ''websocket'' sname config"

definition connect_stdio :: "client \<Rightarrow> string \<Rightarrow> server_config \<Rightarrow> bool \<times> client" where
  "connect_stdio st sname config = open_transport st ''stdio'' sname config"

text \<open>
  \<^verbatim>\<open>connect\<close>. The connection type is one of the three members of the enum, so the
  \<^verbatim>\<open>else\<close> branch that raises for an unsupported type has no case here, and nothing
  inside the \<^verbatim>\<open>try\<close> raises: the only exception is the one for a name that is not
  configured. An existing connection is not closed first.
\<close>

definition connect :: "client \<Rightarrow> string \<Rightarrow> (exn + bool) \<times> client" where
  "connect st sname =
     (case servers st sname of
        None \<Rightarrow>
          (Inl (MCPConnectionError [Lit ''Server '', Lit sname, Lit '' not configured'']), st)
      | Some config \<Rightarrow>
          (let (success, st1) =
                 (case connection_type config of
                    SSE \<Rightarrow> connect_sse st sname config
                  | WEBSOCKET \<Rightarrow> connect_websocket st sname config
                  | STDIO \<Rightarrow> connect_stdio st sname config)
           in if success then
                (let (sid, st2) = new_uuid st1;
                     s = \<lparr>session_id = sid, server_name = sname,
                          created_at = now (world st2), last_activity = now (world st2),
                          is_active = True\<rparr>
                 in (Inr True,
                     st2\<lparr>sessions := (sessions st2)(sname \<mapsto> s),
                         health_check_tasks := insert sname (health_check_tasks st2)\<rparr>))
              else (Inr False, st1)))"

text \<open>
  Decoding a response: an \<^verbatim>\<open>"error"\<close> key raises a tool error, otherwise the
  \<^verbatim>\<open>"result"\<close> field is returned (\<open>{}\<close> when absent). The \<^verbatim>\<open>"id"\<close> of the response is
  not read. A response that is not a dict raises a \<^verbatim>\<open>TypeError\<close> or an
  \<^verbatim>\<open>AttributeError\<close>, which one depending on its shape; they are not told apart here.
\<close>

definition decode_response :: "json \<Rightarrow> exn + json" where
  "decode_response response =
     (case response of
        JObj kvs \<Rightarrow>
          (case map_of kvs ''error'' of
             Some err \<Rightarrow> Inl (MCPToolError [Lit ''Tool error: '', Str_json err])
           | None \<Rightarrow> Inr (dict_get kvs ''result'' (JObj [])))
      | other \<Rightarrow> Inl (OtherError [Lit ''TypeError or AttributeError: response is not a dict'']))"

definition timed_out :: "int \<Rightarrow> exn" where
  "timed_out t = MCPToolError [Lit ''Tool execution timed out after '', Str_int t, Lit '' seconds'']"

definition execute_sse_request :: "sse_outcome \<Rightarrow> int \<Rightarrow> exn + json" where
  "execute_sse_request outcome t =
     (case outcome of
        Sse_response status reason body \<Rightarrow>
          if status \<noteq> 200
          then Inl (MCPToolError [Lit ''HTTP '', Str_int status, Lit '': '', Lit reason])
          else decode_response body
      | Sse_timeout \<Rightarrow> Inl (timed_out t)
      | Sse_raised e \<Rightarrow> Inl e)"

definition execute_websocket_request :: "ws_outcome \<Rightarrow> int \<Rightarrow> exn + json" where
  "execute_websocket_request outcome t =
     (case outcome of
        Ws_message response \<Rightarrow> decode_response response
      | Ws_timeout \<Rightarrow> Inl (timed_out t)
      | Ws_closed \<Rightarrow> Inl (MCPConnectionError [Lit ''WebSocket connection closed''])
      | Ws_raised e \<Rightarrow> Inl e)"

definition execute_stdio_request :: "stdio_outcome \<Rightarrow> int \<Rightarrow> exn + json" where
  "execute_stdio_request outcome t =
     (case outcome of
        Stdio_line response \<Rightarrow> decode_response response
      | Stdio_timeout \<Rightarrow> Inl (timed_out t)
      | Stdio_raised e \<Rightarrow> Inl e)"

definition request_data :: "string \<Rightarrow> string \<Rightarrow> json \<Rightarrow> json" where
  "request_data rid tool_name arguments =
     JObj [(''jsonrpc'', JStr ''2.0''), (''id'', JStr rid), (''method'', JStr ''tools/call''),
           (''params'', JObj [(''name'', JStr tool_name), (''arguments'', arguments)])]"

text \<open>
  \<^verbatim>\<open>_execute_tool_request\<close>: \<^verbatim>\<open>self.connections[server_name]\<close> raises \<^verbatim>\<open>KeyError\<close>
  for a missing entry; the request gets a new uuid; the transport is chosen by the
  \<^verbatim>\<open>"type"\<close> string of the connection, and a string that names no transport raises a
  tool error with nothing put on a transport. \<open>answered\<close> records the request and its
  outcome.
\<close>

definition answered :: "client \<Rightarrow> string \<Rightarrow> json \<Rightarrow> bool \<Rightarrow> (exn + json) \<Rightarrow> (exn + json) \<times> client" where
  "answered st sname d on_transport outcome =
     (outcome,
      st\<lparr>world := (world st)\<lparr>
           requested := (if on_transport then Suc (requested (world st)) else requested (world st)),
           trace := trace (world st) @ [Ev_request sname d outcome]\<rparr>\<rparr>)"

definition execute_tool_request ::
  "client \<Rightarrow> string \<Rightarrow> string \<Rightarrow> json \<Rightarrow> int \<Rightarrow> (exn + json) \<times> client" where
  "execute_tool_request st sname tool_name arguments t =
     (case connections st sname of
        None \<Rightarrow> (Inl (KeyError [Lit sname]), st)
      | Some conn \<Rightarrow>
          (let (rid, st1) = new_uuid st;
               w = world st1;
               k = requested w;
               d = request_data rid tool_name arguments
           in if conn_type conn = ''sse''
                then answered st1 sname d True (execute_sse_request (sse_replies w k) t)
              else if conn_type conn = ''websocket''
                then answered st1 sname d True (execute_websocket_request (ws_replies w k) t)
              else if conn_type conn = ''stdio''
                then answered st1 sname d True (execute_stdio_request (stdio_replies w k) t)
              else answered st1 sname d False
                     (Inl (MCPToolError [Lit ''Unsupported connection type: '',
                                         Lit (conn_type conn)]))))"

text \<open>
  The retry loop of \<^verbatim>\<open>execute_tool\<close>, over the values of \<^verbatim>\<open>range(config.max_retries)\<close>
  that are left. The sleep and the reconnect are inside the \<^verbatim>\<open>except\<close> block, so an
  exception of theirs leaves \<^verbatim>\<open>execute_tool\<close>.

  The delay \<^verbatim>\<open>config.retry_delay * (2 ** attempt)\<close> is the product of a float and an
  integer. Python converts the integer to a float first, which raises \<^verbatim>\<open>OverflowError\<close>
  from \<open>2 ** 1024\<close> on, whatever the float is. Below that the integer is a power of two
  that a float holds exactly, and the product is exact as long as it is below \<open>2 ^ 1024\<close>;
  the sleep is taken to last exactly that long. A product of \<open>2 ^ 1024\<close> or more is
  \<^verbatim>\<open>inf\<close> in Python, and \<^verbatim>\<open>asyncio.sleep(inf)\<close> does not return: the loop has no value
  for that, and \<open>sleeps_fit\<close> is the condition under which the first \<open>n\<close> sleeps of a
  call do not meet either case.
\<close>

definition sleeps_fit :: "server_config \<Rightarrow> nat \<Rightarrow> bool" where
  "sleeps_fit config n \<longleftrightarrow> n \<le> 1024 \<and> retry_delay config * 2 ^ (n - 1) < 2 ^ 1024"

fun retry_loop ::
  "server_config \<Rightarrow> string \<Rightarrow> string \<Rightarrow> json \<Rightarrow> int \<Rightarrow> nat list \<Rightarrow> exn option \<Rightarrow> client
     \<Rightarrow> (exn + json) \<times> client" where
  "retry_loop config sname tool_name arguments t [] last_exception st =
     (Inl (MCPToolError [Lit ''Tool execution failed after '', Str_int (max_retries config),
                         Lit '' attempts: '', Str_exn last_exception]), st)"
| "retry_loop config sname tool_name arguments t (attempt # rest) last_exception st =
     (case execute_tool_request st sname tool_name arguments t of
        (Inr result, st1) \<Rightarrow> (Inr result, st1)
      | (Inl e, st1) \<Rightarrow>
          (let st2 = log_event st1 (Ev_attempt_failed (int attempt + 1) e)
           in if int attempt < max_retries config - 1 then
                if 1024 \<le> attempt
                then (Inl (OverflowError [Lit ''int too large to convert to float'']), st2)
                else
                  (let st3 = sleep st2 (retry_delay config * 2 ^ attempt)
                   in if is_connection_error e then
                        (case connect (log_event st3 (Ev_reconnect sname)) sname of
                           (Inl e', st4) \<Rightarrow> (Inl e', st4)
                         | (Inr ok, st4) \<Rightarrow>
                             retry_loop config sname tool_name arguments t rest (Some e) st4)
                      else retry_loop config sname tool_name arguments t rest (Some e) st3)
              else retry_loop config sname tool_name arguments t rest (Some e) st2))"

text \<open>\<^verbatim>\<open>datetime.now()\<close> stored in the session of a server, when there is one.\<close>

definition touch :: "client \<Rightarrow> string \<Rightarrow> client" where
  "touch st sname =
     (case sessions st sname of
        None \<Rightarrow> st
      | Some s \<Rightarrow> st\<lparr>sessions := (sessions st)(sname \<mapsto> s\<lparr>last_activity := now (world st)\<rparr>)\<rparr>)"

text \<open>
  \<^verbatim>\<open>timeout or config.timeout\<close>: the configured timeout for \<open>None\<close> and for \<open>0\<close>.
\<close>

definition effective_timeout :: "server_config \<Rightarrow> int option \<Rightarrow> int" where
  "effective_timeout config t =
     (case t of None \<Rightarrow> timeout config | Some v \<Rightarrow> if v = 0 then timeout config else v)"

text \<open>
  \<^verbatim>\<open>execute_tool\<close>. \<^verbatim>\<open>self.servers[server_name]\<close> raises \<^verbatim>\<open>KeyError\<close> for a name that
  has a connection and no configuration.
\<close>

definition execute_tool ::
  "client \<Rightarrow> string \<Rightarrow> string \<Rightarrow> json \<Rightarrow> int option \<Rightarrow> (exn + json) \<times> client" where
  "execute_tool st sname tool_name arguments t =
     (case (if sname \<notin> dom (connections st)
            then (case connect st sname of
                    (Inl e, st1) \<Rightarrow> (Some e, st1)
                  | (Inr ok, st1) \<Rightarrow>
                      if \<not> ok
                      then (Some (MCPConnectionError [Lit ''Cannot connect to server: '', Lit sname]),
                            st1)
                      else (None, st1))
            else (None, st)) of
        (Some e, st1) \<Rightarrow> (Inl e, st1)
      | (None, st1) \<Rightarrow>
          (case servers st1 sname of
             None \<Rightarrow> (Inl (KeyError [Lit sname]), st1)
           | Some config \<Rightarrow>
               retry_loop config sname tool_name arguments (effective_timeout config t)
                 [0..<nat (max_retries config)] None (touch st1 sname)))"

text \<open>
  \<^verbatim>\<open>list_tools\<close>: every exception is caught, also the \<^verbatim>\<open>AttributeError\<close> of
  \<^verbatim>\<open>result.get\<close> on a result that is not a dict.
\<close>

definition list_tools :: "client \<Rightarrow> string \<Rightarrow> json \<times> client" where
  "list_tools st sname =
     (case execute_tool st sname ''list_tools'' (JObj []) None of
        (Inl e, st1) \<Rightarrow> (JArr [], st1)
      | (Inr result, st1) \<Rightarrow>
          (case result of
             JObj kvs \<Rightarrow> (dict_get kvs ''tools'' (JArr []), st1)
           | other \<Rightarrow> (JArr [], st1)))"




text \<open>The value of a member of the enum \<^verbatim>\<open>MCPConnectionType\<close>.\<close>

fun connection_type_value :: "connection_type \<Rightarrow> string" where
  "connection_type_value STDIO = ''stdio''"
| "connection_type_value SSE = ''sse''"
| "connection_type_value WEBSOCKET = ''websocket''"

subsection \<open>Reading the effects\<close>

text \<open>
  What the \<open>k\<close>-th request meets on a connection whose \<^verbatim>\<open>"type"\<close> is \<open>kind\<close>, with
  timeout \<open>t\<close>: the outcome of the attempt that makes it.
\<close>

definition attempt_outcome :: "world \<Rightarrow> string \<Rightarrow> nat \<Rightarrow> int \<Rightarrow> exn + json" where
  "attempt_outcome w kind k t =
     (if kind = ''sse'' then execute_sse_request (sse_replies w k) t
      else if kind = ''websocket'' then execute_websocket_request (ws_replies w k) t
      else if kind = ''stdio'' then execute_stdio_request (stdio_replies w k) t
      else Inl (MCPToolError [Lit ''Unsupported connection type: '', Lit kind]))"

text \<open>A world in which every request fails, on whatever kind of connection it is made.\<close>

definition always_fails :: "world \<Rightarrow> int \<Rightarrow> bool" where
  "always_fails w t \<longleftrightarrow> (\<forall>kind k. isl (attempt_outcome w kind k t))"

text \<open>
  Attempts and sleeps of a stretch of effects, in order; the outcomes of its attempts;
  the failures it logged; the number of its reconnects as the log announces them, and the
  number of times a transport was opened.
\<close>

datatype tick = Attempt | Sleep rat

fun tick_of :: "event \<Rightarrow> tick list" where
  "tick_of (Ev_request s d outcome) = [Attempt]"
| "tick_of (Ev_sleep d) = [Sleep d]"
| "tick_of ev = []"

definition ticks :: "event list \<Rightarrow> tick list" where
  "ticks evs = concat (map tick_of evs)"

fun failure_of :: "event \<Rightarrow> (int \<times> exn) list" where
  "failure_of (Ev_attempt_failed n e) = [(n, e)]"
| "failure_of ev = []"

definition failures :: "event list \<Rightarrow> (int \<times> exn) list" where
  "failures evs = concat (map failure_of evs)"

fun is_reconnect :: "event \<Rightarrow> bool" where
  "is_reconnect (Ev_reconnect s) = True"
| "is_reconnect ev = False"

definition reconnects :: "event list \<Rightarrow> nat" where
  "reconnects evs = length (filter is_reconnect evs)"

fun outcome_of :: "event \<Rightarrow> (exn + json) list" where
  "outcome_of (Ev_request s d outcome) = [outcome]"
| "outcome_of ev = []"

definition outcomes :: "event list \<Rightarrow> (exn + json) list" where
  "outcomes evs = concat (map outcome_of evs)"

fun is_open :: "event \<Rightarrow> bool" where
  "is_open (Ev_open s) = True"
| "is_open ev = False"

definition opens :: "event list \<Rightarrow> nat" where
  "opens evs = length (filter is_open evs)"

text \<open>
  The effects of a call: what the trace has gained between the state before and the state
  after.
\<close>

definition effects :: "client \<Rightarrow> client \<Rightarrow> event list" where
  "effects st st' = drop (length (trace (world st))) (trace (world st'))"

text \<open>
  The schedule of a retry loop in which no attempt succeeds, for the attempts \<open>as\<close> that
  are left: after each attempt that is not the last of \<open>n\<close>, a sleep of \<open>d * 2 ^ attempt\<close>.
\<close>

fun backoff_schedule :: "rat \<Rightarrow> int \<Rightarrow> nat list \<Rightarrow> tick list" where
  "backoff_schedule d n [] = []"
| "backoff_schedule d n (attempt # rest) =
     Attempt # (if int attempt < n - 1 then [Sleep (d * 2 ^ attempt)] else [])
       @ backoff_schedule d n rest"

fun attempts_of :: "tick list \<Rightarrow> nat" where
  "attempts_of [] = 0"
| "attempts_of (Attempt # ts) = Suc (attempts_of ts)"
| "attempts_of (Sleep d # ts) = attempts_of ts"

fun sleeps_of :: "tick list \<Rightarrow> rat list" where
  "sleeps_of [] = []"
| "sleeps_of (Attempt # ts) = sleeps_of ts"
| "sleeps_of (Sleep d # ts) = d # sleeps_of ts"

definition new_client :: "world \<Rightarrow> client" where
  "new_client w =
     \<lparr>servers = Map.empty, sessions = Map.empty, connections = Map.empty,
      health_check_tasks = {}, world = w\<rparr>"

definition add_server :: "client \<Rightarrow> server_config \<Rightarrow> client" where
  "add_server st config = st\<lparr>servers := (servers st)(name config \<mapsto> config)\<rparr>"

section \<open>Correlation as the specification words it, and two runs of the handshake client\<close>

text \<open>
  The request correlator of the specification, for one waiting caller: incoming envelopes
  are matched by id; one that does not carry the caller's id is dropped and the caller
  keeps waiting; the first one that carries it is the caller's response. This definition
  follows the words of the specification, not the source, and is only compared with it.
\<close>

fun correlate_spec :: "int \<Rightarrow> rx list \<Rightarrow> json option" where
  "correlate_spec rid [] = None"
| "correlate_spec rid (Rx_line (JObj kvs) # rest) =
     (if py_eq_int (map_of kvs ''id'') rid then Some (JObj kvs) else correlate_spec rid rest)"
| "correlate_spec rid (x # rest) = correlate_spec rid rest"

text \<open>
  A child that answers the handshake and then one tool call, and the client before and
  after the handshake with it.
\<close>

definition handshake_example :: "rx list" where
  "handshake_example =
     [Rx_line (JObj [(''jsonrpc'', JStr ''2.0''), (''id'', JInt 1), (''result'', JObj [])]),
      Rx_line (JObj [(''jsonrpc'', JStr ''2.0''), (''id'', JInt 2),
                     (''result'', JObj [(''ok'', JBool True)])])]"

definition started_example :: stdio_client where
  "started_example = snd (start (init_client ''srv'') (Some handshake_example))"

definition ready_example :: stdio_client where
  "ready_example = snd (initialize started_example)"

text \<open>
  The same child, printing a notification of its own (no id) before it answers the tool
  call.
\<close>

definition stray_example :: "rx list" where
  "stray_example =
     [Rx_line (JObj [(''jsonrpc'', JStr ''2.0''), (''id'', JInt 1), (''result'', JObj [])]),
      Rx_line (JObj [(''jsonrpc'', JStr ''2.0''), (''method'', JStr ''notifications/message'')]),
      Rx_line (JObj [(''jsonrpc'', JStr ''2.0''), (''id'', JInt 2),
                     (''result'', JObj [(''ok'', JBool True)])])]"

definition stray_client :: stdio_client where
  "stray_client = snd (initialize (snd (start (init_client ''srv'') (Some stray_example))))"

subsection \<open>Restarts of the child\<close>

text \<open>
  The document that \<^verbatim>\<open>initialize\<close> sends under the id \<open>rid\<close>, and the documents a
  listing is answered with in the examples.
\<close>

definition initialize_request :: "int \<Rightarrow> json" where
  "initialize_request rid =
     JObj [(''jsonrpc'', JStr ''2.0''), (''id'', JInt rid),
           (''method'', JStr ''initialize''), (''params'', initialize_params)]"

fun is_start :: "op \<Rightarrow> bool" where
  "is_start (Op_start spawned) = True"
| "is_start x = False"

text \<open>
  The ids on the wire are \<open>1, 2, \<dots>\<close> up to their number: the first request written to
  the child has id \<open>1\<close> and each later one the next integer.
\<close>

definition consecutive :: "int list \<Rightarrow> bool" where
  "consecutive ids \<longleftrightarrow> ids = map int [1..<Suc (length ids)]"

text \<open>
  The state of a client whose child was started once and before anything else: it has a
  child, the ids written to it are consecutive, and as long as the child lives every id
  drawn has been written.
\<close>

definition in_step :: "stdio_client \<Rightarrow> bool" where
  "in_step c \<longleftrightarrow>
     (case process c of
        None \<Rightarrow> False
      | Some p \<Rightarrow> (alive p \<longrightarrow> request_id c = int (length (wire_ids c)))) \<and>
     consecutive (wire_ids c) \<and> int (length (wire_ids c)) \<le> request_id c"

text \<open>
  \<open>c'\<close> is \<open>c\<close> after one id was drawn and a request with it handed to
  \<^verbatim>\<open>_send_request\<close>: the request is on the wire exactly if the child is alive.
\<close>

definition drew :: "stdio_client \<Rightarrow> stdio_client \<Rightarrow> bool" where
  "drew c c' \<longleftrightarrow>
     request_id c' = request_id c + 1 \<and>
     map_option alive (process c') = map_option alive (process c) \<and>
     wire_ids c' =
       wire_ids c @ (if map_option alive (process c) = Some True then [request_id c + 1] else [])"

text \<open>
  A client that calls \<^verbatim>\<open>initialize\<close> before \<^verbatim>\<open>start\<close>, then starts a child that
  answers a handshake under the id \<open>2\<close>, and initializes again.
\<close>

definition early_ops :: "op list" where
  "early_ops =
     [Op_initialize,
      Op_start (Some [Rx_line (JObj [(''jsonrpc'', JStr ''2.0''), (''id'', JInt 2),
                                     (''result'', JObj [])])]),
      Op_initialize]"

text \<open>
  The client of the handshake example once its child has been started a second time; the
  new child answers the request with id \<open>2\<close>.
\<close>

definition restarted_example :: stdio_client where
  "restarted_example =
     snd (start ready_example
       (Some [Rx_line (JObj [(''jsonrpc'', JStr ''2.0''), (''id'', JInt 2),
                             (''result'', JObj [(''ok'', JBool True)])])]))"

text \<open>
  A child that answers the handshake and then a listing with a list of one tool, and the
  client after the handshake with it.
\<close>

definition listing_answers :: "rx list" where
  "listing_answers =
     [Rx_line (JObj [(''jsonrpc'', JStr ''2.0''), (''id'', JInt 1), (''result'', JObj [])]),
      Rx_line (JObj [(''jsonrpc'', JStr ''2.0''), (''id'', JInt 2),
                     (''result'', JObj [(''tools'', JArr [JStr ''ping''])])])]"

definition listing_example :: stdio_client where
  "listing_example = snd (initialize (snd (start (init_client ''srv'') (Some listing_answers))))"

section \<open>Configurations and worlds of the examples\<close>

definition example_config :: server_config where
  "example_config =
     \<lparr>name = ''wa'', connection_type = WEBSOCKET, endpoint = ''ws://localhost:9000'',
      auth_token = None, timeout = 30, max_retries = 3, retry_delay = 1,
      health_check_interval = 60, session_timeout = 3600, custom_headers = []\<rparr>"

text \<open>A world in which no transport can be opened and every request times out.\<close>

definition dead_world :: world where
  "dead_world =
     \<lparr>now = 0, open_ok = (\<lambda>k. False), opened = 0,
      sse_replies = (\<lambda>k. Sse_timeout), ws_replies = (\<lambda>k. Ws_timeout),
      stdio_replies = (\<lambda>k. Stdio_timeout), requested = 0,
      close_raises = (\<lambda>k. None), closed = 0, uuid4 = (\<lambda>k. ''u''), uuids = 0, trace = []\<rparr>"

text \<open>A world in which transports open and every request times out.\<close>

definition failing_world :: world where
  "failing_world = dead_world\<lparr>open_ok := (\<lambda>k. True)\<rparr>"

text \<open>
  A world in which transports open, the first two requests find the socket closed and
  every later one is answered with a list of one tool.
\<close>

definition flaky_world :: world where
  "flaky_world =
     dead_world\<lparr>open_ok := (\<lambda>k. True),
       ws_replies := (\<lambda>k. if k < 2 then Ws_closed
                           else Ws_message (JObj [(''id'', JStr ''u''),
                                  (''result'', JObj [(''tools'', JArr [JStr ''ping''])])]))\<rparr>"

definition example_client :: "world \<Rightarrow> client" where
  "example_client w = add_server (new_client w) example_config"

text \<open>The client of the flaky world once it has connected.\<close>

definition connected_example :: client where
  "connected_example = snd (connect (example_client flaky_world) ''wa'')"



text \<open>A world in which transports open and every request is answered with a string.\<close>

definition odd_world :: world where
  "odd_world =
     dead_world\<lparr>open_ok := (\<lambda>k. True),
       ws_replies := (\<lambda>k. Ws_message (JObj [(''result'', JStr ''no tools here'')]))\<rparr>"

text \<open>
  The same server with 1026 and with 2000 attempts allowed, and a world in which
  transports open, the first 1025 requests find the socket closed and every later one is
  answered.
\<close>

definition patient_config :: server_config where
  "patient_config = example_config\<lparr>max_retries := 1026\<rparr>"

definition patient_client :: "world \<Rightarrow> client" where
  "patient_client w = add_server (new_client w) patient_config"

definition stoic_config :: server_config where
  "stoic_config = example_config\<lparr>max_retries := 2000\<rparr>"

definition stoic_client :: "world \<Rightarrow> client" where
  "stoic_client w = add_server (new_client w) stoic_config"

definition outage_world :: world where
  "outage_world =
     dead_world\<lparr>open_ok := (\<lambda>k. True),
       ws_replies := (\<lambda>k. if k < 1025 then Ws_closed
                           else Ws_message (JObj [(''id'', JStr ''u''), (''result'', JObj [])]))\<rparr>"

subsection \<open>Relations between the states of a run\<close>

text \<open>
  \<open>same_outside\<close>: the behaviour of the transports and the configurations are the same in
  both states. \<open>extends st evs st'\<close>: the effects between the two states are \<open>evs\<close>.
  \<open>linked\<close>: the server is configured and has a connection. \<open>usable\<close>: the server is
  configured, and either has a connection or has none and the next attempt to open a
  transport succeeds.
\<close>

definition same_outside :: "client \<Rightarrow> client \<Rightarrow> bool" where
  "same_outside st st' \<longleftrightarrow>
     open_ok (world st') = open_ok (world st) \<and>
     sse_replies (world st') = sse_replies (world st) \<and>
     ws_replies (world st') = ws_replies (world st) \<and>
     stdio_replies (world st') = stdio_replies (world st) \<and>
     servers st' = servers st"

definition extends :: "client \<Rightarrow> event list \<Rightarrow> client \<Rightarrow> bool" where
  "extends st evs st' \<longleftrightarrow> trace (world st') = trace (world st) @ evs"

definition linked :: "client \<Rightarrow> string \<Rightarrow> server_config \<Rightarrow> bool" where
  "linked st s config \<longleftrightarrow> servers st s = Some config \<and> s \<in> dom (connections st)"

definition usable :: "client \<Rightarrow> string \<Rightarrow> server_config \<Rightarrow> bool" where
  "usable st s config \<longleftrightarrow>
     servers st s = Some config \<and>
     (s \<in> dom (connections st) \<or> open_ok (world st) (opened (world st)))"

text \<open>
  The \<^verbatim>\<open>"type"\<close> of the connection that attempt number \<open>i\<close> of a call (counted from
  \<open>0\<close>) is made on, when each attempt before it was followed by a reconnect: the type
  of the connection the server has when the call starts, until a transport has been
  opened with success, and from then on the type of the configuration. A call on a
  server without a connection opens one before its first attempt.
\<close>

definition kind_at :: "client \<Rightarrow> string \<Rightarrow> server_config \<Rightarrow> nat \<Rightarrow> string" where
  "kind_at st s config i =
     (case connections st s of
        None \<Rightarrow> connection_type_value (connection_type config)
      | Some conn \<Rightarrow>
          if list_ex (\<lambda>j. open_ok (world st) (opened (world st) + j)) [0..<i]
          then connection_type_value (connection_type config)
          else conn_type conn)"

text \<open>
  What the retry loop does after an attempt number \<open>a\<close> (counted from \<open>0\<close>) has failed
  with \<open>e\<close> and before the next attempt, when the delay can be computed: the warning,
  and, if the attempt is not the last, the sleep and, for a connection error, the
  announcement of the reconnect and the opening of a transport.
\<close>

definition after_failure :: "server_config \<Rightarrow> string \<Rightarrow> nat \<Rightarrow> exn \<Rightarrow> event list" where
  "after_failure config s a e =
     Ev_attempt_failed (int a + 1) e #
     (if int a < max_retries config - 1
      then Ev_sleep (retry_delay config * 2 ^ a) #
           (if is_connection_error e then [Ev_reconnect s, Ev_open s] else [])
      else [])"

text \<open>
  A logged failure after which the retry loop reconnects: a connection error of an attempt
  that is not the last of \<open>n\<close> and whose delay can be computed.
\<close>

definition reconnect_due :: "int \<Rightarrow> int \<times> exn \<Rightarrow> bool" where
  "reconnect_due n f \<longleftrightarrow> is_connection_error (snd f) \<and> fst f < n \<and> fst f \<le> 1024"

text \<open>The error of a delay that cannot be computed.\<close>

definition overflow :: exn where
  "overflow = OverflowError [Lit ''int too large to convert to float'']"

text \<open>The message of the error that ends a retry loop.\<close>

definition exhausted :: "server_config \<Rightarrow> exn option \<Rightarrow> exn" where
  "exhausted config last_exception =
     MCPToolError [Lit ''Tool execution failed after '', Str_int (max_retries config),
                   Lit '' attempts: '', Str_exn last_exception]"

text \<open>
  The first \<open>k\<close> requests of a call that starts in \<open>st\<close> meet connection errors, each on
  the connection its attempt is made on.
\<close>

fun connection_failure :: "exn + json \<Rightarrow> bool" where
  "connection_failure (Inl e) = is_connection_error e"
| "connection_failure (Inr r) = False"

definition outage :: "client \<Rightarrow> string \<Rightarrow> server_config \<Rightarrow> nat \<Rightarrow> int \<Rightarrow> bool" where
  "outage st s config k t \<longleftrightarrow>
     list_all (\<lambda>i. connection_failure
                 (attempt_outcome (world st) (kind_at st s config i) (requested (world st) + i) t))
       [0..<k]"

section \<open>The rate limiter (whatsapp\_mcp\_client.py)\<close>

text \<open>
  Times are seconds, taken as rationals: the arithmetic of the limiter is read as exact.
  The limiter has one list of timestamps, shared by all operation types; the operation
  type only selects the per-minute ceiling. \<open>clock\<close> is what \<^verbatim>\<open>time.time()\<close> returns;
  \<^verbatim>\<open>asyncio.sleep\<close> advances it and is recorded in \<open>slept\<close>, oldest first. The lock makes
  one admission run after the other, so an admission is a function of the limiter.
\<close>

record rate_limits =
  messages_per_minute :: int
  chats_per_minute :: int
  requests_per_second :: int
  burst_limit :: int
  cooldown_period :: int

definition default_rate_limits :: rate_limits where
  "default_rate_limits =
     \<lparr>messages_per_minute = 60, chats_per_minute = 30, requests_per_second = 2,
      burst_limit = 10, cooldown_period = 300\<rparr>"

record limiter =
  limits :: rate_limits
  request_timestamps :: "rat list"
  clock :: rat
  slept :: "rat list"

definition new_limiter :: "rate_limits \<Rightarrow> rat \<Rightarrow> limiter" where
  "new_limiter rl t0 = \<lparr>limits = rl, request_timestamps = [], clock = t0, slept = []\<rparr>"

definition limiter_sleep :: "limiter \<Rightarrow> rat \<Rightarrow> limiter" where
  "limiter_sleep l d = l\<lparr>clock := clock l + d, slept := slept l @ [d]\<rparr>"

definition max_per_minute :: "rate_limits \<Rightarrow> string \<Rightarrow> int" where
  "max_per_minute rl operation_type =
     (if operation_type = ''messages'' then messages_per_minute rl
      else if operation_type = ''chats'' then chats_per_minute rl
      else 30)"

text \<open>The timestamps of a list that are less than \<open>horizon\<close> seconds old at time \<open>t\<close>.\<close>

definition younger :: "rat \<Rightarrow> rat \<Rightarrow> rat list \<Rightarrow> rat list" where
  "younger horizon t tss = filter (\<lambda>ts. t - ts < horizon) tss"

text \<open>
  \<^verbatim>\<open>_enforce_rate_limit\<close>. \<open>now\<close> is read once, at the start. Indexing an empty list raises
  \<^verbatim>\<open>IndexError\<close>; that happens when a ceiling is not positive and its window is empty, and
  then the pruned list has already been stored.
\<close>

text \<open>The check against the per-minute ceiling, on the pruned window.\<close>

definition minute_check :: "limiter \<Rightarrow> rat \<Rightarrow> string \<Rightarrow> (exn + unit) \<times> limiter" where
  "minute_check l1 t operation_type =
     (if int (length (request_timestamps l1)) \<ge> max_per_minute (limits l1) operation_type then
        (case request_timestamps l1 of
           [] \<Rightarrow> (Inl (IndexError [Lit ''list index out of range'']), l1)
         | oldest # others \<Rightarrow>
             (let sleep_time = 60 - (t - oldest)
              in if sleep_time > 0 then (Inr (), limiter_sleep l1 sleep_time)
                 else (Inr (), l1)))
      else (Inr (), l1))"

text \<open>The check against the per-second ceiling, on the timestamps of the last second.\<close>

definition second_check :: "limiter \<Rightarrow> rat \<Rightarrow> (exn + unit) \<times> limiter" where
  "second_check l2 t =
     (let recent_requests = younger 1 t (request_timestamps l2)
      in if int (length recent_requests) \<ge> requests_per_second (limits l2) then
           (case recent_requests of
              [] \<Rightarrow> (Inl (IndexError [Lit ''list index out of range'']), l2)
            | first # others \<Rightarrow>
                (let sleep_time = 1 - (t - first)
                 in if sleep_time > 0 then (Inr (), limiter_sleep l2 sleep_time)
                    else (Inr (), l2)))
         else (Inr (), l2))"

definition enforce_rate_limit :: "limiter \<Rightarrow> string \<Rightarrow> (exn + unit) \<times> limiter" where
  "enforce_rate_limit l operation_type =
     (let now = clock l;
          l1 = l\<lparr>request_timestamps := younger 60 now (request_timestamps l)\<rparr>
      in case minute_check l1 now operation_type of
           (Inl e, l2) \<Rightarrow> (Inl e, l2)
         | (Inr u, l2) \<Rightarrow>
             (case second_check l2 now of
                (Inl e, l3) \<Rightarrow> (Inl e, l3)
              | (Inr u, l3) \<Rightarrow>
                  (Inr (), l3\<lparr>request_timestamps := request_timestamps l3 @ [now]\<rparr>)))"

text \<open>
  A sequence of admissions on one limiter: each call comes \<open>delay\<close> seconds after the
  one before has returned. An exception ends the sequence.
\<close>

definition admit :: "limiter \<Rightarrow> rat \<times> string \<Rightarrow> (exn + unit) \<times> limiter" where
  "admit l call = enforce_rate_limit (l\<lparr>clock := clock l + fst call\<rparr>) (snd call)"

fun admit_all :: "limiter \<Rightarrow> (rat \<times> string) list \<Rightarrow> (exn + unit) \<times> limiter" where
  "admit_all l [] = (Inr (), l)"
| "admit_all l (call # calls) =
     (case admit l call of
        (Inl e, l') \<Rightarrow> (Inl e, l')
      | (Inr u, l') \<Rightarrow> admit_all l' calls)"

text \<open>
  The sleeps of one admission, as the two checks decide them from the pruned window \<open>w\<close>
  and the time \<open>t\<close> of the call.
\<close>

definition minute_wait :: "int \<Rightarrow> rat \<Rightarrow> rat list \<Rightarrow> rat list" where
  "minute_wait cap t w =
     (if int (length w) \<ge> cap \<and> w \<noteq> [] \<and> 60 - (t - hd w) > 0
      then [60 - (t - hd w)] else [])"

definition second_wait :: "int \<Rightarrow> rat \<Rightarrow> rat list \<Rightarrow> rat list" where
  "second_wait cap t w =
     (if int (length (younger 1 t w)) \<ge> cap \<and> younger 1 t w \<noteq> [] \<and>
         1 - (t - hd (younger 1 t w)) > 0
      then [1 - (t - hd (younger 1 t w))] else [])"

text \<open>A limiter with a ceiling of two chats a minute, and three calls ten seconds apart.\<close>

definition small_limits :: rate_limits where
  "small_limits = default_rate_limits\<lparr>chats_per_minute := 2\<rparr>"

definition three_calls :: "(rat \<times> string) list" where
  "three_calls = [(0, ''chats''), (10, ''chats''), (10, ''chats'')]"



text \<open>The window of a limiter as the next admission prunes it.\<close>

definition pruned :: "limiter \<Rightarrow> rat list" where
  "pruned l = younger 60 (clock l) (request_timestamps l)"

text \<open>
  What a sequence of admissions keeps true, for a bound \<open>c\<close> on the ceilings in use: the
  stored window is empty, or it has at most \<open>c + 1\<close> timestamps, and when it has \<open>c + 1\<close>
  the oldest of them has left the 60-second window.
\<close>

definition window_inv :: "int \<Rightarrow> limiter \<Rightarrow> bool" where
  "window_inv c l \<longleftrightarrow>
     request_timestamps l = [] \<or>
     (int (length (request_timestamps l)) \<le> c + 1 \<and>
      (int (length (request_timestamps l)) = c + 1 \<longrightarrow>
         hd (request_timestamps l) + 60 \<le> clock l))"






section \<open>Request ids of the handshake client\<close>

lemma draw_ids_from: "draw_ids n c = map (\<lambda>k. request_id c + int k) [1..<Suc n]"
proof (induction n arbitrary: c)
  case 0 show ?case by simp
next
  case (Suc n)
  have "draw_ids (Suc n) c = (request_id c + 1) # draw_ids n (c\<lparr>request_id := request_id c + 1\<rparr>)"
    by (simp add: next_id_def)
  also have "\<dots> = (request_id c + 1) # map (\<lambda>k. request_id c + 1 + int k) [1..<Suc n]"
    by (simp add: Suc.IH)
  also have "\<dots> = map (\<lambda>k. request_id c + int k) [1..<Suc (Suc n)]"
  proof -
    have "[1..<Suc (Suc n)] = 1 # map Suc [1..<Suc n]"
      by (metis One_nat_def map_Suc_upt upt_conv_Cons zero_less_Suc Suc_less_eq)
    then show ?thesis by (simp add: comp_def)
  qed
  finally show ?case .
qed

text \<open>What sending and reading leave as they were.\<close>

lemma send_drawn:
  assumes "send_request (c\<lparr>request_id := request_id c + 1\<rparr>)
             (JObj ((''jsonrpc'', v) # (''id'', JInt (request_id c + 1)) # rest)) = (r, c')"
  shows "drew c c'"
  using assms
  by (auto simp: send_request_def wire_ids_def drew_def split: option.splits if_splits)

lemma read_keeps:
  assumes "read_response c = (r, c')"
  shows "request_id c' = request_id c" "map_option alive (process c') = map_option alive (process c)"
    "wire_ids c' = wire_ids c"
  using assms
  by (auto simp: read_response_def wire_ids_def split: option.splits list.splits)

lemma notification_keeps:
  assumes "send_request c initialized_notification = (r, c')"
  shows "request_id c' = request_id c" "map_option alive (process c') = map_option alive (process c)"
    "wire_ids c' = wire_ids c"
  using assms
  by (auto simp: send_request_def wire_ids_def initialized_notification_def
      split: option.splits if_splits)

lemma drew_then_kept:
  assumes "drew c c1" "request_id c2 = request_id c1"
    "map_option alive (process c2) = map_option alive (process c1)" "wire_ids c2 = wire_ids c1"
  shows "drew c c2"
  using assms by (simp add: drew_def)

lemma initialize_drew: "drew c (snd (initialize c))"
proof -
  define c1 where "c1 = c\<lparr>request_id := request_id c + 1\<rparr>"
  define req where "req = JObj [(''jsonrpc'', JStr ''2.0''), (''id'', JInt (request_id c + 1)),
                               (''method'', JStr ''initialize''), (''params'', initialize_params)]"
  obtain r2 c2 where s: "send_request c1 req = (r2, c2)" by force
  obtain r3 c3 where r: "read_response c2 = (r3, c3)" by force
  have d2: "drew c c2" using send_drawn[OF s[unfolded c1_def req_def]] .
  have d3: "drew c c3" using drew_then_kept[OF d2 read_keeps[OF r]] .
  have k: "request_id (c3\<lparr>server_info := v\<rparr>) = request_id c3"
    "map_option alive (process (c3\<lparr>server_info := v\<rparr>)) = map_option alive (process c3)"
    "wire_ids (c3\<lparr>server_info := v\<rparr>) = wire_ids c3" for v
    by (simp_all add: wire_ids_def)
  have d4: "drew c (snd (send_request (c3\<lparr>server_info := v\<rparr>) initialized_notification))" for v
  proof -
    obtain r5 c5 where n: "send_request (c3\<lparr>server_info := v\<rparr>) initialized_notification = (r5, c5)"
      by force
    have "drew c (c3\<lparr>server_info := v\<rparr>)" using drew_then_kept[OF d3 k] .
    from drew_then_kept[OF this notification_keeps[OF n]] n show ?thesis by simp
  qed
  have d5: "drew c ((snd (send_request (c3\<lparr>server_info := v\<rparr>) initialized_notification))\<lparr>initialized := True\<rparr>)" for v
    using d4[of v] by (simp add: drew_def wire_ids_def)
  have "snd (initialize c) = c2 \<or> snd (initialize c) = c3 \<or>
     (\<exists>v. snd (initialize c) = snd (send_request (c3\<lparr>server_info := v\<rparr>) initialized_notification) \<or>
       snd (initialize c) = (snd (send_request (c3\<lparr>server_info := v\<rparr>) initialized_notification))\<lparr>initialized := True\<rparr>)"
    unfolding initialize_def next_id_def Let_def prod.case c1_def[symmetric] req_def[symmetric] s r
    by (auto split: sum.splits option.splits json.splits prod.splits) (metis snd_conv)+
  then show ?thesis using d2 d3 d4 d5 by auto
qed

lemma call_tool_drew:
  "(\<not> initialized c \<and> snd (call_tool c t a) = c) \<or> drew c (snd (call_tool c t a))"
proof (cases "initialized c")
  case False
  then show ?thesis by (simp add: call_tool_def)
next
  case True
  define c1 where "c1 = c\<lparr>request_id := request_id c + 1\<rparr>"
  obtain r2 c2 where s: "send_request c1 (tool_call_request (request_id c + 1) t a) = (r2, c2)"
    by force
  obtain r3 c3 where r: "read_response c2 = (r3, c3)" by force
  have d2: "drew c c2" using send_drawn[OF s[unfolded c1_def tool_call_request_def]] .
  have d3: "drew c c3" using drew_then_kept[OF d2 read_keeps[OF r]] .
  have "snd (call_tool c t a) = c2 \<or> snd (call_tool c t a) = c3"
    unfolding call_tool_def next_id_def Let_def prod.case c1_def[symmetric] s r
    using True by (auto split: sum.splits option.splits json.splits)
  then show ?thesis using d2 d3 by auto
qed

lemma list_tools_drew:
  "(\<not> initialized c \<and> snd (stdio_list_tools c) = c) \<or> drew c (snd (stdio_list_tools c))"
proof (cases "initialized c")
  case False
  then show ?thesis by (simp add: stdio_list_tools_def)
next
  case True
  define c1 where "c1 = c\<lparr>request_id := request_id c + 1\<rparr>"
  obtain r2 c2 where s: "send_request c1 (list_tools_request (request_id c + 1)) = (r2, c2)"
    by force
  obtain r3 c3 where r: "read_response c2 = (r3, c3)" by force
  have d2: "drew c c2" using send_drawn[OF s[unfolded c1_def list_tools_request_def]] .
  have d3: "drew c c3" using drew_then_kept[OF d2 read_keeps[OF r]] .
  have "snd (stdio_list_tools c) = c2 \<or> snd (stdio_list_tools c) = c3"
    unfolding stdio_list_tools_def next_id_def Let_def prod.case c1_def[symmetric] s r
    using True by (auto split: sum.splits option.splits json.splits)
  then show ?thesis using d2 d3 by auto
qed

text \<open>The ids on the wire stay increasing, and consecutive on a child started once.\<close>

lemma drew_ids_ok: "ids_ok c \<Longrightarrow> drew c c' \<Longrightarrow> ids_ok c'"
  by (fastforce simp: ids_ok_def drew_def sorted_wrt_append list_all_iff)

lemma consecutive_snoc:
  "consecutive ids \<Longrightarrow> consecutive (ids @ [int (length ids) + 1])"
  by (simp add: consecutive_def)

lemma drew_in_step:
  assumes "in_step c" "drew c c'"
  shows "in_step c'"
proof -
  from assms(1) obtain p where p: "process c = Some p"
    "alive p \<longrightarrow> request_id c = int (length (wire_ids c))"
    "consecutive (wire_ids c)" "int (length (wire_ids c)) \<le> request_id c"
    by (auto simp: in_step_def split: option.splits)
  from assms(2) p(1) obtain p' where p': "process c' = Some p'" "alive p' = alive p"
    by (auto simp: drew_def)
  show ?thesis
  proof (cases "alive p")
    case True
    then have w: "wire_ids c' = wire_ids c @ [int (length (wire_ids c)) + 1]"
      "request_id c' = int (length (wire_ids c)) + 1"
      using assms(2) p by (simp_all add: drew_def)
    then show ?thesis using p' consecutive_snoc[OF p(3)] by (simp add: in_step_def)
  next
    case False
    then have "wire_ids c' = wire_ids c" "request_id c' = request_id c + 1"
      using assms(2) p by (simp_all add: drew_def)
    then show ?thesis using p p' False by (simp add: in_step_def)
  qed
qed

lemma start_ids: "ids_ok c \<Longrightarrow> ids_ok (snd (start c spawned))"
  by (auto simp: start_def ids_ok_def wire_ids_def split: option.splits)

lemma close_ids: "ids_ok c \<Longrightarrow> ids_ok (close c)"
  by (auto simp: close_def ids_ok_def wire_ids_def split: option.splits)

lemma close_in_step: "in_step c \<Longrightarrow> in_step (close c)"
  by (auto simp: close_def in_step_def wire_ids_def split: option.splits)

lemma step_ids:
  assumes "ids_ok c"
  shows "ids_ok (step c x)"
proof (cases x)
  case (Op_start sp)
  then show ?thesis using assms by (simp add: start_ids)
next
  case Op_initialize
  then show ?thesis using assms initialize_drew[of c] by (auto intro: drew_ids_ok)
next
  case (Op_call_tool t a)
  then show ?thesis using assms call_tool_drew[of c t a] by (auto intro: drew_ids_ok)
next
  case Op_list_tools
  then show ?thesis using assms list_tools_drew[of c] by (auto intro: drew_ids_ok)
next
  case Op_close
  then show ?thesis using assms by (simp add: close_ids)
qed

lemma step_in_step:
  assumes "in_step c" "\<not> is_start x"
  shows "in_step (step c x)"
proof (cases x)
  case (Op_start sp)
  then show ?thesis using assms by simp
next
  case Op_initialize
  then show ?thesis using assms initialize_drew[of c] by (auto intro: drew_in_step)
next
  case (Op_call_tool t a)
  then show ?thesis using assms call_tool_drew[of c t a] by (auto intro: drew_in_step)
next
  case Op_list_tools
  then show ?thesis using assms list_tools_drew[of c] by (auto intro: drew_in_step)
next
  case Op_close
  then show ?thesis using assms by (simp add: close_in_step)
qed

lemma run_ops_ids: "ids_ok c \<Longrightarrow> ids_ok (run_ops c ops)"
  unfolding run_ops_def by (induction ops arbitrary: c) (simp_all add: step_ids)

lemma run_ops_in_step: "in_step c \<Longrightarrow> \<not> list_ex is_start ops \<Longrightarrow> in_step (run_ops c ops)"
  unfolding run_ops_def by (induction ops arbitrary: c) (simp_all add: step_in_step)

lemma init_ids: "ids_ok (init_client exe)"
  by (simp add: ids_ok_def init_client_def wire_ids_def)

lemma started_in_step: "in_step (step (init_client exe) (Op_start (Some rxs)))"
  by (simp add: in_step_def start_def init_client_def wire_ids_def consecutive_def)

lemma run_ops_Cons: "run_ops c (x # ops) = run_ops (step c x) ops"
  by (simp add: run_ops_def)

text \<open>
  Claim C8, as stated, fails: the first request sent need not have the id \<open>1\<close>. A call
  of \<^verbatim>\<open>initialize\<close> before \<^verbatim>\<open>start\<close> draws the id \<open>1\<close> and then cannot send (the
  exception is caught and \<^verbatim>\<open>initialize\<close> returns \<open>False\<close>); the child started
  afterwards gets the handshake under the id \<open>2\<close>, which succeeds.
\<close>

theorem first_request_sent_has_id_two:
  "wire_ids (run_ops (init_client ''srv'') early_ops) = [2] \<and>
   initialized (run_ops (init_client ''srv'') early_ops) \<and>
   request_id (run_ops (init_client ''srv'') early_ops) = 2"
  by (simp add: early_ops_def run_ops_def init_client_def start_def initialize_def next_id_def
      send_request_def read_response_def initialized_notification_def initialize_params_def
      dict_get_def wire_ids_def)

text \<open>
  Claim C8, amended. The ids come from one counter of the client object, which starts at
  \<open>0\<close>, is incremented by every draw, whether or not the request can then be sent, and
  is never reset: \<open>n\<close> successive draws on a new client give exactly \<open>1\<close> to \<open>n\<close>.
  Whatever operations are run on a new client, in any order and whatever the child
  answers, the ids of the requests written to the current child are strictly increasing,
  each at least \<open>1\<close> and at most the counter. On a client whose child is started before
  anything else and not started again, they are exactly \<open>1, 2, \<dots>\<close> up to their number:
  the first request sent has the id \<open>1\<close>.
\<close>

theorem request_ids_increase_from_one:
  "draw_ids n (init_client exe) = map int [1..<Suc n] \<and>
   sorted_wrt (<) (wire_ids (run_ops (init_client exe) ops)) \<and>
   list_all (\<lambda>i. 1 \<le> i \<and> i \<le> request_id (run_ops (init_client exe) ops))
     (wire_ids (run_ops (init_client exe) ops)) \<and>
   (\<not> list_ex is_start ops \<longrightarrow>
      consecutive (wire_ids (run_ops (init_client exe) (Op_start (Some rxs) # ops))))"
proof -
  have "\<not> list_ex is_start ops \<longrightarrow>
      consecutive (wire_ids (run_ops (init_client exe) (Op_start (Some rxs) # ops)))"
    using run_ops_in_step[OF started_in_step, of ops exe rxs]
    by (simp add: run_ops_Cons in_step_def)
  then show ?thesis
    using run_ops_ids[OF init_ids, of exe ops]
    by (simp add: draw_ids_from init_client_def ids_ok_def)
qed

theorem request_ids_increase_from_one_witness:
  "draw_ids 3 (init_client ''srv'') = [1, 2, 3] \<and>
   \<not> list_ex is_start [Op_initialize, Op_call_tool ''ping'' (JObj [])] \<and>
   wire_ids (run_ops (init_client ''srv'')
     [Op_start (Some [Rx_line (JObj [(''id'', JInt 1), (''result'', JObj [])])]),
      Op_initialize, Op_call_tool ''ping'' (JObj [])]) = [1, 2] \<and>
   consecutive [1, 2]"
proof -
  have w: "wire_ids (run_ops (init_client ''srv'')
     [Op_start (Some [Rx_line (JObj [(''id'', JInt 1), (''result'', JObj [])])]),
      Op_initialize, Op_call_tool ''ping'' (JObj [])]) = [1, 2]"
    by (simp add: run_ops_def init_client_def start_def initialize_def next_id_def
        send_request_def read_response_def call_tool_def tool_call_request_def
        initialized_notification_def initialize_params_def dict_get_def wire_ids_def)
  have n: "\<not> list_ex is_start [Op_initialize, Op_call_tool ''ping'' (JObj [])]" by simp
  have u: "[1..<Suc 3] = [1, 2, 3]" by (simp add: upt_rec)
  note t = request_ids_increase_from_one[of 3 "''srv''" "[Op_initialize, Op_call_tool ''ping'' (JObj [])]"
      "[Rx_line (JObj [(''id'', JInt 1), (''result'', JObj [])])]"]
  from t[THEN conjunct2, THEN conjunct2, THEN conjunct2, THEN mp, OF n] w
  have c: "consecutive [1, 2]" by simp
  from t u have d: "draw_ids 3 (init_client ''srv'') = [1, 2, 3]" by simp
  from d n w c show ?thesis by blast
qed

section \<open>The handshake guard\<close>

lemma send_request_initialized: "initialized (snd (send_request c r)) = initialized c"
  by (simp add: send_request_def split: option.splits)

lemma read_response_initialized: "initialized (snd (read_response c)) = initialized c"
  by (simp add: read_response_def split: option.splits list.splits)

lemma call_tool_initialized: "initialized (snd (call_tool c t a)) = initialized c"
proof (cases "initialized c")
  case False
  then show ?thesis by (simp add: call_tool_def)
next
  case True
  define c1 where "c1 = c\<lparr>request_id := request_id c + 1\<rparr>"
  define c2 where "c2 = snd (send_request c1 (tool_call_request (request_id c + 1) t a))"
  define c3 where "c3 = snd (read_response c2)"
  have i: "initialized c2" "initialized c3"
    using True by (simp_all add: c1_def c2_def c3_def send_request_initialized read_response_initialized)
  have "snd (call_tool c t a) = c2 \<or> snd (call_tool c t a) = c3"
    unfolding call_tool_def next_id_def Let_def prod.case c1_def[symmetric] c2_def c3_def
    using True by (auto split: sum.splits option.splits json.splits prod.splits)
  then show ?thesis using i True by auto
qed

lemma list_tools_initialized: "initialized (snd (stdio_list_tools c)) = initialized c"
proof (cases "initialized c")
  case False
  then show ?thesis by (simp add: stdio_list_tools_def)
next
  case True
  define c1 where "c1 = c\<lparr>request_id := request_id c + 1\<rparr>"
  define c2 where "c2 = snd (send_request c1 (list_tools_request (request_id c + 1)))"
  define c3 where "c3 = snd (read_response c2)"
  have i: "initialized c2" "initialized c3"
    using True by (simp_all add: c1_def c2_def c3_def send_request_initialized read_response_initialized)
  have "snd (stdio_list_tools c) = c2 \<or> snd (stdio_list_tools c) = c3"
    unfolding stdio_list_tools_def next_id_def Let_def prod.case c1_def[symmetric] c2_def c3_def
    using True by (auto split: sum.splits option.splits json.splits prod.splits)
  then show ?thesis using i True by auto
qed

lemma initialize_initialized:
  "initialized (snd (initialize c)) \<longleftrightarrow> initialized c \<or> fst (initialize c)"
proof -
  define c1 where "c1 = c\<lparr>request_id := request_id c + 1\<rparr>"
  define req where "req = JObj [(''jsonrpc'', JStr ''2.0''), (''id'', JInt (request_id c + 1)),
                               (''method'', JStr ''initialize''), (''params'', initialize_params)]"
  define c2 where "c2 = snd (send_request c1 req)"
  define c3 where "c3 = snd (read_response c2)"
  have i: "initialized c2 = initialized c" "initialized c3 = initialized c"
    by (simp_all add: c1_def c2_def c3_def send_request_initialized read_response_initialized)
  have c4: "initialized (snd (send_request (c3\<lparr>server_info := v\<rparr>) initialized_notification)) = initialized c" for v
    by (simp add: send_request_initialized i)
  have "(\<not> fst (initialize c) \<and> (snd (initialize c) = c2 \<or> snd (initialize c) = c3 \<or>
     (\<exists>v. snd (initialize c) = snd (send_request (c3\<lparr>server_info := v\<rparr>) initialized_notification)))) \<or>
     (fst (initialize c) \<and> initialized (snd (initialize c)))"
    unfolding initialize_def next_id_def Let_def prod.case c1_def[symmetric] req_def[symmetric] c2_def c3_def
    by (auto split: sum.splits option.splits json.splits prod.splits) (metis snd_conv)+
  then show ?thesis using i c4 by auto
qed

lemma step_initialized:
  "initialized (step c x) \<longleftrightarrow> initialized c \<or> (x = Op_initialize \<and> fst (initialize c))"
  by (cases x)
    (simp_all add: call_tool_initialized list_tools_initialized initialize_initialized
      start_def close_def split: option.splits)

text \<open>An envelope that answers the request with the next id, without an error.\<close>

lemma answer_not_empty: "py_eq_int (map_of kvs ''id'') n \<Longrightarrow> kvs \<noteq> []"
  by (cases kvs) auto

lemma initialize_answered:
  assumes "process c = Some p" "alive p" "incoming p = Rx_line (JObj kvs) # rest"
    "py_eq_int (map_of kvs ''id'') (request_id c + 1)" "map_of kvs ''error'' = None"
  shows "initialize c =
     (True, c\<lparr>request_id := request_id c + 1,
               process := Some \<lparr>written = written p @
                   [initialize_request (request_id c + 1), initialized_notification],
                 incoming = rest, alive = True\<rparr>,
               server_info := Some (dict_get kvs ''result'' (JObj [])),
               initialized := True\<rparr>)"
  using assms answer_not_empty[OF assms(4)]
  by (simp add: initialize_def next_id_def send_request_def read_response_def
      initialize_request_def)

lemma initialize_true:
  assumes "fst (initialize c)"
  shows "\<exists>p kvs rest. process c = Some p \<and> alive p \<and> incoming p = Rx_line (JObj kvs) # rest \<and>
     py_eq_int (map_of kvs ''id'') (request_id c + 1) \<and> map_of kvs ''error'' = None"
proof (cases "process c")
  case None
  then show ?thesis using assms by (simp add: initialize_def next_id_def send_request_def)
next
  case (Some p)
  show ?thesis
  proof (cases "alive p")
    case False
    then show ?thesis using assms Some by (simp add: initialize_def next_id_def send_request_def)
  next
    case True
    show ?thesis
    proof (cases "incoming p")
      case Nil
      then show ?thesis using assms Some True
        by (simp add: initialize_def next_id_def send_request_def read_response_def)
    next
      case (Cons x rest)
      show ?thesis
      proof (cases x)
        case (Rx_line j)
        show ?thesis
        proof (cases j)
          case (JObj kvs)
          then show ?thesis using assms Some True Cons Rx_line
            by (auto simp: initialize_def next_id_def send_request_def read_response_def
                split: if_splits)
        qed (use assms Some True Cons Rx_line in
            \<open>simp_all add: initialize_def next_id_def send_request_def read_response_def\<close>)
      qed (use assms Some True Cons in
          \<open>simp_all add: initialize_def next_id_def send_request_def read_response_def\<close>)
    qed
  qed
qed

lemma call_tool_answered:
  assumes "initialized c" "process c = Some p" "alive p"
    "incoming p = Rx_line (JObj kvs) # rest"
    "py_eq_int (map_of kvs ''id'') (request_id c + 1)" "map_of kvs ''error'' = None"
  shows "call_tool c t a =
     (Inr (dict_get kvs ''result'' (JObj [])),
      c\<lparr>request_id := request_id c + 1,
        process := Some \<lparr>written = written p @ [tool_call_request (request_id c + 1) t a],
          incoming = rest, alive = True\<rparr>\<rparr>)"
  using assms answer_not_empty[OF assms(5)]
  by (simp add: call_tool_def next_id_def send_request_def read_response_def)

lemma list_tools_answered:
  assumes "initialized c" "process c = Some p" "alive p"
    "incoming p = Rx_line (JObj kvs) # rest"
    "py_eq_int (map_of kvs ''id'') (request_id c + 1)" "map_of kvs ''error'' = None"
    "dict_get kvs ''result'' (JObj []) = JObj res" "sized (dict_get res ''tools'' (JArr []))"
  shows "stdio_list_tools c =
     (Inr (dict_get res ''tools'' (JArr [])),
      c\<lparr>request_id := request_id c + 1,
        process := Some \<lparr>written = written p @ [list_tools_request (request_id c + 1)],
          incoming = rest, alive = True\<rparr>\<rparr>)"
  using assms answer_not_empty[OF assms(5)]
  by (simp add: stdio_list_tools_def next_id_def send_request_def read_response_def)

lemma started_example_eq:
  "started_example = \<lparr>server_executable = ''srv'',
     process = Some \<lparr>written = [], incoming = handshake_example, alive = True\<rparr>,
     initialized = False, server_info = None, request_id = 0\<rparr>"
  by (simp add: started_example_def start_def init_client_def)

lemma ready_example_eq:
  "ready_example = \<lparr>server_executable = ''srv'',
     process = Some \<lparr>written =
         [JObj [(''jsonrpc'', JStr ''2.0''), (''id'', JInt 1),
                (''method'', JStr ''initialize''), (''params'', initialize_params)],
          initialized_notification],
       incoming = [Rx_line (JObj [(''jsonrpc'', JStr ''2.0''), (''id'', JInt 2),
                     (''result'', JObj [(''ok'', JBool True)])])], alive = True\<rparr>,
     initialized = True, server_info = Some (JObj []), request_id = 1\<rparr>"
  unfolding ready_example_def started_example_eq
  by (simp add: initialize_def next_id_def send_request_def read_response_def
      handshake_example_def dict_get_def)

lemma initialize_started_example: "fst (initialize started_example)"
  unfolding started_example_eq
  by (simp add: initialize_def next_id_def send_request_def read_response_def
      handshake_example_def dict_get_def)

lemma listing_example_eq:
  "listing_example = \<lparr>server_executable = ''srv'',
     process = Some \<lparr>written = [initialize_request 1, initialized_notification],
       incoming = [Rx_line (JObj [(''jsonrpc'', JStr ''2.0''), (''id'', JInt 2),
                     (''result'', JObj [(''tools'', JArr [JStr ''ping''])])])], alive = True\<rparr>,
     initialized = True, server_info = Some (JObj []), request_id = 1\<rparr>"
  by (simp add: listing_example_def listing_answers_def start_def init_client_def
      initialize_def next_id_def send_request_def read_response_def dict_get_def
      initialize_request_def)

lemma restarted_example_eq:
  "restarted_example = \<lparr>server_executable = ''srv'',
     process = Some \<lparr>written = [],
       incoming = [Rx_line (JObj [(''jsonrpc'', JStr ''2.0''), (''id'', JInt 2),
                     (''result'', JObj [(''ok'', JBool True)])])], alive = True\<rparr>,
     initialized = True, server_info = Some (JObj []), request_id = 1\<rparr>"
  by (simp add: restarted_example_def ready_example_eq start_def)

text \<open>
  Claim C4, as stated, fails after a restart of the child. The flag that guards the calls
  is set by a successful \<^verbatim>\<open>initialize\<close> and no method clears it. When \<^verbatim>\<open>start\<close> is
  called again on a client whose handshake has succeeded, the new child has been sent
  nothing, the client still counts as initialized, and a tool call does not fail with
  the precondition error: its request is the first document written to the new child.
\<close>

theorem restarted_child_gets_calls_without_handshake:
  "restarted_example = snd (start (snd (initialize (snd (start (init_client ''srv'')
      (Some handshake_example)))))
      (Some [Rx_line (JObj [(''jsonrpc'', JStr ''2.0''), (''id'', JInt 2),
                            (''result'', JObj [(''ok'', JBool True)])])])) \<and>
   map_option written (process restarted_example) = Some [] \<and>
   initialized restarted_example \<and>
   fst (call_tool restarted_example ''ping'' (JObj [])) = Inr (JObj [(''ok'', JBool True)]) \<and>
   map_option written (process (snd (call_tool restarted_example ''ping'' (JObj [])))) =
     Some [tool_call_request 2 ''ping'' (JObj [])]"
proof -
  have a: "restarted_example = snd (start (snd (initialize (snd (start (init_client ''srv'')
      (Some handshake_example)))))
      (Some [Rx_line (JObj [(''jsonrpc'', JStr ''2.0''), (''id'', JInt 2),
                            (''result'', JObj [(''ok'', JBool True)])])]))"
    by (simp add: restarted_example_def ready_example_def started_example_def)
  have b: "call_tool restarted_example ''ping'' (JObj []) =
     (Inr (JObj [(''ok'', JBool True)]),
      restarted_example\<lparr>request_id := 2,
        process := Some \<lparr>written = [tool_call_request 2 ''ping'' (JObj [])],
          incoming = [], alive = True\<rparr>\<rparr>)"
    unfolding restarted_example_eq
    by (simp add: call_tool_def next_id_def send_request_def read_response_def dict_get_def)
  have c: "map_option written (process restarted_example) = Some []"
    "initialized restarted_example"
    by (simp_all add: restarted_example_eq)
  from a c show ?thesis unfolding b by simp
qed

text \<open>
  Claim C4, amended. On a client object on which no \<^verbatim>\<open>initialize\<close> has succeeded yet,
  \<^verbatim>\<open>call_tool\<close> and \<^verbatim>\<open>list_tools\<close> fail at once with the \<^verbatim>\<open>RuntimeError\<close> "MCP
  client not initialized" and leave the client as it was: no id is drawn and nothing is
  written to the child. A new client is not initialized; the flag is set by an
  \<^verbatim>\<open>initialize\<close> that returns \<open>True\<close> and by nothing else, and nothing clears it,
  neither \<^verbatim>\<open>close\<close> nor another \<^verbatim>\<open>start\<close>. \<^verbatim>\<open>initialize\<close> returns \<open>True\<close> exactly
  when the child is alive and the next envelope read is a dict that carries the id of the
  request and no error; it has then written its request and, after it, the
  \<^verbatim>\<open>notifications/initialized\<close> document. On an initialized client whose living child
  answers in that way, a tool call returns the result of the answer, and a listing
  returns the \<^verbatim>\<open>"tools"\<close> of the result when the result is a dict and they have a
  length; each has written its one request to the child.
\<close>

theorem tool_calls_need_handshake:
  "(\<not> initialized c \<longrightarrow>
      call_tool c t a = (Inl (RuntimeError [Lit ''MCP client not initialized'']), c) \<and>
      stdio_list_tools c = (Inl (RuntimeError [Lit ''MCP client not initialized'']), c)) \<and>
   \<not> initialized (init_client exe) \<and>
   (initialized (step c x) \<longleftrightarrow> initialized c \<or> (x = Op_initialize \<and> fst (initialize c))) \<and>
   (fst (initialize c) \<longleftrightarrow>
      (\<exists>p kvs rest. process c = Some p \<and> alive p \<and> incoming p = Rx_line (JObj kvs) # rest \<and>
         py_eq_int (map_of kvs ''id'') (request_id c + 1) \<and> map_of kvs ''error'' = None)) \<and>
   (process c = Some p \<and> alive p \<and> incoming p = Rx_line (JObj kvs) # rest \<and>
    py_eq_int (map_of kvs ''id'') (request_id c + 1) \<and> map_of kvs ''error'' = None \<longrightarrow>
      initialize c =
        (True, c\<lparr>request_id := request_id c + 1,
                  process := Some \<lparr>written = written p @
                      [initialize_request (request_id c + 1), initialized_notification],
                    incoming = rest, alive = True\<rparr>,
                  server_info := Some (dict_get kvs ''result'' (JObj [])),
                  initialized := True\<rparr>) \<and>
      (initialized c \<longrightarrow>
         call_tool c t a =
           (Inr (dict_get kvs ''result'' (JObj [])),
            c\<lparr>request_id := request_id c + 1,
              process := Some \<lparr>written = written p @ [tool_call_request (request_id c + 1) t a],
                incoming = rest, alive = True\<rparr>\<rparr>)) \<and>
      (initialized c \<and> dict_get kvs ''result'' (JObj []) = JObj res \<and>
       sized (dict_get res ''tools'' (JArr [])) \<longrightarrow>
         stdio_list_tools c =
           (Inr (dict_get res ''tools'' (JArr [])),
            c\<lparr>request_id := request_id c + 1,
              process := Some \<lparr>written = written p @ [list_tools_request (request_id c + 1)],
                incoming = rest, alive = True\<rparr>\<rparr>)))"
proof -
  have g: "\<not> initialized c \<longrightarrow>
      call_tool c t a = (Inl (RuntimeError [Lit ''MCP client not initialized'']), c) \<and>
      stdio_list_tools c = (Inl (RuntimeError [Lit ''MCP client not initialized'']), c)"
    by (simp add: call_tool_def stdio_list_tools_def)
  have n: "\<not> initialized (init_client exe)" by (simp add: init_client_def)
  have i: "fst (initialize c) \<longleftrightarrow>
      (\<exists>p kvs rest. process c = Some p \<and> alive p \<and> incoming p = Rx_line (JObj kvs) # rest \<and>
         py_eq_int (map_of kvs ''id'') (request_id c + 1) \<and> map_of kvs ''error'' = None)"
  proof
    assume "fst (initialize c)"
    then show "\<exists>p kvs rest. process c = Some p \<and> alive p \<and> incoming p = Rx_line (JObj kvs) # rest \<and>
         py_eq_int (map_of kvs ''id'') (request_id c + 1) \<and> map_of kvs ''error'' = None"
      by (rule initialize_true)
  next
    assume "\<exists>p kvs rest. process c = Some p \<and> alive p \<and> incoming p = Rx_line (JObj kvs) # rest \<and>
         py_eq_int (map_of kvs ''id'') (request_id c + 1) \<and> map_of kvs ''error'' = None"
    then show "fst (initialize c)" using initialize_answered by fastforce
  qed
  have r: "initialize c =
        (True, c\<lparr>request_id := request_id c + 1,
                  process := Some \<lparr>written = written p @
                      [initialize_request (request_id c + 1), initialized_notification],
                    incoming = rest, alive = True\<rparr>,
                  server_info := Some (dict_get kvs ''result'' (JObj [])),
                  initialized := True\<rparr>) \<and>
      (initialized c \<longrightarrow>
         call_tool c t a =
           (Inr (dict_get kvs ''result'' (JObj [])),
            c\<lparr>request_id := request_id c + 1,
              process := Some \<lparr>written = written p @ [tool_call_request (request_id c + 1) t a],
                incoming = rest, alive = True\<rparr>\<rparr>)) \<and>
      (initialized c \<and> dict_get kvs ''result'' (JObj []) = JObj res \<and>
       sized (dict_get res ''tools'' (JArr [])) \<longrightarrow>
         stdio_list_tools c =
           (Inr (dict_get res ''tools'' (JArr [])),
            c\<lparr>request_id := request_id c + 1,
              process := Some \<lparr>written = written p @ [list_tools_request (request_id c + 1)],
                incoming = rest, alive = True\<rparr>\<rparr>))"
    if h: "process c = Some p \<and> alive p \<and> incoming p = Rx_line (JObj kvs) # rest \<and>
      py_eq_int (map_of kvs ''id'') (request_id c + 1) \<and> map_of kvs ''error'' = None"
    using h initialize_answered[of c p kvs rest] call_tool_answered[of c p kvs rest t a]
      list_tools_answered[of c p kvs rest res]
    by blast
  from g n i r step_initialized[of c x] show ?thesis by blast
qed

theorem tool_calls_need_handshake_witness:
  "\<not> initialized started_example \<and>
   call_tool started_example ''ping'' (JObj []) =
     (Inl (RuntimeError [Lit ''MCP client not initialized'']), started_example) \<and>
   stdio_list_tools started_example =
     (Inl (RuntimeError [Lit ''MCP client not initialized'']), started_example) \<and>
   initialize started_example = (True, ready_example) \<and>
   initialized ready_example \<and>
   fst (call_tool ready_example ''ping'' (JObj [])) = Inr (JObj [(''ok'', JBool True)]) \<and>
   initialized listing_example \<and>
   fst (stdio_list_tools listing_example) = Inr (JArr [JStr ''ping''])"
proof -
  have n: "\<not> initialized started_example" by (simp add: started_example_eq)
  note t1 = tool_calls_need_handshake[where c = started_example and t = "''ping''" and a = "JObj []"
      and p = "\<lparr>written = [], incoming = handshake_example, alive = True\<rparr>"
      and kvs = "[(''jsonrpc'', JStr ''2.0''), (''id'', JInt 1), (''result'', JObj [])]"
      and rest = "[Rx_line (JObj [(''jsonrpc'', JStr ''2.0''), (''id'', JInt 2),
                     (''result'', JObj [(''ok'', JBool True)])])]"]
  from t1[THEN conjunct1, THEN mp, OF n]
  have a: "call_tool started_example ''ping'' (JObj []) =
       (Inl (RuntimeError [Lit ''MCP client not initialized'']), started_example) \<and>
     stdio_list_tools started_example =
       (Inl (RuntimeError [Lit ''MCP client not initialized'']), started_example)" .
  have h1: "process started_example = Some \<lparr>written = [], incoming = handshake_example, alive = True\<rparr> \<and>
     alive \<lparr>written = [], incoming = handshake_example, alive = True\<rparr> \<and>
     incoming \<lparr>written = [], incoming = handshake_example, alive = True\<rparr> =
       Rx_line (JObj [(''jsonrpc'', JStr ''2.0''), (''id'', JInt 1), (''result'', JObj [])]) #
       [Rx_line (JObj [(''jsonrpc'', JStr ''2.0''), (''id'', JInt 2),
                     (''result'', JObj [(''ok'', JBool True)])])] \<and>
     py_eq_int (map_of [(''jsonrpc'', JStr ''2.0''), (''id'', JInt 1), (''result'', JObj [])] ''id'')
       (request_id started_example + 1) \<and>
     map_of [(''jsonrpc'', JStr ''2.0''), (''id'', JInt 1), (''result'', JObj [])] ''error'' = None"
    by (simp add: started_example_eq handshake_example_def)
  from t1[THEN conjunct2, THEN conjunct2, THEN conjunct2, THEN conjunct2, THEN mp, OF h1,
      THEN conjunct1]
  have i: "initialize started_example = (True, ready_example)"
    by (simp add: ready_example_eq started_example_eq dict_get_def initialize_request_def)
  note t2 = tool_calls_need_handshake[where c = ready_example and t = "''ping''" and a = "JObj []"
      and p = "\<lparr>written =
         [JObj [(''jsonrpc'', JStr ''2.0''), (''id'', JInt 1),
                (''method'', JStr ''initialize''), (''params'', initialize_params)],
          initialized_notification],
       incoming = [Rx_line (JObj [(''jsonrpc'', JStr ''2.0''), (''id'', JInt 2),
                     (''result'', JObj [(''ok'', JBool True)])])], alive = True\<rparr>"
      and kvs = "[(''jsonrpc'', JStr ''2.0''), (''id'', JInt 2), (''result'', JObj [(''ok'', JBool True)])]"
      and rest = "[]"]
  have r: "initialized ready_example" by (simp add: ready_example_eq)
  have h2: "process ready_example = Some \<lparr>written =
         [JObj [(''jsonrpc'', JStr ''2.0''), (''id'', JInt 1),
                (''method'', JStr ''initialize''), (''params'', initialize_params)],
          initialized_notification],
       incoming = [Rx_line (JObj [(''jsonrpc'', JStr ''2.0''), (''id'', JInt 2),
                     (''result'', JObj [(''ok'', JBool True)])])], alive = True\<rparr> \<and>
     alive \<lparr>written =
         [JObj [(''jsonrpc'', JStr ''2.0''), (''id'', JInt 1),
                (''method'', JStr ''initialize''), (''params'', initialize_params)],
          initialized_notification],
       incoming = [Rx_line (JObj [(''jsonrpc'', JStr ''2.0''), (''id'', JInt 2),
                     (''result'', JObj [(''ok'', JBool True)])])], alive = True\<rparr> \<and>
     incoming \<lparr>written =
         [JObj [(''jsonrpc'', JStr ''2.0''), (''id'', JInt 1),
                (''method'', JStr ''initialize''), (''params'', initialize_params)],
          initialized_notification],
       incoming = [Rx_line (JObj [(''jsonrpc'', JStr ''2.0''), (''id'', JInt 2),
                     (''result'', JObj [(''ok'', JBool True)])])], alive = True\<rparr> =
       Rx_line (JObj [(''jsonrpc'', JStr ''2.0''), (''id'', JInt 2), (''result'', JObj [(''ok'', JBool True)])]) # [] \<and>
     py_eq_int (map_of [(''jsonrpc'', JStr ''2.0''), (''id'', JInt 2), (''result'', JObj [(''ok'', JBool True)])] ''id'')
       (request_id ready_example + 1) \<and>
     map_of [(''jsonrpc'', JStr ''2.0''), (''id'', JInt 2), (''result'', JObj [(''ok'', JBool True)])] ''error'' = None"
    by (simp add: ready_example_eq)
  from t2[THEN conjunct2, THEN conjunct2, THEN conjunct2, THEN conjunct2, THEN mp, OF h2,
      THEN conjunct2, THEN conjunct1, THEN mp, OF r]
  have b: "fst (call_tool ready_example ''ping'' (JObj [])) = Inr (JObj [(''ok'', JBool True)])"
    by (simp add: dict_get_def)
  note t3 = tool_calls_need_handshake[where c = listing_example
      and p = "\<lparr>written = [initialize_request 1, initialized_notification],
       incoming = [Rx_line (JObj [(''jsonrpc'', JStr ''2.0''), (''id'', JInt 2),
                     (''result'', JObj [(''tools'', JArr [JStr ''ping''])])])], alive = True\<rparr>"
      and kvs = "[(''jsonrpc'', JStr ''2.0''), (''id'', JInt 2),
                  (''result'', JObj [(''tools'', JArr [JStr ''ping''])])]"
      and rest = "[]" and res = "[(''tools'', JArr [JStr ''ping''])]"]
  have l: "initialized listing_example" by (simp add: listing_example_eq)
  have h3: "process listing_example = Some \<lparr>written = [initialize_request 1, initialized_notification],
       incoming = [Rx_line (JObj [(''jsonrpc'', JStr ''2.0''), (''id'', JInt 2),
                     (''result'', JObj [(''tools'', JArr [JStr ''ping''])])])], alive = True\<rparr> \<and>
     alive \<lparr>written = [initialize_request 1, initialized_notification],
       incoming = [Rx_line (JObj [(''jsonrpc'', JStr ''2.0''), (''id'', JInt 2),
                     (''result'', JObj [(''tools'', JArr [JStr ''ping''])])])], alive = True\<rparr> \<and>
     incoming \<lparr>written = [initialize_request 1, initialized_notification],
       incoming = [Rx_line (JObj [(''jsonrpc'', JStr ''2.0''), (''id'', JInt 2),
                     (''result'', JObj [(''tools'', JArr [JStr ''ping''])])])], alive = True\<rparr> =
       Rx_line (JObj [(''jsonrpc'', JStr ''2.0''), (''id'', JInt 2),
                  (''result'', JObj [(''tools'', JArr [JStr ''ping''])])]) # [] \<and>
     py_eq_int (map_of [(''jsonrpc'', JStr ''2.0''), (''id'', JInt 2),
                  (''result'', JObj [(''tools'', JArr [JStr ''ping''])])] ''id'')
       (request_id listing_example + 1) \<and>
     map_of [(''jsonrpc'', JStr ''2.0''), (''id'', JInt 2),
                  (''result'', JObj [(''tools'', JArr [JStr ''ping''])])] ''error'' = None"
    by (simp add: listing_example_eq)
  have h4: "initialized listing_example \<and>
     dict_get [(''jsonrpc'', JStr ''2.0''), (''id'', JInt 2),
               (''result'', JObj [(''tools'', JArr [JStr ''ping''])])] ''result'' (JObj []) =
       JObj [(''tools'', JArr [JStr ''ping''])] \<and>
     sized (dict_get [(''tools'', JArr [JStr ''ping''])] ''tools'' (JArr []))"
    using l by (simp add: dict_get_def)
  from t3[THEN conjunct2, THEN conjunct2, THEN conjunct2, THEN conjunct2, THEN mp, OF h3,
      THEN conjunct2, THEN conjunct2, THEN mp, OF h4]
  have c: "fst (stdio_list_tools listing_example) = Inr (JArr [JStr ''ping''])"
    by (simp add: dict_get_def)
  from n a i r b l c show ?thesis by blast
qed

section \<open>Pairing of responses with requests\<close>

lemma stray_client_eq:
  "stray_client = \<lparr>server_executable = ''srv'',
     process = Some \<lparr>written =
         [JObj [(''jsonrpc'', JStr ''2.0''), (''id'', JInt 1),
                (''method'', JStr ''initialize''), (''params'', initialize_params)],
          initialized_notification],
       incoming =
         [Rx_line (JObj [(''jsonrpc'', JStr ''2.0''), (''method'', JStr ''notifications/message'')]),
          Rx_line (JObj [(''jsonrpc'', JStr ''2.0''), (''id'', JInt 2),
                     (''result'', JObj [(''ok'', JBool True)])])], alive = True\<rparr>,
     initialized = True, server_info = Some (JObj []), request_id = 1\<rparr>"
  unfolding stray_client_def
  by (simp add: initialize_def next_id_def send_request_def read_response_def
      stray_example_def dict_get_def start_def init_client_def)

text \<open>
  Claim C3, as stated, fails. The handshake client keeps no table of outstanding requests:
  a call reads exactly one line after its request. Here the child prints a notification
  of its own before the answer; the correlator of the specification drops it and hands
  the caller the answer with id 2, while \<^verbatim>\<open>call_tool\<close> takes the notification for its
  response and raises "Invalid tool call response".
\<close>

theorem unmatched_envelope_fails_the_caller:
  "initialized stray_client \<and> request_id stray_client = 1 \<and>
   map_option incoming (process stray_client) =
     Some [Rx_line (JObj [(''jsonrpc'', JStr ''2.0''), (''method'', JStr ''notifications/message'')]),
           Rx_line (JObj [(''jsonrpc'', JStr ''2.0''), (''id'', JInt 2),
                          (''result'', JObj [(''ok'', JBool True)])])] \<and>
   correlate_spec 2
     [Rx_line (JObj [(''jsonrpc'', JStr ''2.0''), (''method'', JStr ''notifications/message'')]),
      Rx_line (JObj [(''jsonrpc'', JStr ''2.0''), (''id'', JInt 2),
                     (''result'', JObj [(''ok'', JBool True)])])] =
     Some (JObj [(''jsonrpc'', JStr ''2.0''), (''id'', JInt 2),
                 (''result'', JObj [(''ok'', JBool True)])]) \<and>
   fst (call_tool stray_client ''ping'' (JObj [])) =
     Inl (PyException [Lit ''Invalid tool call response''])"
  unfolding stray_client_eq
  by (simp add: call_tool_def next_id_def send_request_def read_response_def)

lemma call_tool_returns:
  assumes "process c = Some p" "fst (call_tool c t a) = Inr r"
  shows "initialized c \<and> alive p \<and>
     (\<exists>kvs rest. incoming p = Rx_line (JObj kvs) # rest \<and>
        py_eq_int (map_of kvs ''id'') (request_id c + 1) \<and> map_of kvs ''error'' = None \<and>
        r = dict_get kvs ''result'' (JObj []) \<and>
        map_option incoming (process (snd (call_tool c t a))) = Some rest)"
proof -
  have i: "initialized c" using assms(2) by (auto simp: call_tool_def split: if_splits)
  have al: "alive p" using assms i
    by (auto simp: call_tool_def next_id_def send_request_def split: if_splits)
  show ?thesis
  proof (cases "incoming p")
    case Nil
    then show ?thesis using assms i al
      by (simp add: call_tool_def next_id_def send_request_def read_response_def)
  next
    case (Cons x rest)
    show ?thesis
    proof (cases x)
      case (Rx_line j)
      show ?thesis
      proof (cases j)
        case (JObj kvs)
        then show ?thesis using assms i al Cons Rx_line
          by (auto simp: call_tool_def next_id_def send_request_def read_response_def
              split: if_splits option.splits)
      qed (use assms i al Cons Rx_line in
          \<open>auto simp: call_tool_def next_id_def send_request_def read_response_def split: if_splits\<close>)
    qed (use assms i al Cons in
        \<open>auto simp: call_tool_def next_id_def send_request_def read_response_def\<close>)
  qed
qed

lemma call_tool_mismatch:
  assumes "initialized c" "process c = Some p" "alive p"
    "incoming p = Rx_line (JObj kvs) # rest"
    "\<not> py_eq_int (map_of kvs ''id'') (request_id c + 1)"
  shows "fst (call_tool c t a) = Inl (PyException [Lit ''Invalid tool call response'']) \<and>
     map_option incoming (process (snd (call_tool c t a))) = Some rest"
  using assms by (simp add: call_tool_def next_id_def send_request_def read_response_def)

lemma stdio_request_ignores_id:
  assumes "map_of kvs ''error'' = map_of kvs' ''error''" "map_of kvs ''result'' = map_of kvs' ''result''"
  shows "execute_stdio_request (Stdio_line (JObj kvs)) tmo =
         execute_stdio_request (Stdio_line (JObj kvs')) tmo"
  using assms
  by (simp add: execute_stdio_request_def decode_response_def dict_get_def split: option.splits)

text \<open>
  Claim C3, amended. A tool call of the handshake client is paired with the one envelope
  that follows its request: it returns a result only when that envelope carries the id
  of the request and no error, and the result is the envelope's; an envelope with another
  id, or none, is consumed and makes the call fail with "Invalid tool call response".
  The stdio path of the generic client reads no id at all: two responses that agree on
  their \<^verbatim>\<open>"error"\<close> and \<^verbatim>\<open>"result"\<close> fields give the same outcome whatever their ids.
\<close>

theorem call_tool_pairs_with_next_envelope:
  "(process c = Some p \<and> fst (call_tool c t a) = Inr r \<longrightarrow>
      initialized c \<and> alive p \<and>
      (\<exists>kvs rest. incoming p = Rx_line (JObj kvs) # rest \<and>
         py_eq_int (map_of kvs ''id'') (request_id c + 1) \<and> map_of kvs ''error'' = None \<and>
         r = dict_get kvs ''result'' (JObj []) \<and>
         map_option incoming (process (snd (call_tool c t a))) = Some rest)) \<and>
   (initialized c' \<and> process c' = Some p' \<and> alive p' \<and>
    incoming p' = Rx_line (JObj kvs') # rest' \<and>
    \<not> py_eq_int (map_of kvs' ''id'') (request_id c' + 1) \<longrightarrow>
      fst (call_tool c' t a) = Inl (PyException [Lit ''Invalid tool call response'']) \<and>
      map_option incoming (process (snd (call_tool c' t a))) = Some rest') \<and>
   (map_of xs ''error'' = map_of ys ''error'' \<and> map_of xs ''result'' = map_of ys ''result'' \<longrightarrow>
      execute_stdio_request (Stdio_line (JObj xs)) tmo =
      execute_stdio_request (Stdio_line (JObj ys)) tmo)"
  using call_tool_returns[of c p t a r] call_tool_mismatch[of c' p' kvs' rest' t a]
    stdio_request_ignores_id[of xs ys tmo]
  by blast

theorem call_tool_pairs_with_next_envelope_witness:
  "fst (call_tool ready_example ''ping'' (JObj [])) = Inr (JObj [(''ok'', JBool True)]) \<and>
   map_option incoming (process (snd (call_tool ready_example ''ping'' (JObj [])))) = Some [] \<and>
   fst (call_tool stray_client ''ping'' (JObj [])) =
     Inl (PyException [Lit ''Invalid tool call response'']) \<and>
   map_option incoming (process (snd (call_tool stray_client ''ping'' (JObj [])))) =
     Some [Rx_line (JObj [(''jsonrpc'', JStr ''2.0''), (''id'', JInt 2),
                          (''result'', JObj [(''ok'', JBool True)])])] \<and>
   execute_stdio_request (Stdio_line (JObj [(''id'', JStr ''mine''), (''result'', JInt 7)])) 30 =
   execute_stdio_request (Stdio_line (JObj [(''id'', JStr ''theirs''), (''result'', JInt 7)])) 30"
proof -
  define rp where "rp = \<lparr>written =
         [JObj [(''jsonrpc'', JStr ''2.0''), (''id'', JInt 1),
                (''method'', JStr ''initialize''), (''params'', initialize_params)],
          initialized_notification],
       incoming = [Rx_line (JObj [(''jsonrpc'', JStr ''2.0''), (''id'', JInt 2),
                     (''result'', JObj [(''ok'', JBool True)])])], alive = True\<rparr>"
  define sp where "sp = \<lparr>written =
         [JObj [(''jsonrpc'', JStr ''2.0''), (''id'', JInt 1),
                (''method'', JStr ''initialize''), (''params'', initialize_params)],
          initialized_notification],
       incoming =
         [Rx_line (JObj [(''jsonrpc'', JStr ''2.0''), (''method'', JStr ''notifications/message'')]),
          Rx_line (JObj [(''jsonrpc'', JStr ''2.0''), (''id'', JInt 2),
                     (''result'', JObj [(''ok'', JBool True)])])], alive = True\<rparr>"
  have r: "fst (call_tool ready_example ''ping'' (JObj [])) = Inr (JObj [(''ok'', JBool True)])"
    unfolding ready_example_eq
    by (simp add: call_tool_def next_id_def send_request_def read_response_def dict_get_def)
  have pr: "process ready_example = Some rp" "incoming rp = [Rx_line (JObj [(''jsonrpc'', JStr ''2.0''), (''id'', JInt 2),
                     (''result'', JObj [(''ok'', JBool True)])])]"
    by (simp_all add: ready_example_eq rp_def)
  have ps: "initialized stray_client" "request_id stray_client = 1"
     "process stray_client = Some sp" "alive sp"
     "incoming sp = Rx_line (JObj [(''jsonrpc'', JStr ''2.0''), (''method'', JStr ''notifications/message'')]) #
          [Rx_line (JObj [(''jsonrpc'', JStr ''2.0''), (''id'', JInt 2),
                     (''result'', JObj [(''ok'', JBool True)])])]"
    by (simp_all add: stray_client_eq sp_def)
  note t = call_tool_pairs_with_next_envelope[where c = ready_example and p = rp
      and t = "''ping''" and a = "JObj []" and r = "JObj [(''ok'', JBool True)]"
      and c' = stray_client and p' = sp
      and kvs' = "[(''jsonrpc'', JStr ''2.0''), (''method'', JStr ''notifications/message'')]"
      and rest' = "[Rx_line (JObj [(''jsonrpc'', JStr ''2.0''), (''id'', JInt 2),
                     (''result'', JObj [(''ok'', JBool True)])])]"
      and xs = "[(''id'', JStr ''mine''), (''result'', JInt 7)]"
      and ys = "[(''id'', JStr ''theirs''), (''result'', JInt 7)]" and tmo = 30]
  from t pr r have a: "map_option incoming (process (snd (call_tool ready_example ''ping'' (JObj [])))) = Some []"
    by auto
  from t ps have b: "fst (call_tool stray_client ''ping'' (JObj [])) =
       Inl (PyException [Lit ''Invalid tool call response'']) \<and>
     map_option incoming (process (snd (call_tool stray_client ''ping'' (JObj [])))) =
       Some [Rx_line (JObj [(''jsonrpc'', JStr ''2.0''), (''id'', JInt 2),
                          (''result'', JObj [(''ok'', JBool True)])])]"
    by simp
  from t have c: "execute_stdio_request (Stdio_line (JObj [(''id'', JStr ''mine''), (''result'', JInt 7)])) 30 =
     execute_stdio_request (Stdio_line (JObj [(''id'', JStr ''theirs''), (''result'', JInt 7)])) 30"
    by simp
  from r a b c show ?thesis by blast
qed

section \<open>Effects of the primitives of the generic client\<close>

lemma same_outside_refl: "same_outside st st"
  by (simp add: same_outside_def)

lemma same_outside_trans: "same_outside a b \<Longrightarrow> same_outside b c \<Longrightarrow> same_outside a c"
  by (simp add: same_outside_def)

lemma attempt_outcome_cong:
  "same_outside st st' \<Longrightarrow> attempt_outcome (world st') kind k t = attempt_outcome (world st) kind k t"
  by (simp add: same_outside_def attempt_outcome_def)

lemma open_ok_cong: "same_outside st st' \<Longrightarrow> open_ok (world st') = open_ok (world st)"
  by (simp add: same_outside_def)

lemma ticks_append: "ticks (xs @ ys) = ticks xs @ ticks ys"
  by (simp add: ticks_def)

lemma failures_append: "failures (xs @ ys) = failures xs @ failures ys"
  by (simp add: failures_def)

lemma reconnects_append: "reconnects (xs @ ys) = reconnects xs + reconnects ys"
  by (simp add: reconnects_def)

lemma outcomes_append: "outcomes (xs @ ys) = outcomes xs @ outcomes ys"
  by (simp add: outcomes_def)

lemma opens_append: "opens (xs @ ys) = opens xs + opens ys"
  by (simp add: opens_def)

lemma extends_trans: "extends a xs b \<Longrightarrow> extends b ys c \<Longrightarrow> extends a (xs @ ys) c"
  by (simp add: extends_def)

lemma extends_effects: "extends st evs st' \<Longrightarrow> effects st st' = evs"
  by (simp add: extends_def effects_def)

lemma sleep_frame:
  "same_outside st (sleep st d)" "extends st [Ev_sleep d] (sleep st d)"
  "connections (sleep st d) = connections st"
  "requested (world (sleep st d)) = requested (world st)"
  "opened (world (sleep st d)) = opened (world st)"
  by (simp_all add: sleep_def same_outside_def extends_def)

lemma log_event_frame:
  "same_outside st (log_event st ev)" "extends st [ev] (log_event st ev)"
  "connections (log_event st ev) = connections st"
  "requested (world (log_event st ev)) = requested (world st)"
  "opened (world (log_event st ev)) = opened (world st)"
  by (simp_all add: log_event_def same_outside_def extends_def)

lemma open_transport_frame:
  assumes "open_transport st kind s config = (ok, st')"
  shows "same_outside st st'" "extends st [Ev_open s] st'"
    "requested (world st') = requested (world st)"
    "opened (world st') = Suc (opened (world st))"
    "ok = open_ok (world st) (opened (world st))"
    "connections st' =
       (if ok then (connections st)(s \<mapsto>
            \<lparr>conn_type = kind, conn_endpoint = endpoint config, handle = opened (world st)\<rparr>)
        else connections st)"
    "sessions st' = sessions st" "uuids (world st') = uuids (world st)"
    "now (world st') = now (world st)" "uuid4 (world st') = uuid4 (world st)"
    "health_check_tasks st' = health_check_tasks st"
    "close_raises (world st') = close_raises (world st)" "closed (world st') = closed (world st)"
  using assms
  by (auto simp: open_transport_def Let_def same_outside_def extends_def split: if_splits)

text \<open>
  \<^verbatim>\<open>connect\<close> on a configured server: one transport is opened, and the connection is
  replaced exactly if that succeeds.
\<close>

lemma connect_frame:
  assumes "servers st s = Some config"
  shows "\<exists>ok st'. connect st s = (Inr ok, st') \<and> same_outside st st' \<and>
     extends st [Ev_open s] st' \<and> requested (world st') = requested (world st) \<and>
     opened (world st') = Suc (opened (world st)) \<and>
     ok = open_ok (world st) (opened (world st)) \<and>
     connections st' =
       (if ok then (connections st)(s \<mapsto>
            \<lparr>conn_type = connection_type_value (connection_type config),
             conn_endpoint = endpoint config, handle = opened (world st)\<rparr>)
        else connections st)"
proof -
  define kind where "kind = connection_type_value (connection_type config)"
  obtain ok st1 where o: "open_transport st kind s config = (ok, st1)" by force
  have c: "(case connection_type config of
              SSE \<Rightarrow> connect_sse st s config
            | WEBSOCKET \<Rightarrow> connect_websocket st s config
            | STDIO \<Rightarrow> connect_stdio st s config) = (ok, st1)"
    using o by (cases "connection_type config")
      (simp_all add: kind_def connect_sse_def connect_websocket_def connect_stdio_def)
  note f = open_transport_frame[OF o]
  show ?thesis
  proof (cases ok)
    case False
    then have "connect st s = (Inr False, st1)" using assms c by (simp add: connect_def)
    then show ?thesis using f False by (auto simp: kind_def)
  next
    case True
    define st2 where "st2 = snd (new_uuid st1)"
    define st' where "st' = st2\<lparr>sessions := (sessions st2)(s \<mapsto>
        \<lparr>session_id = fst (new_uuid st1), server_name = s,
         created_at = now (world st2), last_activity = now (world st2), is_active = True\<rparr>),
        health_check_tasks := insert s (health_check_tasks st2)\<rparr>"
    have "connect st s = (Inr True, st')" using assms c True
      by (simp add: connect_def st'_def st2_def Let_def split: prod.splits)
    moreover have "same_outside st1 st'" "extends st1 [] st'"
      "requested (world st') = requested (world st1)" "connections st' = connections st1"
      "opened (world st') = opened (world st1)"
      by (simp_all add: st'_def st2_def new_uuid_def same_outside_def extends_def)
    ultimately show ?thesis using f True
      by (auto simp: kind_def same_outside_def extends_def)
  qed
qed

text \<open>
  One request: its outcome is what the world holds for the kind of the connection and
  the number of the request, and it is recorded with the request.
\<close>

lemma execute_tool_request_frame:
  assumes "connections st s = Some conn"
  shows "\<exists>st'. execute_tool_request st s tool args t =
       (attempt_outcome (world st) (conn_type conn) (requested (world st)) t, st') \<and>
     same_outside st st' \<and> connections st' = connections st \<and>
     opened (world st') = opened (world st) \<and>
     extends st [Ev_request s (request_data (uuid4 (world st) (uuids (world st))) tool args)
                   (attempt_outcome (world st) (conn_type conn) (requested (world st)) t)] st' \<and>
     requested (world st') =
       (if conn_type conn \<in> {''sse'', ''websocket'', ''stdio''}
        then Suc (requested (world st)) else requested (world st))"
  using assms
  by (auto simp: execute_tool_request_def attempt_outcome_def new_uuid_def answered_def Let_def
      same_outside_def extends_def)

lemma outcome_needs_transport:
  assumes "attempt_outcome w kind k t = Inr r \<or> (\<exists>m. attempt_outcome w kind k t = Inl (MCPConnectionError m))"
  shows "kind \<in> {''sse'', ''websocket'', ''stdio''}"
  using assms by (auto simp: attempt_outcome_def split: if_splits)

section \<open>One turn of the retry loop\<close>

lemma ticks_simps [simp]: "ticks [] = []" "ticks (Ev_request s d out # evs) = Attempt # ticks evs"
  "ticks (Ev_sleep x # evs) = Sleep x # ticks evs"
  "ticks (Ev_attempt_failed n e # evs) = ticks evs" "ticks (Ev_reconnect s # evs) = ticks evs"
  "ticks (Ev_open s # evs) = ticks evs" "ticks (Ev_close s # evs) = ticks evs"
  by (simp_all add: ticks_def)

lemma failures_simps [simp]: "failures [] = []" "failures (Ev_request s d out # evs) = failures evs"
  "failures (Ev_sleep x # evs) = failures evs"
  "failures (Ev_attempt_failed n e # evs) = (n, e) # failures evs"
  "failures (Ev_reconnect s # evs) = failures evs"
  "failures (Ev_open s # evs) = failures evs" "failures (Ev_close s # evs) = failures evs"
  by (simp_all add: failures_def)

lemma reconnects_simps [simp]: "reconnects [] = 0"
  "reconnects (Ev_request s d out # evs) = reconnects evs"
  "reconnects (Ev_sleep x # evs) = reconnects evs"
  "reconnects (Ev_attempt_failed n e # evs) = reconnects evs"
  "reconnects (Ev_reconnect s # evs) = Suc (reconnects evs)"
  "reconnects (Ev_open s # evs) = reconnects evs" "reconnects (Ev_close s # evs) = reconnects evs"
  by (simp_all add: reconnects_def)

lemma outcomes_simps [simp]: "outcomes [] = []"
  "outcomes (Ev_request s d out # evs) = out # outcomes evs"
  "outcomes (Ev_sleep x # evs) = outcomes evs"
  "outcomes (Ev_attempt_failed n e # evs) = outcomes evs"
  "outcomes (Ev_reconnect s # evs) = outcomes evs"
  "outcomes (Ev_open s # evs) = outcomes evs" "outcomes (Ev_close s # evs) = outcomes evs"
  by (simp_all add: outcomes_def)

lemma opens_simps [simp]: "opens [] = 0"
  "opens (Ev_request s d out # evs) = opens evs"
  "opens (Ev_sleep x # evs) = opens evs"
  "opens (Ev_attempt_failed n e # evs) = opens evs"
  "opens (Ev_reconnect s # evs) = opens evs"
  "opens (Ev_open s # evs) = Suc (opens evs)" "opens (Ev_close s # evs) = opens evs"
  by (simp_all add: opens_def)

lemma after_failure_reads:
  "ticks (after_failure config s a e) =
     (if int a < max_retries config - 1 then [Sleep (retry_delay config * 2 ^ a)] else [])"
  "failures (after_failure config s a e) = [(int a + 1, e)]"
  "outcomes (after_failure config s a e) = []"
  "reconnects (after_failure config s a e) =
     (if int a < max_retries config - 1 \<and> is_connection_error e then 1 else 0)"
  "opens (after_failure config s a e) =
     (if int a < max_retries config - 1 \<and> is_connection_error e then 1 else 0)"
  by (simp_all add: after_failure_def)

lemma linked_conn: "linked st s config \<Longrightarrow> \<exists>conn. connections st s = Some conn"
  by (auto simp: linked_def)

lemma linked_servers: "linked st s config \<Longrightarrow> servers st s = Some config"
  by (simp add: linked_def)

lemma linked_frame:
  "linked st s config \<Longrightarrow> same_outside st st' \<Longrightarrow> connections st' = connections st \<Longrightarrow>
   linked st' s config"
  by (simp add: linked_def same_outside_def)

lemma linked_usable: "linked st s config \<Longrightarrow> usable st s config"
  by (simp add: linked_def usable_def)

text \<open>
  One turn of the retry loop whose attempt fails and whose delay, if there is one, can be
  computed: the request, the warning, the sleep and the reconnect are what
  \<open>after_failure\<close> says, a transport has been opened exactly for a connection error of
  an attempt that is not the last, and the connection has been replaced exactly if that
  opening succeeded.
\<close>

lemma retry_step_failed:
  assumes l: "linked st s config" and c: "connections st s = Some conn"
    and o: "attempt_outcome (world st) (conn_type conn) (requested (world st)) t = Inl e"
    and f: "int a < max_retries config - 1 \<longrightarrow> a < 1024"
  shows "\<exists>st'. retry_loop config s tool args t (a # rest) le st =
       retry_loop config s tool args t rest (Some e) st' \<and>
     extends st (Ev_request s (request_data (uuid4 (world st) (uuids (world st))) tool args) (Inl e)
                 # after_failure config s a e) st' \<and>
     same_outside st st' \<and> linked st' s config \<and>
     requested (world st') =
       (if conn_type conn \<in> {''sse'', ''websocket'', ''stdio''}
        then Suc (requested (world st)) else requested (world st)) \<and>
     opened (world st') =
       (if int a < max_retries config - 1 \<and> is_connection_error e
        then Suc (opened (world st)) else opened (world st)) \<and>
     connections st' =
       (if int a < max_retries config - 1 \<and> is_connection_error e \<and>
           open_ok (world st) (opened (world st))
        then (connections st)(s \<mapsto>
               \<lparr>conn_type = connection_type_value (connection_type config),
                conn_endpoint = endpoint config, handle = opened (world st)\<rparr>)
        else connections st)"
proof -
  let ?d = "request_data (uuid4 (world st) (uuids (world st))) tool args"
  from execute_tool_request_frame[OF c, of tool args t] o
  obtain st1 where 1: "execute_tool_request st s tool args t = (Inl e, st1)"
    "same_outside st st1" "connections st1 = connections st"
    "opened (world st1) = opened (world st)"
    "extends st [Ev_request s ?d (Inl e)] st1"
    "requested (world st1) =
       (if conn_type conn \<in> {''sse'', ''websocket'', ''stdio''}
        then Suc (requested (world st)) else requested (world st))"
    by auto
  define st2 where "st2 = log_event st1 (Ev_attempt_failed (int a + 1) e)"
  have 2: "same_outside st st2" "connections st2 = connections st"
    "requested (world st2) = requested (world st1)" "opened (world st2) = opened (world st)"
    "extends st [Ev_request s ?d (Inl e), Ev_attempt_failed (int a + 1) e] st2"
    using 1 log_event_frame[of st1 "Ev_attempt_failed (int a + 1) e"]
    by (auto simp: st2_def dest: same_outside_trans extends_trans)
  have l2: "linked st2 s config" using l 2 by (simp add: linked_frame)
  show ?thesis
  proof (cases "int a < max_retries config - 1")
    case False
    then have "retry_loop config s tool args t (a # rest) le st =
       retry_loop config s tool args t rest (Some e) st2"
      using 1 by (simp add: st2_def Let_def)
    then show ?thesis using 1(6) 2 l2 False
      by (intro exI[of _ st2]) (simp add: after_failure_def)
  next
    case True
    then have small: "\<not> 1024 \<le> a" using f by simp
    define st3 where "st3 = sleep st2 (retry_delay config * 2 ^ a)"
    have 3: "same_outside st st3" "connections st3 = connections st"
      "requested (world st3) = requested (world st1)" "opened (world st3) = opened (world st)"
      "extends st ([Ev_request s ?d (Inl e), Ev_attempt_failed (int a + 1) e] @
                   [Ev_sleep (retry_delay config * 2 ^ a)]) st3"
      using 2 sleep_frame[of st2 "retry_delay config * 2 ^ a"]
      by (auto simp: st3_def dest: same_outside_trans extends_trans)
    have l3: "linked st3 s config" using l 3 by (simp add: linked_frame)
    show ?thesis
    proof (cases "is_connection_error e")
      case False
      then have "retry_loop config s tool args t (a # rest) le st =
         retry_loop config s tool args t rest (Some e) st3"
        using 1 True small by (simp add: st2_def st3_def Let_def)
      then show ?thesis using 1(6) 3 l3 False True
        by (intro exI[of _ st3]) (simp add: after_failure_def)
    next
      case ce: True
      define st3' where "st3' = log_event st3 (Ev_reconnect s)"
      have r3: "same_outside st st3'" "connections st3' = connections st"
        "requested (world st3') = requested (world st1)" "opened (world st3') = opened (world st)"
        "extends st ([Ev_request s ?d (Inl e), Ev_attempt_failed (int a + 1) e] @
            [Ev_sleep (retry_delay config * 2 ^ a), Ev_reconnect s]) st3'"
        using 3 log_event_frame[of st3 "Ev_reconnect s"]
        by (auto simp: st3'_def dest: same_outside_trans extends_trans)
      have s3: "servers st3' s = Some config"
        using linked_servers[OF l] r3(1) by (simp add: same_outside_def)
      from connect_frame[OF s3]
      obtain ok st4 where 4: "connect st3' s = (Inr ok, st4)" "same_outside st3' st4"
        "extends st3' [Ev_open s] st4" "requested (world st4) = requested (world st3')"
        "opened (world st4) = Suc (opened (world st3'))"
        "ok = open_ok (world st3') (opened (world st3'))"
        "connections st4 =
           (if ok then (connections st3')(s \<mapsto>
                \<lparr>conn_type = connection_type_value (connection_type config),
                 conn_endpoint = endpoint config, handle = opened (world st3')\<rparr>)
            else connections st3')" by blast
      have so: "same_outside st st4" using r3(1) 4(2) by (rule same_outside_trans)
      have ok: "ok = open_ok (world st) (opened (world st))"
        using 4(6) r3(4) open_ok_cong[OF r3(1)] by simp
      have cn: "connections st4 =
           (if open_ok (world st) (opened (world st)) then (connections st)(s \<mapsto>
                \<lparr>conn_type = connection_type_value (connection_type config),
                 conn_endpoint = endpoint config, handle = opened (world st)\<rparr>)
            else connections st)"
        using 4(7) ok r3(2) r3(4) by simp
      have l4: "linked st4 s config"
        using l so cn by (auto simp: linked_def same_outside_def)
      have "retry_loop config s tool args t (a # rest) le st =
         retry_loop config s tool args t rest (Some e) st4"
        using 1 True small ce 4(1) by (simp add: st2_def st3_def st3'_def Let_def)
      moreover have "extends st (Ev_request s ?d (Inl e) # after_failure config s a e) st4"
        using extends_trans[OF r3(5) 4(3)] True ce by (simp add: after_failure_def)
      ultimately show ?thesis using so l4 cn 4(4) 4(5) r3(3) r3(4) 1(6) True ce
        by (intro exI[of _ st4]) simp
    qed
  qed
qed

text \<open>A turn whose attempt fails and whose delay cannot be computed ends the call.\<close>

lemma retry_step_overflow:
  assumes c: "connections st s = Some conn"
    and o: "attempt_outcome (world st) (conn_type conn) (requested (world st)) t = Inl e"
    and f: "int a < max_retries config - 1" "1024 \<le> a"
  shows "\<exists>st'. retry_loop config s tool args t (a # rest) le st = (Inl overflow, st') \<and>
     extends st [Ev_request s (request_data (uuid4 (world st) (uuids (world st))) tool args) (Inl e),
                 Ev_attempt_failed (int a + 1) e] st' \<and>
     same_outside st st' \<and> connections st' = connections st \<and>
     opened (world st') = opened (world st)"
proof -
  let ?d = "request_data (uuid4 (world st) (uuids (world st))) tool args"
  from execute_tool_request_frame[OF c, of tool args t] o
  obtain st1 where 1: "execute_tool_request st s tool args t = (Inl e, st1)"
    "same_outside st st1" "connections st1 = connections st"
    "opened (world st1) = opened (world st)"
    "extends st [Ev_request s ?d (Inl e)] st1"
    by auto
  define st2 where "st2 = log_event st1 (Ev_attempt_failed (int a + 1) e)"
  have 2: "same_outside st st2" "connections st2 = connections st"
    "opened (world st2) = opened (world st)"
    "extends st [Ev_request s ?d (Inl e), Ev_attempt_failed (int a + 1) e] st2"
    using 1 log_event_frame[of st1 "Ev_attempt_failed (int a + 1) e"]
    by (auto simp: st2_def dest: same_outside_trans extends_trans)
  have "retry_loop config s tool args t (a # rest) le st = (Inl overflow, st2)"
    using 1 f by (simp add: st2_def Let_def overflow_def)
  then show ?thesis using 2 by blast
qed

text \<open>A turn whose attempt succeeds ends the call with the result.\<close>

lemma retry_step_succeeded:
  assumes c: "connections st s = Some conn"
    and o: "attempt_outcome (world st) (conn_type conn) (requested (world st)) t = Inr r"
  shows "\<exists>st'. retry_loop config s tool args t (a # rest) le st = (Inr r, st') \<and>
     extends st [Ev_request s (request_data (uuid4 (world st) (uuids (world st))) tool args) (Inr r)] st' \<and>
     same_outside st st' \<and> connections st' = connections st \<and>
     opened (world st') = opened (world st)"
proof -
  from execute_tool_request_frame[OF c, of tool args t] o
  obtain st1 where 1: "execute_tool_request st s tool args t = (Inr r, st1)"
    "same_outside st st1" "connections st1 = connections st"
    "opened (world st1) = opened (world st)"
    "extends st [Ev_request s (request_data (uuid4 (world st) (uuids (world st))) tool args) (Inr r)] st1"
    by auto
  then show ?thesis by auto
qed

section \<open>The whole retry loop\<close>

lemma upt_shift: "[r..<r + Suc n] = r # [Suc r..<Suc r + n]"
  by (simp add: upt_rec[of r])

lemma always_fails_frame: "same_outside st st' \<Longrightarrow> always_fails (world st) t \<Longrightarrow> always_fails (world st') t"
  by (simp add: always_fails_def attempt_outcome_cong)

text \<open>
  Any run of the loop on a server that is configured and has a connection: how it can
  end, that transports are opened for the reconnects and for nothing else, and, when no
  attempt of the run succeeds and every delay can be computed, its schedule and its
  result.
\<close>

lemma retry_loop_run:
  assumes "linked st s config"
  shows "\<exists>st' evs res. retry_loop config s tool args t as le st = (res, st') \<and>
     extends st evs st' \<and> same_outside st st' \<and> linked st' s config \<and>
     (isl res \<longrightarrow> (\<exists>x. res = Inl (exhausted config x)) \<or> res = Inl overflow) \<and>
     reconnects evs = length (filter (reconnect_due (max_retries config)) (failures evs)) \<and>
     opens evs = reconnects evs \<and>
     opened (world st') = opened (world st) + opens evs \<and>
     (\<forall>out\<in>set (outcomes evs). \<exists>kind k. out = attempt_outcome (world st) kind k t) \<and>
     (list_all isl (outcomes evs) \<and> (\<forall>a\<in>set as. int a < max_retries config - 1 \<longrightarrow> a < 1024) \<longrightarrow>
        res = Inl (exhausted config (if as = [] then le else Some (snd (last (failures evs))))) \<and>
        ticks evs = backoff_schedule (retry_delay config) (max_retries config) as \<and>
        map fst (failures evs) = map (\<lambda>a. int a + 1) as \<and>
        map (Inl \<circ> snd) (failures evs) = outcomes evs)"
  using assms
proof (induction as arbitrary: st le)
  case Nil
  show ?case
    by (rule exI[of _ st], rule exI[of _ "[]"], rule exI[of _ "Inl (exhausted config le)"])
      (simp add: exhausted_def extends_def same_outside_refl Nil)
next
  case (Cons a as)
  let ?n = "max_retries config"
  let ?d = "request_data (uuid4 (world st) (uuids (world st))) tool args"
  from linked_conn[OF Cons.prems] obtain conn where conn: "connections st s = Some conn" by blast
  let ?out = "attempt_outcome (world st) (conn_type conn) (requested (world st)) t"
  show ?case
  proof (cases ?out)
    case (Inr r)
    from retry_step_succeeded[OF conn Inr, of config tool args a as le]
    obtain st' where 1: "retry_loop config s tool args t (a # as) le st = (Inr r, st')"
      "extends st [Ev_request s ?d (Inr r)] st'" "same_outside st st'"
      "connections st' = connections st" "opened (world st') = opened (world st)" by blast
    have l: "linked st' s config" using Cons.prems 1(3,4) by (rule linked_frame)
    have o: "\<forall>out\<in>set (outcomes [Ev_request s ?d (Inr r)]).
        \<exists>kind k. out = attempt_outcome (world st) kind k t"
      using Inr by (metis empty_iff empty_set outcomes_simps(1,2) set_ConsD)
    show ?thesis
      apply (rule exI[of _ st'], rule exI[of _ "[Ev_request s ?d (Inr r)]"], rule exI[of _ "Inr r"])
      using 1 l o by simp
  next
    case (Inl e)
    show ?thesis
    proof (cases "int a < ?n - 1 \<and> 1024 \<le> a")
      case True
      from retry_step_overflow[OF conn Inl, of a config tool args as le] True
      obtain st' where 1: "retry_loop config s tool args t (a # as) le st = (Inl overflow, st')"
        "extends st [Ev_request s ?d (Inl e), Ev_attempt_failed (int a + 1) e] st'"
        "same_outside st st'" "connections st' = connections st"
        "opened (world st') = opened (world st)" by blast
      have l: "linked st' s config" using Cons.prems 1(3,4) by (rule linked_frame)
      have o: "\<forall>out\<in>set (outcomes [Ev_request s ?d (Inl e), Ev_attempt_failed (int a + 1) e]).
          \<exists>kind k. out = attempt_outcome (world st) kind k t"
        using Inl by (metis empty_iff empty_set outcomes_simps(1,2,4) set_ConsD)
      have nd: "\<not> reconnect_due ?n (int a + 1, e)" using True by (simp add: reconnect_due_def)
      show ?thesis
        apply (rule exI[of _ st'],
            rule exI[of _ "[Ev_request s ?d (Inl e), Ev_attempt_failed (int a + 1) e]"],
            rule exI[of _ "Inl overflow"])
        using 1 l o nd True by simp
    next
      case False
      then have f: "int a < ?n - 1 \<longrightarrow> a < 1024" by auto
      from retry_step_failed[OF Cons.prems conn Inl f, of tool args as le]
      obtain st1 where 1: "retry_loop config s tool args t (a # as) le st =
           retry_loop config s tool args t as (Some e) st1"
         "extends st (Ev_request s ?d (Inl e) # after_failure config s a e) st1"
         "same_outside st st1" "linked st1 s config"
         "opened (world st1) =
            (if int a < ?n - 1 \<and> is_connection_error e
             then Suc (opened (world st)) else opened (world st))" by blast
      from Cons.IH[OF 1(4), of "Some e"]
      obtain st' evs res where 2: "retry_loop config s tool args t as (Some e) st1 = (res, st')"
         "extends st1 evs st'" "same_outside st1 st'" "linked st' s config"
         "isl res \<longrightarrow> (\<exists>x. res = Inl (exhausted config x)) \<or> res = Inl overflow"
         "reconnects evs = length (filter (reconnect_due ?n) (failures evs))"
         "opens evs = reconnects evs"
         "opened (world st') = opened (world st1) + opens evs"
         "\<forall>out\<in>set (outcomes evs). \<exists>kind k. out = attempt_outcome (world st1) kind k t"
         "list_all isl (outcomes evs) \<and> (\<forall>a\<in>set as. int a < ?n - 1 \<longrightarrow> a < 1024) \<longrightarrow>
            res = Inl (exhausted config (if as = [] then Some e else Some (snd (last (failures evs))))) \<and>
            ticks evs = backoff_schedule (retry_delay config) ?n as \<and>
            map fst (failures evs) = map (\<lambda>a. int a + 1) as \<and>
            map (Inl \<circ> snd) (failures evs) = outcomes evs"
        by blast
      define all where "all = Ev_request s ?d (Inl e) # after_failure config s a e @ evs"
      have due: "reconnect_due ?n (int a + 1, e) \<longleftrightarrow> int a < ?n - 1 \<and> is_connection_error e"
        using f by (auto simp: reconnect_due_def)
      have fa: "failures all = (int a + 1, e) # failures evs"
        by (simp add: all_def failures_append after_failure_reads)
      have oa: "outcomes all = Inl e # outcomes evs"
        by (simp add: all_def outcomes_append after_failure_reads)
      have ta: "ticks all = Attempt #
          (if int a < ?n - 1 then [Sleep (retry_delay config * 2 ^ a)] else []) @ ticks evs"
        by (simp add: all_def ticks_append after_failure_reads)
      have ra: "reconnects all = (if int a < ?n - 1 \<and> is_connection_error e then 1 else 0) + reconnects evs"
        by (simp add: all_def reconnects_append after_failure_reads)
      have pa: "opens all = (if int a < ?n - 1 \<and> is_connection_error e then 1 else 0) + opens evs"
        by (simp add: all_def opens_append after_failure_reads)
      have c1: "retry_loop config s tool args t (a # as) le st = (res, st')"
        using 1(1) 2(1) by simp
      have c2: "extends st all st'"
        using extends_trans[OF 1(2) 2(2)] by (simp add: all_def)
      have c3: "same_outside st st'" using 1(3) 2(3) by (rule same_outside_trans)
      have c5: "reconnects all = length (filter (reconnect_due ?n) (failures all))"
        unfolding ra fa using due 2(6) by simp
      have c6: "opens all = reconnects all" unfolding ra pa using 2(7) by simp
      have c7: "opened (world st') = opened (world st) + opens all"
        unfolding pa using 2(8) 1(5) by simp
      have c8: "\<forall>out\<in>set (outcomes all). \<exists>kind k. out = attempt_outcome (world st) kind k t"
      proof
        fix out assume "out \<in> set (outcomes all)"
        then have "out = Inl e \<or> out \<in> set (outcomes evs)" unfolding oa by auto
        then show "\<exists>kind k. out = attempt_outcome (world st) kind k t"
        proof
          assume "out = Inl e"
          then show ?thesis using Inl by metis
        next
          assume "out \<in> set (outcomes evs)"
          with 2(9) obtain kind k where "out = attempt_outcome (world st1) kind k t" by blast
          then show ?thesis using attempt_outcome_cong[OF 1(3)] by metis
        qed
      qed
      have c9: "res = Inl (exhausted config (if a # as = [] then le else Some (snd (last (failures all))))) \<and>
            ticks all = backoff_schedule (retry_delay config) ?n (a # as) \<and>
            map fst (failures all) = map (\<lambda>a. int a + 1) (a # as) \<and>
            map (Inl \<circ> snd) (failures all) = outcomes all"
        if h: "list_all isl (outcomes all) \<and> (\<forall>a\<in>set (a # as). int a < ?n - 1 \<longrightarrow> a < 1024)"
      proof -
        from h have "list_all isl (outcomes evs) \<and> (\<forall>a\<in>set as. int a < ?n - 1 \<longrightarrow> a < 1024)"
          unfolding oa by simp
        with 2(10) have i: "res = Inl (exhausted config (if as = [] then Some e else Some (snd (last (failures evs)))))"
          "ticks evs = backoff_schedule (retry_delay config) ?n as"
          "map fst (failures evs) = map (\<lambda>a. int a + 1) as"
          "map (Inl \<circ> snd) (failures evs) = outcomes evs" by simp_all
        have fe: "failures evs = [] \<longleftrightarrow> as = []" using i(3) by (metis map_is_Nil_conv)
        have "res = Inl (exhausted config (Some (snd (last (failures all)))))"
          unfolding fa using i(1) fe by auto
        then show ?thesis unfolding fa oa ta using i by simp
      qed
      show ?thesis
        apply (rule exI[of _ st'], rule exI[of _ all], rule exI[of _ res])
        using c1 c2 c3 2(4) 2(5) c5 c6 c7 c8 c9 by blast
    qed
  qed
qed

text \<open>
  When more than 1025 attempts are allowed and the first 1025 requests all fail, the loop
  ends with the \<^verbatim>\<open>OverflowError\<close> of the delay after attempt number 1024 (counted from
  \<open>0\<close>), having made 1025 attempts.
\<close>

lemma retry_overflow:
  assumes "linked st s config" and "1025 < max_retries config" and "j + k = 1024"
    and "\<forall>kind i. i \<le> k \<longrightarrow> isl (attempt_outcome (world st) kind (requested (world st) + i) t)"
  shows "\<exists>st' evs. retry_loop config s tool args t [j..<nat (max_retries config)] le st =
       (Inl overflow, st') \<and>
     extends st evs st' \<and> attempts_of (ticks evs) = Suc k"
  using assms
proof (induction k arbitrary: j st le)
  case 0
  let ?d = "request_data (uuid4 (world st) (uuids (world st))) tool args"
  from linked_conn[OF "0.prems"(1)] obtain conn where conn: "connections st s = Some conn" by blast
  have up: "[j..<nat (max_retries config)] = j # [Suc j..<nat (max_retries config)]"
    using "0.prems"(2,3) by (simp add: upt_conv_Cons)
  from "0.prems"(4) obtain e where
    e: "attempt_outcome (world st) (conn_type conn) (requested (world st)) t = Inl e"
    by (metis add.right_neutral isl_def le_refl)
  have f: "int j < max_retries config - 1" "1024 \<le> j" using "0.prems"(2,3) by simp_all
  from retry_step_overflow[OF conn e f, of tool args "[Suc j..<nat (max_retries config)]" le]
  obtain st' where "retry_loop config s tool args t (j # [Suc j..<nat (max_retries config)]) le st =
       (Inl overflow, st')"
    "extends st [Ev_request s ?d (Inl e), Ev_attempt_failed (int j + 1) e] st'" by blast
  moreover have "attempts_of (ticks [Ev_request s ?d (Inl e), Ev_attempt_failed (int j + 1) e]) = Suc 0"
    by simp
  ultimately show ?case unfolding up by blast
next
  case (Suc k)
  let ?d = "request_data (uuid4 (world st) (uuids (world st))) tool args"
  let ?rest = "[Suc j..<nat (max_retries config)]"
  from linked_conn[OF Suc.prems(1)] obtain conn where conn: "connections st s = Some conn" by blast
  have up: "[j..<nat (max_retries config)] = j # ?rest"
    using Suc.prems(2,3) by (simp add: upt_conv_Cons)
  from Suc.prems(4) obtain e where
    e: "attempt_outcome (world st) (conn_type conn) (requested (world st)) t = Inl e"
    by (metis add.right_neutral isl_def le0)
  have f: "int j < max_retries config - 1 \<longrightarrow> j < 1024" using Suc.prems(3) by simp
  from retry_step_failed[OF Suc.prems(1) conn e f, of tool args ?rest le]
  obtain st1 where 1: "retry_loop config s tool args t (j # ?rest) le st =
       retry_loop config s tool args t ?rest (Some e) st1"
     "extends st (Ev_request s ?d (Inl e) # after_failure config s j e) st1"
     "same_outside st st1" "linked st1 s config"
     "requested (world st1) =
       (if conn_type conn \<in> {''sse'', ''websocket'', ''stdio''}
        then Suc (requested (world st)) else requested (world st))" by blast
  have a: "\<forall>kind i. i \<le> k \<longrightarrow> isl (attempt_outcome (world st1) kind (requested (world st1) + i) t)"
  proof (intro allI impI)
    fix kind i assume i: "i \<le> k"
    have i0: "isl (attempt_outcome (world st) kind (requested (world st) + i) t)"
      using Suc.prems(4)[rule_format, where i = i and kind = kind] i by simp
    have i1: "isl (attempt_outcome (world st) kind (requested (world st) + Suc i) t)"
      using Suc.prems(4)[rule_format, where i = "Suc i" and kind = kind] i by simp
    have "requested (world st1) + i = requested (world st) + i \<or>
        requested (world st1) + i = requested (world st) + Suc i"
      using 1(5) by auto
    then show "isl (attempt_outcome (world st1) kind (requested (world st1) + i) t)"
      using i0 i1 unfolding attempt_outcome_cong[OF 1(3)] by metis
  qed
  have b: "Suc j + k = 1024" using Suc.prems(3) by simp
  from Suc.IH[OF 1(4) Suc.prems(2) b a, of "Some e"]
  obtain st' evs where 2: "retry_loop config s tool args t ?rest (Some e) st1 = (Inl overflow, st')"
    "extends st1 evs st'" "attempts_of (ticks evs) = Suc k" by blast
  define all where "all = Ev_request s ?d (Inl e) # after_failure config s j e @ evs"
  have nl: "int j < max_retries config - 1" using Suc.prems(2,3) by simp
  have "retry_loop config s tool args t [j..<nat (max_retries config)] le st = (Inl overflow, st')"
    using up 1(1) 2(1) by simp
  moreover have "extends st all st'" using extends_trans[OF 1(2) 2(2)] by (simp add: all_def)
  moreover have "attempts_of (ticks all) = Suc (Suc k)"
    using nl by (simp add: all_def ticks_append after_failure_reads 2(3))
  ultimately show ?case by blast
qed

text \<open>The kind of the connection of the next attempt, after a reconnect.\<close>

lemma list_ex_upt: "list_ex P [0..<n] \<longleftrightarrow> (\<exists>j<n. P j)"
  by (induction n) (auto simp: less_Suc_eq)

lemma list_ex_upt_Suc: "list_ex P [0..<Suc i] \<longleftrightarrow> P 0 \<or> list_ex (\<lambda>j. P (Suc j)) [0..<i]"
  unfolding list_ex_upt by (metis less_Suc_eq_0_disj)

lemma kind_at_first: "connections st s = Some conn \<Longrightarrow> kind_at st s config 0 = conn_type conn"
  by (simp add: kind_at_def)

lemma kind_at_shift:
  assumes "connections st s = Some conn" "same_outside st st1"
    "opened (world st1) = Suc (opened (world st))"
    "connections st1 =
       (if open_ok (world st) (opened (world st))
        then (connections st)(s \<mapsto>
               \<lparr>conn_type = connection_type_value (connection_type config),
                conn_endpoint = endpoint config, handle = opened (world st)\<rparr>)
        else connections st)"
  shows "kind_at st1 s config i = kind_at st s config (Suc i)"
  using assms list_ex_upt_Suc[of "\<lambda>j. open_ok (world st) (opened (world st) + j)" i]
  by (simp add: kind_at_def open_ok_cong[OF assms(2)])

text \<open>
  When the first \<open>k\<close> requests meet connection errors and the next one is answered, the
  loop returns the answer after \<open>k + 1\<close> attempts, having opened a transport after each
  of the \<open>k\<close> failures.
\<close>

lemma retry_after_connection_errors:
  assumes "linked st s config"
    and "\<forall>i<k. \<exists>m. attempt_outcome (world st) (kind_at st s config i)
            (requested (world st) + i) t = Inl (MCPConnectionError m)"
    and "attempt_outcome (world st) (kind_at st s config k) (requested (world st) + k) t = Inr r"
    and "int j + int k < max_retries config" and "j + k \<le> 1024"
  shows "\<exists>st' evs. retry_loop config s tool args t [j..<nat (max_retries config)] le st = (Inr r, st') \<and>
     extends st evs st' \<and> reconnects evs = k \<and> opens evs = k \<and>
     attempts_of (ticks evs) = Suc k \<and> opened (world st') = opened (world st) + k \<and>
     map_option conn_type (connections st' s) = Some (kind_at st s config k)"
  using assms
proof (induction k arbitrary: j st le)
  case 0
  let ?d = "request_data (uuid4 (world st) (uuids (world st))) tool args"
  from linked_conn[OF "0.prems"(1)] obtain conn where conn: "connections st s = Some conn" by blast
  have up: "[j..<nat (max_retries config)] = j # [Suc j..<nat (max_retries config)]"
    using "0.prems"(4) by (simp add: upt_conv_Cons)
  have o: "attempt_outcome (world st) (conn_type conn) (requested (world st)) t = Inr r"
    using "0.prems"(3) kind_at_first[OF conn] by simp
  from retry_step_succeeded[OF conn o, of config tool args j "[Suc j..<nat (max_retries config)]" le]
  obtain st' where 1: "retry_loop config s tool args t (j # [Suc j..<nat (max_retries config)]) le st = (Inr r, st')"
    "extends st [Ev_request s ?d (Inr r)] st'" "connections st' = connections st"
    "opened (world st') = opened (world st)" by blast
  have "map_option conn_type (connections st' s) = Some (kind_at st s config 0)"
    using 1(3) conn kind_at_first[OF conn] by simp
  moreover have "reconnects [Ev_request s ?d (Inr r)] = 0" "opens [Ev_request s ?d (Inr r)] = 0"
    "attempts_of (ticks [Ev_request s ?d (Inr r)]) = Suc 0"
    by simp_all
  ultimately show ?case using 1 unfolding up by (metis add.right_neutral)
next
  case (Suc k)
  let ?d = "request_data (uuid4 (world st) (uuids (world st))) tool args"
  let ?rest = "[Suc j..<nat (max_retries config)]"
  from linked_conn[OF Suc.prems(1)] obtain conn where conn: "connections st s = Some conn" by blast
  have up: "[j..<nat (max_retries config)] = j # ?rest"
    using Suc.prems(4) by (simp add: upt_conv_Cons)
  from Suc.prems(2) obtain m where
    m: "attempt_outcome (world st) (conn_type conn) (requested (world st)) t = Inl (MCPConnectionError m)"
    using kind_at_first[OF conn] by (metis add.right_neutral zero_less_Suc)
  have tr: "conn_type conn \<in> {''sse'', ''websocket'', ''stdio''}"
    using outcome_needs_transport[of "world st" "conn_type conn" "requested (world st)" t] m by blast
  have notlast: "int j < max_retries config - 1" using Suc.prems(4) by simp
  have f: "int j < max_retries config - 1 \<longrightarrow> j < 1024" using Suc.prems(5) by simp
  from retry_step_failed[OF Suc.prems(1) conn m f, of tool args ?rest le] notlast tr
  obtain st1 where 1: "retry_loop config s tool args t (j # ?rest) le st =
       retry_loop config s tool args t ?rest (Some (MCPConnectionError m)) st1"
     "extends st (Ev_request s ?d (Inl (MCPConnectionError m)) #
                  after_failure config s j (MCPConnectionError m)) st1"
     "same_outside st st1" "linked st1 s config"
     "requested (world st1) = Suc (requested (world st))"
     "opened (world st1) = Suc (opened (world st))"
     "connections st1 =
       (if open_ok (world st) (opened (world st))
        then (connections st)(s \<mapsto>
               \<lparr>conn_type = connection_type_value (connection_type config),
                conn_endpoint = endpoint config, handle = opened (world st)\<rparr>)
        else connections st)"
    by auto
  note sh = kind_at_shift[OF conn 1(3) 1(6) 1(7)]
  have a: "\<forall>i<k. \<exists>m. attempt_outcome (world st1) (kind_at st1 s config i)
       (requested (world st1) + i) t = Inl (MCPConnectionError m)"
  proof (intro allI impI)
    fix i assume "i < k"
    then have "Suc i < Suc k" by simp
    from Suc.prems(2)[rule_format, OF this]
    show "\<exists>m. attempt_outcome (world st1) (kind_at st1 s config i)
       (requested (world st1) + i) t = Inl (MCPConnectionError m)"
      by (simp add: attempt_outcome_cong[OF 1(3)] 1(5) sh)
  qed
  have b: "attempt_outcome (world st1) (kind_at st1 s config k) (requested (world st1) + k) t = Inr r"
    using Suc.prems(3) by (simp add: attempt_outcome_cong[OF 1(3)] 1(5) sh)
  have c: "int (Suc j) + int k < max_retries config" using Suc.prems(4) by simp
  have d: "Suc j + k \<le> 1024" using Suc.prems(5) by simp
  from Suc.IH[OF 1(4) a b c d, of "Some (MCPConnectionError m)"]
  obtain st' evs where 2: "retry_loop config s tool args t ?rest (Some (MCPConnectionError m)) st1 = (Inr r, st')"
    "extends st1 evs st'" "reconnects evs = k" "opens evs = k" "attempts_of (ticks evs) = Suc k"
    "opened (world st') = opened (world st1) + k"
    "map_option conn_type (connections st' s) = Some (kind_at st1 s config k)" by blast
  define all where "all = Ev_request s ?d (Inl (MCPConnectionError m)) #
      after_failure config s j (MCPConnectionError m) @ evs"
  have "retry_loop config s tool args t [j..<nat (max_retries config)] le st = (Inr r, st')"
    using up 1(1) 2(1) by simp
  moreover have "extends st all st'" using extends_trans[OF 1(2) 2(2)] by (simp add: all_def)
  moreover have "reconnects all = Suc k" "opens all = Suc k" "attempts_of (ticks all) = Suc (Suc k)"
    using notlast
    by (simp_all add: all_def reconnects_append opens_append ticks_append after_failure_reads 2(3,4,5))
  moreover have "opened (world st') = opened (world st) + Suc k" using 2(6) 1(6) by simp
  moreover have "map_option conn_type (connections st' s) = Some (kind_at st s config (Suc k))"
    using 2(7) sh by simp
  ultimately show ?case by blast
qed

section \<open>From \<^verbatim>\<open>execute_tool\<close> to its retry loop\<close>

lemma touch_frame:
  "same_outside st (touch st s)" "extends st [] (touch st s)"
  "connections (touch st s) = connections st"
  "world (touch st s) = world st"
  by (simp_all add: touch_def same_outside_def extends_def split: option.splits)

text \<open>
  On a usable server, \<^verbatim>\<open>execute_tool\<close> reaches its retry loop, after opening a transport
  if the server had no connection.
\<close>

lemma execute_tool_enters_loop:
  assumes "usable st s config"
  shows "\<exists>st0 pre. execute_tool st s tool args t =
       retry_loop config s tool args (effective_timeout config t)
         [0..<nat (max_retries config)] None st0 \<and>
     extends st pre st0 \<and> pre = (if s \<in> dom (connections st) then [] else [Ev_open s]) \<and>
     same_outside st st0 \<and> linked st0 s config \<and>
     requested (world st0) = requested (world st) \<and>
     opened (world st0) = opened (world st) + length pre \<and>
     (\<forall>i. kind_at st0 s config i = kind_at st s config i) \<and>
     st0 = touch (if s \<in> dom (connections st) then st else snd (connect st s)) s"
proof (cases "connections st s")
  case (Some conn)
  have l: "linked st s config" using assms Some by (simp add: usable_def linked_def dom_def)
  have "execute_tool st s tool args t =
       retry_loop config s tool args (effective_timeout config t)
         [0..<nat (max_retries config)] None (touch st s)"
    using assms Some by (simp add: execute_tool_def usable_def dom_def)
  moreover have "linked (touch st s) s config"
    using l touch_frame[of st s] by (simp add: linked_frame)
  moreover have "kind_at (touch st s) s config i = kind_at st s config i" for i
    unfolding kind_at_def touch_frame(3,4) by (rule refl)
  ultimately show ?thesis using touch_frame[of st s] Some by (auto simp: dom_def)
next
  case None
  have cfg: "servers st s = Some config" and ok: "open_ok (world st) (opened (world st))"
    using assms None by (simp_all add: usable_def dom_def)
  from connect_frame[OF cfg] ok
  obtain st1 where c: "connect st s = (Inr True, st1)" "same_outside st st1"
    "extends st [Ev_open s] st1" "requested (world st1) = requested (world st)"
    "opened (world st1) = Suc (opened (world st))"
    "connections st1 = (connections st)(s \<mapsto>
            \<lparr>conn_type = connection_type_value (connection_type config),
             conn_endpoint = endpoint config, handle = opened (world st)\<rparr>)" by auto
  have s1: "servers st1 s = Some config" using cfg c(2) by (simp add: same_outside_def)
  have l1: "linked st1 s config" using s1 c(6) by (simp add: linked_def)
  have "execute_tool st s tool args t =
       retry_loop config s tool args (effective_timeout config t)
         [0..<nat (max_retries config)] None (touch st1 s)"
    using None c(1) s1 by (simp add: execute_tool_def dom_def)
  moreover have "linked (touch st1 s) s config"
    using l1 touch_frame[of st1 s] by (simp add: linked_frame)
  moreover have "extends st [Ev_open s] (touch st1 s)"
    using extends_trans[OF c(3) touch_frame(2)[of st1 s]] by simp
  moreover have "same_outside st (touch st1 s)"
    using c(2) touch_frame(1)[of st1 s] by (rule same_outside_trans)
  moreover have "kind_at (touch st1 s) s config i = kind_at st s config i" for i
    using None c(6) by (simp add: kind_at_def touch_frame)
  ultimately show ?thesis using None c(1,4,5) touch_frame(4)[of st1 s] by (auto simp: dom_def)
qed

lemma backoff_attempts: "attempts_of (backoff_schedule d n as) = length as"
  by (induction as) simp_all

lemma backoff_sleeps:
  "sleeps_of (backoff_schedule d n as) = map (\<lambda>a. d * 2 ^ a) (filter (\<lambda>a. int a < n - 1) as)"
  by (induction as) simp_all

lemma filter_upt_below: "filter (\<lambda>a. int a < n - 1) [0..<nat n] = [0..<nat n - 1]"
proof -
  have p: "(\<lambda>a. int a < n - 1) = (\<lambda>a. a < nat (n - 1))"
    by (simp add: zless_nat_eq_int_zless)
  have "filter (\<lambda>a. a < k) [0..<m] = [0..<min m k]" for m k :: nat
  proof (induction m)
    case 0
    show ?case by simp
  next
    case (Suc m)
    show ?case
    proof (cases "m < k")
      case True
      with Suc show ?thesis by (simp add: min_def)
    next
      case False
      then have "min m k = k" "min (Suc m) k = k" by simp_all
      with Suc False show ?thesis by simp
    qed
  qed
  from this[of "nat (n - 1)" "nat n"] show ?thesis
    unfolding p by (simp add: min_def nat_diff_distrib')
qed

text \<open>
  The whole call on a usable server: the loop's run, seen from the state in which
  \<^verbatim>\<open>execute_tool\<close> was called.
\<close>

lemma execute_tool_run:
  assumes "usable st s config"
  shows "\<exists>st' pre evs res. execute_tool st s tool args t = (res, st') \<and>
     effects st st' = pre @ evs \<and> pre = (if s \<in> dom (connections st) then [] else [Ev_open s]) \<and>
     same_outside st st' \<and> linked st' s config \<and>
     (isl res \<longrightarrow> (\<exists>x. res = Inl (exhausted config x)) \<or> res = Inl overflow) \<and>
     reconnects evs = length (filter (reconnect_due (max_retries config)) (failures evs)) \<and>
     opens evs = reconnects evs \<and>
     opened (world st') = opened (world st) + length pre + opens evs \<and>
     (\<forall>out\<in>set (outcomes evs). \<exists>kind k.
         out = attempt_outcome (world st) kind k (effective_timeout config t)) \<and>
     (list_all isl (outcomes evs) \<and> max_retries config \<le> 1025 \<longrightarrow>
        res = Inl (exhausted config (if max_retries config \<le> 0 then None
                                     else Some (snd (last (failures evs))))) \<and>
        ticks evs = backoff_schedule (retry_delay config) (max_retries config)
                      [0..<nat (max_retries config)] \<and>
        map fst (failures evs) = map (\<lambda>a. int a + 1) [0..<nat (max_retries config)] \<and>
        map (Inl \<circ> snd) (failures evs) = outcomes evs)"
proof -
  let ?n = "max_retries config" and ?t = "effective_timeout config t"
  from execute_tool_enters_loop[OF assms, of tool args t]
  obtain st0 pre where 0: "execute_tool st s tool args t =
       retry_loop config s tool args ?t [0..<nat ?n] None st0"
    "extends st pre st0" "pre = (if s \<in> dom (connections st) then [] else [Ev_open s])"
    "same_outside st st0" "linked st0 s config"
    "opened (world st0) = opened (world st) + length pre"
    by blast
  from retry_loop_run[OF 0(5), of tool args ?t "[0..<nat ?n]" None]
  obtain st' evs res where 1: "retry_loop config s tool args ?t [0..<nat ?n] None st0 = (res, st')"
     "extends st0 evs st'" "same_outside st0 st'" "linked st' s config"
     "isl res \<longrightarrow> (\<exists>x. res = Inl (exhausted config x)) \<or> res = Inl overflow"
     "reconnects evs = length (filter (reconnect_due ?n) (failures evs))"
     "opens evs = reconnects evs"
     "opened (world st') = opened (world st0) + opens evs"
     "\<forall>out\<in>set (outcomes evs). \<exists>kind k. out = attempt_outcome (world st0) kind k ?t"
     "list_all isl (outcomes evs) \<and> (\<forall>a\<in>set [0..<nat ?n]. int a < ?n - 1 \<longrightarrow> a < 1024) \<longrightarrow>
        res = Inl (exhausted config (if [0..<nat ?n] = [] then None else Some (snd (last (failures evs))))) \<and>
        ticks evs = backoff_schedule (retry_delay config) ?n [0..<nat ?n] \<and>
        map fst (failures evs) = map (\<lambda>a. int a + 1) [0..<nat ?n] \<and>
        map (Inl \<circ> snd) (failures evs) = outcomes evs"
    by blast
  have e: "effects st st' = pre @ evs"
    using extends_effects[OF extends_trans[OF 0(2) 1(2)]] .
  have so: "same_outside st st'" using 0(4) 1(3) by (rule same_outside_trans)
  have o: "\<forall>out\<in>set (outcomes evs). \<exists>kind k. out = attempt_outcome (world st) kind k ?t"
    using 1(9) attempt_outcome_cong[OF 0(4)] by metis
  have n: "[0..<nat ?n] = [] \<longleftrightarrow> ?n \<le> 0" by auto
  have b: "?n \<le> 1025 \<Longrightarrow> \<forall>a\<in>set [0..<nat ?n]. int a < ?n - 1 \<longrightarrow> a < 1024" by auto
  have c: "list_all isl (outcomes evs) \<and> ?n \<le> 1025 \<longrightarrow>
        res = Inl (exhausted config (if ?n \<le> 0 then None else Some (snd (last (failures evs))))) \<and>
        ticks evs = backoff_schedule (retry_delay config) ?n [0..<nat ?n] \<and>
        map fst (failures evs) = map (\<lambda>a. int a + 1) [0..<nat ?n] \<and>
        map (Inl \<circ> snd) (failures evs) = outcomes evs"
    using 1(10) b n by simp
  have x: "execute_tool st s tool args t = (res, st')" using 0(1) 1(1) by simp
  have p: "opened (world st') = opened (world st) + length pre + opens evs"
    using 1(8) 0(6) by simp
  from x e 0(3) so 1(4) 1(5) 1(6) 1(7) p o c show ?thesis by blast
qed

text \<open>
  A call that is allowed more than 1025 attempts and whose first 1025 requests all fail
  ends with the \<^verbatim>\<open>OverflowError\<close> of the delay, after 1025 attempts.
\<close>

lemma execute_tool_overflow:
  assumes "usable st s config" and "1025 < max_retries config"
    and "\<forall>kind i. i \<le> 1024 \<longrightarrow>
           isl (attempt_outcome (world st) kind (requested (world st) + i) (effective_timeout config t))"
  shows "fst (execute_tool st s tool args t) = Inl overflow"
    and "attempts_of (ticks (effects st (snd (execute_tool st s tool args t)))) = 1025"
proof -
  let ?t = "effective_timeout config t"
  from execute_tool_enters_loop[OF assms(1), of tool args t]
  obtain st0 pre where 0: "execute_tool st s tool args t =
       retry_loop config s tool args ?t [0..<nat (max_retries config)] None st0"
    "extends st pre st0" "pre = (if s \<in> dom (connections st) then [] else [Ev_open s])"
    "same_outside st st0" "linked st0 s config" "requested (world st0) = requested (world st)"
    by blast
  have a: "\<forall>kind i. i \<le> 1024 \<longrightarrow>
      isl (attempt_outcome (world st0) kind (requested (world st0) + i) ?t)"
    using assms(3) by (simp add: attempt_outcome_cong[OF 0(4)] 0(6))
  have j: "0 + 1024 = (1024 :: nat)" by simp
  from retry_overflow[OF 0(5) assms(2) j a, of tool args None]
  obtain st' evs where 1: "retry_loop config s tool args ?t [0..<nat (max_retries config)] None st0 =
       (Inl overflow, st')" "extends st0 evs st'" "attempts_of (ticks evs) = Suc 1024" by blast
  have e: "effects st (snd (execute_tool st s tool args t)) = pre @ evs"
    using extends_effects[OF extends_trans[OF 0(2) 1(2)]] 0(1) 1(1) by simp
  have p: "ticks pre = []" using 0(3) by auto
  show "fst (execute_tool st s tool args t) = Inl overflow" using 0(1) 1(1) by simp
  show "attempts_of (ticks (effects st (snd (execute_tool st s tool args t)))) = 1025"
    unfolding e by (simp add: ticks_append p 1(3))
qed

section \<open>Runs of the examples\<close>

lemma example_client_eq:
  "example_client w = \<lparr>servers = [''wa'' \<mapsto> example_config], sessions = Map.empty,
     connections = Map.empty, health_check_tasks = {}, world = w\<rparr>"
  by (simp add: example_client_def add_server_def new_client_def example_config_def)

lemma patient_client_eq:
  "patient_client w = \<lparr>servers = [''wa'' \<mapsto> patient_config], sessions = Map.empty,
     connections = Map.empty, health_check_tasks = {}, world = w\<rparr>"
  by (simp add: patient_client_def add_server_def new_client_def patient_config_def
      example_config_def)

lemma stoic_client_eq:
  "stoic_client w = \<lparr>servers = [''wa'' \<mapsto> stoic_config], sessions = Map.empty,
     connections = Map.empty, health_check_tasks = {}, world = w\<rparr>"
  by (simp add: stoic_client_def add_server_def new_client_def stoic_config_def
      example_config_def)

lemmas client_run_defs = execute_tool_def connect_def connect_websocket_def open_transport_def
  new_uuid_def touch_def effective_timeout_def execute_tool_request_def answered_def
  execute_websocket_request_def request_data_def timed_out_def log_event_def sleep_def
  decode_response_def dict_get_def

lemma upt3: "[0..<nat 3] = [0, 1, 2]" "[0..<3] = [0, 1, 2]"
  by (simp_all add: upt_rec)

lemma usable_example: "open_ok w (opened w) \<Longrightarrow> usable (example_client w) ''wa'' example_config"
  by (simp add: usable_def example_client_eq)

lemma always_fails_failing: "always_fails failing_world t"
  by (simp add: always_fails_def attempt_outcome_def failing_world_def dead_world_def
      execute_sse_request_def execute_websocket_request_def execute_stdio_request_def)

lemma always_fails_dead: "always_fails dead_world t"
  by (simp add: always_fails_def attempt_outcome_def dead_world_def
      execute_sse_request_def execute_websocket_request_def execute_stdio_request_def)

lemma failing_effective: "effective_timeout example_config None = 30"
  by (simp add: effective_timeout_def example_config_def)

text \<open>The call on the example server in the world where every request times out.\<close>

lemma failing_run:
  "fst (execute_tool (example_client failing_world) ''wa'' ''ping'' (JObj []) None) =
     Inl (MCPToolError [Lit ''Tool execution failed after '', Str_int 3, Lit '' attempts: '',
                        Str_exn (Some (timed_out 30))])"
  "effects (example_client failing_world)
     (snd (execute_tool (example_client failing_world) ''wa'' ''ping'' (JObj []) None)) =
     [Ev_open ''wa'',
      Ev_request ''wa'' (request_data ''u'' ''ping'' (JObj [])) (Inl (timed_out 30)),
      Ev_attempt_failed 1 (timed_out 30), Ev_sleep 1,
      Ev_request ''wa'' (request_data ''u'' ''ping'' (JObj [])) (Inl (timed_out 30)),
      Ev_attempt_failed 2 (timed_out 30), Ev_sleep 2,
      Ev_request ''wa'' (request_data ''u'' ''ping'' (JObj [])) (Inl (timed_out 30)),
      Ev_attempt_failed 3 (timed_out 30)]"
  by (simp_all add: example_client_eq example_config_def failing_world_def dead_world_def
      client_run_defs upt3 effects_def Let_def)

lemma stoic_effective: "effective_timeout stoic_config None = 30"
  by (simp add: effective_timeout_def stoic_config_def example_config_def)

lemma outage_outcomes:
  "i < 1025 \<Longrightarrow> attempt_outcome outage_world ''websocket'' i t =
     Inl (MCPConnectionError [Lit ''WebSocket connection closed''])"
  "attempt_outcome outage_world ''websocket'' 1025 t = Inr (JObj [])"
  by (simp_all add: attempt_outcome_def outage_world_def dead_world_def
      execute_websocket_request_def decode_response_def dict_get_def)

lemma outage_fails: "i \<le> 1024 \<Longrightarrow> isl (attempt_outcome outage_world kind i t)"
  by (simp add: attempt_outcome_def outage_world_def dead_world_def
      execute_sse_request_def execute_websocket_request_def execute_stdio_request_def)

text \<open>The call on the example server in the world whose first two requests find the socket closed.\<close>

lemma flaky_run:
  "fst (execute_tool (example_client flaky_world) ''wa'' ''list_tools'' (JObj []) None) =
     Inr (JObj [(''tools'', JArr [JStr ''ping''])])"
  "effects (example_client flaky_world)
     (snd (execute_tool (example_client flaky_world) ''wa'' ''list_tools'' (JObj []) None)) =
     [Ev_open ''wa'',
      Ev_request ''wa'' (request_data ''u'' ''list_tools'' (JObj []))
        (Inl (MCPConnectionError [Lit ''WebSocket connection closed''])),
      Ev_attempt_failed 1 (MCPConnectionError [Lit ''WebSocket connection closed'']),
      Ev_sleep 1, Ev_reconnect ''wa'', Ev_open ''wa'',
      Ev_request ''wa'' (request_data ''u'' ''list_tools'' (JObj []))
        (Inl (MCPConnectionError [Lit ''WebSocket connection closed''])),
      Ev_attempt_failed 2 (MCPConnectionError [Lit ''WebSocket connection closed'']),
      Ev_sleep 2, Ev_reconnect ''wa'', Ev_open ''wa'',
      Ev_request ''wa'' (request_data ''u'' ''list_tools'' (JObj []))
        (Inr (JObj [(''tools'', JArr [JStr ''ping''])]))]"
  "connections (snd (execute_tool (example_client flaky_world) ''wa'' ''list_tools'' (JObj []) None))
     ''wa'' = Some \<lparr>conn_type = ''websocket'', conn_endpoint = ''ws://localhost:9000'', handle = 2\<rparr>"
  by (simp_all add: example_client_eq example_config_def flaky_world_def dead_world_def
      client_run_defs upt3 effects_def Let_def)

lemma flaky_outcomes:
  "attempt_outcome flaky_world ''websocket'' 0 t = Inl (MCPConnectionError [Lit ''WebSocket connection closed''])"
  "attempt_outcome flaky_world ''websocket'' (Suc 0) t = Inl (MCPConnectionError [Lit ''WebSocket connection closed''])"
  "attempt_outcome flaky_world ''websocket'' 2 t = Inr (JObj [(''tools'', JArr [JStr ''ping''])])"
  "attempt_outcome flaky_world ''websocket'' (Suc (Suc 0)) t = Inr (JObj [(''tools'', JArr [JStr ''ping''])])"
  by (simp_all add: attempt_outcome_def flaky_world_def dead_world_def execute_websocket_request_def
      decode_response_def dict_get_def)

lemma connected_example_eq:
  "connected_example =
     \<lparr>servers = [''wa'' \<mapsto> example_config],
      sessions = [''wa'' \<mapsto> \<lparr>session_id = ''u'', server_name = ''wa'', created_at = 0,
                               last_activity = 0, is_active = True\<rparr>],
      connections = [''wa'' \<mapsto> \<lparr>conn_type = ''websocket'', conn_endpoint = ''ws://localhost:9000'',
                                  handle = 0\<rparr>],
      health_check_tasks = {''wa''},
      world = flaky_world\<lparr>opened := 1, uuids := 1, trace := [Ev_open ''wa'']\<rparr>\<rparr>"
  by (simp add: connected_example_def example_client_eq connect_def example_config_def
      connect_websocket_def open_transport_def new_uuid_def flaky_world_def dead_world_def)

lemma odd_outcome:
  "attempt_outcome odd_world ''websocket'' 0 t = Inr (JStr ''no tools here'')"
  by (simp add: attempt_outcome_def odd_world_def dead_world_def execute_websocket_request_def
      decode_response_def dict_get_def)

lemma odd_run:
  "fst (execute_tool (example_client odd_world) ''wa'' ''list_tools'' (JObj []) None) =
     Inr (JStr ''no tools here'')"
  by (simp add: example_client_eq example_config_def odd_world_def dead_world_def
      client_run_defs upt3 Let_def)

section \<open>Exhausted retries\<close>

text \<open>
  Claim C1, as stated, fails in two ways. A configured server that has no connection and
  cannot be reached: every request would fail, the configuration allows three attempts,
  and \<^verbatim>\<open>execute_tool\<close> makes none; it raises the connection error "Cannot connect to
  server" after the one failed attempt to open a transport. And a server that is allowed
  1026 attempts, in a world in which every request times out: the call makes 1025
  attempts and ends with the \<^verbatim>\<open>OverflowError\<close> of the delay \<open>retry_delay * 2 ** 1024\<close>,
  not with a tool error.
\<close>

theorem retries_are_not_always_exhausted:
  "servers (example_client dead_world) ''wa'' = Some example_config \<and>
   max_retries example_config = 3 \<and>
   always_fails (world (example_client dead_world)) 30 \<and>
   fst (execute_tool (example_client dead_world) ''wa'' ''ping'' (JObj []) None) =
     Inl (MCPConnectionError [Lit ''Cannot connect to server: '', Lit ''wa'']) \<and>
   effects (example_client dead_world)
     (snd (execute_tool (example_client dead_world) ''wa'' ''ping'' (JObj []) None)) =
     [Ev_open ''wa''] \<and>
   servers (patient_client failing_world) ''wa'' = Some patient_config \<and>
   max_retries patient_config = 1026 \<and>
   always_fails (world (patient_client failing_world)) 30 \<and>
   fst (execute_tool (patient_client failing_world) ''wa'' ''ping'' (JObj []) None) =
     Inl (OverflowError [Lit ''int too large to convert to float'']) \<and>
   attempts_of (ticks (effects (patient_client failing_world)
     (snd (execute_tool (patient_client failing_world) ''wa'' ''ping'' (JObj []) None)))) = 1025"
proof -
  have d: "fst (execute_tool (example_client dead_world) ''wa'' ''ping'' (JObj []) None) =
     Inl (MCPConnectionError [Lit ''Cannot connect to server: '', Lit ''wa''])"
    "effects (example_client dead_world)
     (snd (execute_tool (example_client dead_world) ''wa'' ''ping'' (JObj []) None)) =
     [Ev_open ''wa'']"
    by (simp_all add: example_client_eq example_config_def dead_world_def client_run_defs
        effects_def Let_def)
  have c: "servers (example_client dead_world) ''wa'' = Some example_config"
    "max_retries example_config = 3" "always_fails (world (example_client dead_world)) 30"
    using always_fails_dead[of 30] by (simp_all add: example_client_eq example_config_def)
  have u: "usable (patient_client failing_world) ''wa'' patient_config"
    by (simp add: usable_def patient_client_eq failing_world_def)
  have m: "1025 < max_retries patient_config" "max_retries patient_config = 1026"
    by (simp_all add: patient_config_def)
  have w: "world (patient_client failing_world) = failing_world"
    by (simp add: patient_client_eq)
  have a: "\<forall>kind i. i \<le> 1024 \<longrightarrow>
      isl (attempt_outcome (world (patient_client failing_world)) kind
             (requested (world (patient_client failing_world)) + i)
             (effective_timeout patient_config None))"
    using always_fails_failing unfolding w always_fails_def by simp
  note o = execute_tool_overflow[OF u m(1) a, of "''ping''" "JObj []"]
  have p: "servers (patient_client failing_world) ''wa'' = Some patient_config"
    "always_fails (world (patient_client failing_world)) 30"
    using always_fails_failing[of 30] by (simp_all add: patient_client_eq)
  from d c p m(2) o show ?thesis by (simp add: overflow_def)
qed

text \<open>
  Claim C1, amended. A configured server that has a connection, or has none while the
  automatic connect succeeds; at most 1025 attempts allowed and the longest delay,
  \<open>retry_delay * 2 ^ (max_retries - 2)\<close>, below \<open>2 ^ 1024\<close>, so that every delay is a
  finite float; and a call none of whose attempts succeeds. Then \<^verbatim>\<open>execute_tool\<close> makes
  as many attempts as \<^verbatim>\<open>range(max_retries)\<close> has members, sleeps
  \<open>retry_delay * 2 ^ attempt\<close> (attempts counted from \<open>0\<close>) after each attempt but the
  last, logs for attempt \<open>n\<close> the failure of the \<open>n\<close>-th attempt, and raises the tool
  error whose message gives \<^verbatim>\<open>max_retries\<close> and the last of these failures (\<open>None\<close>
  when \<^verbatim>\<open>max_retries\<close> is not positive and no attempt was made). Every outcome of an
  attempt is what the world holds for a request under the effective timeout. When the
  server has no connection and the automatic connect fails, no attempt is made: the call
  raises the connection error "Cannot connect to server" and has only tried to open a
  transport.
\<close>

theorem exhausted_retries:
  "(usable st s config \<and> sleeps_fit config (nat (max_retries config - 1)) \<and>
    list_all isl (outcomes (effects st (snd (execute_tool st s tool args t)))) \<longrightarrow>
      fst (execute_tool st s tool args t) =
        Inl (exhausted config
              (if max_retries config \<le> 0 then None
               else Some (snd (last (failures (effects st (snd (execute_tool st s tool args t)))))))) \<and>
      ticks (effects st (snd (execute_tool st s tool args t))) =
        backoff_schedule (retry_delay config) (max_retries config) [0..<nat (max_retries config)] \<and>
      attempts_of (ticks (effects st (snd (execute_tool st s tool args t)))) =
        nat (max_retries config) \<and>
      sleeps_of (ticks (effects st (snd (execute_tool st s tool args t)))) =
        map (\<lambda>a. retry_delay config * 2 ^ a) [0..<nat (max_retries config) - 1] \<and>
      map fst (failures (effects st (snd (execute_tool st s tool args t)))) =
        map (\<lambda>a. int a + 1) [0..<nat (max_retries config)] \<and>
      map (Inl \<circ> snd) (failures (effects st (snd (execute_tool st s tool args t)))) =
        outcomes (effects st (snd (execute_tool st s tool args t)))) \<and>
   (usable st s config \<longrightarrow>
      (\<forall>out\<in>set (outcomes (effects st (snd (execute_tool st s tool args t)))).
          \<exists>kind k. out = attempt_outcome (world st) kind k (effective_timeout config t))) \<and>
   (servers st s = Some config \<and> s \<notin> dom (connections st) \<and>
    \<not> open_ok (world st) (opened (world st)) \<longrightarrow>
      fst (execute_tool st s tool args t) =
        Inl (MCPConnectionError [Lit ''Cannot connect to server: '', Lit s]) \<and>
      effects st (snd (execute_tool st s tool args t)) = [Ev_open s])"
proof -
  let ?n = "max_retries config"
  let ?evs = "effects st (snd (execute_tool st s tool args t))"
  have a: "fst (execute_tool st s tool args t) =
        Inl (exhausted config (if ?n \<le> 0 then None else Some (snd (last (failures ?evs))))) \<and>
      ticks ?evs = backoff_schedule (retry_delay config) ?n [0..<nat ?n] \<and>
      attempts_of (ticks ?evs) = nat ?n \<and>
      sleeps_of (ticks ?evs) = map (\<lambda>a. retry_delay config * 2 ^ a) [0..<nat ?n - 1] \<and>
      map fst (failures ?evs) = map (\<lambda>a. int a + 1) [0..<nat ?n] \<and>
      map (Inl \<circ> snd) (failures ?evs) = outcomes ?evs"
    if h: "usable st s config \<and> sleeps_fit config (nat (?n - 1)) \<and> list_all isl (outcomes ?evs)"
  proof -
    from h have u: "usable st s config" by simp
    from h have "nat (?n - 1) \<le> 1024" unfolding sleeps_fit_def by blast
    then have b: "?n \<le> 1025" by arith
    from execute_tool_run[OF u, of tool args t]
    obtain st' pre evs res where r: "execute_tool st s tool args t = (res, st')"
      "effects st st' = pre @ evs" "pre = (if s \<in> dom (connections st) then [] else [Ev_open s])"
      "list_all isl (outcomes evs) \<and> ?n \<le> 1025 \<longrightarrow>
        res = Inl (exhausted config (if ?n \<le> 0 then None else Some (snd (last (failures evs))))) \<and>
        ticks evs = backoff_schedule (retry_delay config) ?n [0..<nat ?n] \<and>
        map fst (failures evs) = map (\<lambda>a. int a + 1) [0..<nat ?n] \<and>
        map (Inl \<circ> snd) (failures evs) = outcomes evs"
      by blast
    have e: "?evs = pre @ evs" using r(1,2) by simp
    have p: "ticks pre = []" "failures pre = []" "outcomes pre = []" using r(3) by auto
    have q: "ticks (pre @ evs) = ticks evs" "failures (pre @ evs) = failures evs"
      "outcomes (pre @ evs) = outcomes evs"
      by (simp_all add: ticks_append failures_append outcomes_append p)
    from h have "list_all isl (outcomes evs)" unfolding e q by simp
    with r(4) b have i: "res = Inl (exhausted config (if ?n \<le> 0 then None else Some (snd (last (failures evs)))))"
      "ticks evs = backoff_schedule (retry_delay config) ?n [0..<nat ?n]"
      "map fst (failures evs) = map (\<lambda>a. int a + 1) [0..<nat ?n]"
      "map (Inl \<circ> snd) (failures evs) = outcomes evs" by simp_all
    show ?thesis
      unfolding e q using r(1) i
      by (simp add: backoff_attempts backoff_sleeps filter_upt_below)
  qed
  have b: "\<forall>out\<in>set (outcomes ?evs). \<exists>kind k. out = attempt_outcome (world st) kind k (effective_timeout config t)"
    if u: "usable st s config"
  proof -
    from execute_tool_run[OF u, of tool args t]
    obtain st' pre evs res where r: "execute_tool st s tool args t = (res, st')"
      "effects st st' = pre @ evs" "pre = (if s \<in> dom (connections st) then [] else [Ev_open s])"
      "\<forall>out\<in>set (outcomes evs). \<exists>kind k.
         out = attempt_outcome (world st) kind k (effective_timeout config t)"
      by blast
    have e: "?evs = pre @ evs" using r(1,2) by simp
    have p: "outcomes pre = []" using r(3) by auto
    show ?thesis unfolding e using r(4) by (simp add: outcomes_append p)
  qed
  have c: "fst (execute_tool st s tool args t) =
        Inl (MCPConnectionError [Lit ''Cannot connect to server: '', Lit s]) \<and>
      ?evs = [Ev_open s]"
    if h: "servers st s = Some config \<and> s \<notin> dom (connections st) \<and>
      \<not> open_ok (world st) (opened (world st))"
  proof -
    from h have cfg: "servers st s = Some config" by simp
    from connect_frame[OF cfg] h
    obtain st1 where k: "connect st s = (Inr False, st1)" "extends st [Ev_open s] st1" by auto
    have "execute_tool st s tool args t =
        (Inl (MCPConnectionError [Lit ''Cannot connect to server: '', Lit s]), st1)"
      using h k(1) by (simp add: execute_tool_def)
    then show ?thesis using extends_effects[OF k(2)] by simp
  qed
  from a b c show ?thesis by blast
qed

theorem exhausted_retries_witness:
  "usable (example_client failing_world) ''wa'' example_config \<and>
   sleeps_fit example_config (nat (max_retries example_config - 1)) \<and>
   outcomes (effects (example_client failing_world)
     (snd (execute_tool (example_client failing_world) ''wa'' ''ping'' (JObj []) None))) =
     [Inl (timed_out 30), Inl (timed_out 30), Inl (timed_out 30)] \<and>
   fst (execute_tool (example_client failing_world) ''wa'' ''ping'' (JObj []) None) =
     Inl (MCPToolError [Lit ''Tool execution failed after '', Str_int 3, Lit '' attempts: '',
                        Str_exn (Some (timed_out 30))]) \<and>
   ticks (effects (example_client failing_world)
     (snd (execute_tool (example_client failing_world) ''wa'' ''ping'' (JObj []) None))) =
     [Attempt, Sleep 1, Attempt, Sleep 2, Attempt] \<and>
   failures (effects (example_client failing_world)
     (snd (execute_tool (example_client failing_world) ''wa'' ''ping'' (JObj []) None))) =
     [(1, timed_out 30), (2, timed_out 30), (3, timed_out 30)] \<and>
   servers (example_client dead_world) ''wa'' = Some example_config \<and>
   ''wa'' \<notin> dom (connections (example_client dead_world)) \<and>
   \<not> open_ok (world (example_client dead_world)) (opened (world (example_client dead_world))) \<and>
   effects (example_client dead_world)
     (snd (execute_tool (example_client dead_world) ''wa'' ''ping'' (JObj []) None)) =
     [Ev_open ''wa'']"
proof -
  let ?st = "example_client failing_world"
  let ?evs = "effects ?st (snd (execute_tool ?st ''wa'' ''ping'' (JObj []) None))"
  have u: "usable ?st ''wa'' example_config"
    by (rule usable_example) (simp add: failing_world_def)
  have m: "max_retries example_config = 3" "retry_delay example_config = 1"
    by (simp_all add: example_config_def)
  have f: "sleeps_fit example_config (nat (max_retries example_config - 1))"
    by (simp add: sleeps_fit_def m)
  have o: "outcomes ?evs = [Inl (timed_out 30), Inl (timed_out 30), Inl (timed_out 30)]"
    unfolding failing_run(2) by simp
  have h: "usable ?st ''wa'' example_config \<and>
      sleeps_fit example_config (nat (max_retries example_config - 1)) \<and>
      list_all isl (outcomes ?evs)"
    using u f o by simp
  note t = exhausted_retries[where st = ?st and s = "''wa''" and config = example_config
      and tool = "''ping''" and args = "JObj []" and t = None]
  note t1 = t[THEN conjunct1, THEN mp, OF h]
  from t1 have tk: "ticks ?evs = [Attempt, Sleep 1, Attempt, Sleep 2, Attempt]"
    by (simp add: m upt3)
  from t1 have fs: "map fst (failures ?evs) = [1, 2, 3]"
    "map (Inl \<circ> snd) (failures ?evs) =
       [Inl (timed_out 30), Inl (timed_out 30), Inl (timed_out 30) :: exn + json]"
    by (simp_all add: m upt3 o)
  have fl: "failures ?evs = [(1, timed_out 30), (2, timed_out 30), (3, timed_out 30)]"
  proof -
    have "map snd (failures ?evs) = [timed_out 30, timed_out 30, timed_out 30]"
      using fs(2) by (auto simp: map_eq_Cons_conv)
    with fs(1) have "zip (map fst (failures ?evs)) (map snd (failures ?evs)) =
        [(1, timed_out 30), (2, timed_out 30), (3, timed_out 30)]" by simp
    then show ?thesis by (simp add: zip_map_fst_snd)
  qed
  from t1 have res: "fst (execute_tool ?st ''wa'' ''ping'' (JObj []) None) =
     Inl (MCPToolError [Lit ''Tool execution failed after '', Str_int 3, Lit '' attempts: '',
                        Str_exn (Some (timed_out 30))])"
    by (simp add: m fl exhausted_def)
  have d: "servers (example_client dead_world) ''wa'' = Some example_config \<and>
      ''wa'' \<notin> dom (connections (example_client dead_world)) \<and>
      \<not> open_ok (world (example_client dead_world)) (opened (world (example_client dead_world)))"
    by (simp add: example_client_eq dead_world_def)
  note t' = exhausted_retries[where st = "example_client dead_world" and s = "''wa''"
      and config = example_config and tool = "''ping''" and args = "JObj []" and t = None]
  from t'[THEN conjunct2, THEN conjunct2, THEN mp, OF d]
  have e: "effects (example_client dead_world)
     (snd (execute_tool (example_client dead_world) ''wa'' ''ping'' (JObj []) None)) =
     [Ev_open ''wa'']" by simp
  from u f o res tk fl d e show ?thesis by blast
qed

section \<open>Reconnects\<close>

lemma connection_failure_iff: "connection_failure x \<longleftrightarrow> (\<exists>m. x = Inl (MCPConnectionError m))"
proof (cases x)
  case (Inl e)
  then show ?thesis by (cases e) simp_all
next
  case (Inr r)
  then show ?thesis by simp
qed

lemma outage_iff:
  "outage st s config k t \<longleftrightarrow>
     (\<forall>i<k. \<exists>m. attempt_outcome (world st) (kind_at st s config i) (requested (world st) + i) t =
        Inl (MCPConnectionError m))"
  by (auto simp: outage_def list_all_iff connection_failure_iff)

text \<open>
  A call on a usable server whose first \<open>k\<close> requests meet connection errors and whose
  next request is answered.
\<close>

lemma execute_tool_after_errors:
  assumes "usable st s config" and "int k < max_retries config" and "k \<le> 1024"
    and "outage st s config k (effective_timeout config t)"
    and "attempt_outcome (world st) (kind_at st s config k) (requested (world st) + k)
           (effective_timeout config t) = Inr r"
  shows "fst (execute_tool st s tool args t) = Inr r"
    and "reconnects (effects st (snd (execute_tool st s tool args t))) = k"
    and "opens (effects st (snd (execute_tool st s tool args t))) =
           k + (if s \<in> dom (connections st) then 0 else 1)"
    and "attempts_of (ticks (effects st (snd (execute_tool st s tool args t)))) = Suc k"
    and "opened (world (snd (execute_tool st s tool args t))) =
           opened (world st) + k + (if s \<in> dom (connections st) then 0 else 1)"
    and "map_option conn_type (connections (snd (execute_tool st s tool args t)) s) =
           Some (kind_at st s config k)"
proof -
  let ?t = "effective_timeout config t"
  from execute_tool_enters_loop[OF assms(1), of tool args t]
  obtain st0 pre where 0: "execute_tool st s tool args t =
       retry_loop config s tool args ?t [0..<nat (max_retries config)] None st0"
    "extends st pre st0" "pre = (if s \<in> dom (connections st) then [] else [Ev_open s])"
    "same_outside st st0" "linked st0 s config" "requested (world st0) = requested (world st)"
    "opened (world st0) = opened (world st) + length pre"
    "\<forall>i. kind_at st0 s config i = kind_at st s config i"
    by blast
  have a: "\<forall>i<k. \<exists>m. attempt_outcome (world st0) (kind_at st0 s config i)
       (requested (world st0) + i) ?t = Inl (MCPConnectionError m)"
    using assms(4) unfolding outage_iff by (simp add: attempt_outcome_cong[OF 0(4)] 0(6) 0(8))
  have b: "attempt_outcome (world st0) (kind_at st0 s config k) (requested (world st0) + k) ?t = Inr r"
    using assms(5) by (simp add: attempt_outcome_cong[OF 0(4)] 0(6) 0(8))
  have c: "int 0 + int k < max_retries config" using assms(2) by simp
  have d: "0 + k \<le> 1024" using assms(3) by simp
  from retry_after_connection_errors[OF 0(5) a b c d, of tool args None]
  obtain st' evs where 1: "retry_loop config s tool args ?t [0..<nat (max_retries config)] None st0 = (Inr r, st')"
    "extends st0 evs st'" "reconnects evs = k" "opens evs = k" "attempts_of (ticks evs) = Suc k"
    "opened (world st') = opened (world st0) + k"
    "map_option conn_type (connections st' s) = Some (kind_at st0 s config k)" by blast
  have x: "execute_tool st s tool args t = (Inr r, st')" using 0(1) 1(1) by simp
  have e: "effects st (snd (execute_tool st s tool args t)) = pre @ evs"
    using extends_effects[OF extends_trans[OF 0(2) 1(2)]] x by simp
  have p: "reconnects pre = 0" "ticks pre = []"
    "opens pre = (if s \<in> dom (connections st) then 0 else 1)"
    "length pre = (if s \<in> dom (connections st) then 0 else 1)"
    using 0(3) by auto
  show "fst (execute_tool st s tool args t) = Inr r" using x by simp
  show "reconnects (effects st (snd (execute_tool st s tool args t))) = k"
    unfolding e by (simp add: reconnects_append p 1(3))
  show "opens (effects st (snd (execute_tool st s tool args t))) =
           k + (if s \<in> dom (connections st) then 0 else 1)"
    unfolding e by (simp add: opens_append p 1(4))
  show "attempts_of (ticks (effects st (snd (execute_tool st s tool args t)))) = Suc k"
    unfolding e by (simp add: ticks_append p 1(5))
  show "opened (world (snd (execute_tool st s tool args t))) =
           opened (world st) + k + (if s \<in> dom (connections st) then 0 else 1)"
    using x 1(6) 0(7) p(4) by simp
  show "map_option conn_type (connections (snd (execute_tool st s tool args t)) s) =
           Some (kind_at st s config k)"
    using x 1(7) 0(8) by simp
qed

text \<open>
  Claim C2, as stated, fails for \<open>k = 1025\<close>. The server is allowed 2000 attempts; the
  first 1025 requests find the socket closed and request number 1026 would be answered.
  The call does not succeed: after the failure of attempt 1025 the delay
  \<open>retry_delay * 2 ** 1024\<close> cannot be computed, and the call ends with that
  \<^verbatim>\<open>OverflowError\<close> after 1025 attempts.
\<close>

theorem long_outage_ends_in_overflow:
  "usable (stoic_client outage_world) ''wa'' stoic_config \<and>
   int 1025 < max_retries stoic_config \<and>
   outage (stoic_client outage_world) ''wa'' stoic_config 1025 (effective_timeout stoic_config None) \<and>
   attempt_outcome (world (stoic_client outage_world))
     (kind_at (stoic_client outage_world) ''wa'' stoic_config 1025)
     (requested (world (stoic_client outage_world)) + 1025)
     (effective_timeout stoic_config None) = Inr (JObj []) \<and>
   fst (execute_tool (stoic_client outage_world) ''wa'' ''ping'' (JObj []) None) =
     Inl (OverflowError [Lit ''int too large to convert to float'']) \<and>
   attempts_of (ticks (effects (stoic_client outage_world)
     (snd (execute_tool (stoic_client outage_world) ''wa'' ''ping'' (JObj []) None)))) = 1025"
proof -
  let ?st = "stoic_client outage_world"
  have u: "usable ?st ''wa'' stoic_config"
    by (simp add: usable_def stoic_client_eq outage_world_def)
  have m: "1025 < max_retries stoic_config" "connection_type stoic_config = WEBSOCKET"
    by (simp_all add: stoic_config_def example_config_def)
  have w: "world ?st = outage_world" "requested outage_world = 0"
    by (simp_all add: stoic_client_eq outage_world_def dead_world_def)
  have k: "kind_at ?st ''wa'' stoic_config i = ''websocket''" for i
    by (simp add: kind_at_def stoic_client_eq m)
  have o: "outage ?st ''wa'' stoic_config 1025 (effective_timeout stoic_config None)"
    unfolding outage_iff w k stoic_effective using outage_outcomes(1) by simp
  have s: "attempt_outcome (world ?st) (kind_at ?st ''wa'' stoic_config 1025)
     (requested (world ?st) + 1025) (effective_timeout stoic_config None) = Inr (JObj [])"
    unfolding w k stoic_effective using outage_outcomes(2) by simp
  have a: "\<forall>kind i. i \<le> 1024 \<longrightarrow>
      isl (attempt_outcome (world ?st) kind (requested (world ?st) + i)
             (effective_timeout stoic_config None))"
    unfolding w using outage_fails by simp
  note x = execute_tool_overflow[OF u m(1) a, of "''ping''" "JObj []"]
  from u m(1) o s x show ?thesis by (simp add: overflow_def)
qed

text \<open>
  Claim C2, amended. In a turn of the retry loop whose attempt fails with \<open>e\<close> and whose
  delay, if the attempt is not the last, can be computed and is finite, the loop logs the
  failure and, when the attempt is not the last, sleeps and then, exactly if \<open>e\<close> is a
  connection error, announces the reconnect and opens a transport for the server; the
  connection of the server is replaced exactly if that opening succeeds; then the loop
  goes on with the attempts that are left. Over a whole call on a usable server whose
  delays can all be computed, the reconnects are as many as the logged failures that are
  connection errors of attempts before the last, and a transport was opened once for each
  of them, and once more at the start if the server had no connection. If the first
  \<open>k\<close> requests of a call meet connection errors, with \<open>k\<close> below \<^verbatim>\<open>max_retries\<close>,
  at most \<open>1024\<close> and the delay \<open>retry_delay * 2 ^ (k - 1)\<close> below \<open>2 ^ 1024\<close>, and the
  next request is answered with \<open>r\<close>, the call returns \<open>r\<close> after \<open>k + 1\<close> attempts
  and \<open>k\<close> reconnects, each of which opened a transport.
\<close>

theorem reconnects_follow_connection_errors:
  "(linked st s config \<and> connections st s = Some conn \<and>
    attempt_outcome (world st) (conn_type conn) (requested (world st)) t' = Inl e \<and>
    (int a < max_retries config - 1 \<longrightarrow> sleeps_fit config (Suc a)) \<longrightarrow>
      (\<exists>st'. retry_loop config s tool args t' (a # rest) le st =
           retry_loop config s tool args t' rest (Some e) st' \<and>
         effects st st' =
           Ev_request s (request_data (uuid4 (world st) (uuids (world st))) tool args) (Inl e) #
           after_failure config s a e \<and>
         opened (world st') =
           (if int a < max_retries config - 1 \<and> is_connection_error e
            then Suc (opened (world st)) else opened (world st)) \<and>
         connections st' =
           (if int a < max_retries config - 1 \<and> is_connection_error e \<and>
               open_ok (world st) (opened (world st))
            then (connections st)(s \<mapsto>
                   \<lparr>conn_type = connection_type_value (connection_type config),
                    conn_endpoint = endpoint config, handle = opened (world st)\<rparr>)
            else connections st))) \<and>
   (usable st s config \<and> sleeps_fit config (nat (max_retries config - 1)) \<longrightarrow>
      reconnects (effects st (snd (execute_tool st s tool args t))) =
        length (filter (reconnect_due (max_retries config))
                  (failures (effects st (snd (execute_tool st s tool args t))))) \<and>
      opens (effects st (snd (execute_tool st s tool args t))) =
        reconnects (effects st (snd (execute_tool st s tool args t))) +
        (if s \<in> dom (connections st) then 0 else 1) \<and>
      opened (world (snd (execute_tool st s tool args t))) =
        opened (world st) + opens (effects st (snd (execute_tool st s tool args t)))) \<and>
   (usable st s config \<and> int k < max_retries config \<and> sleeps_fit config k \<and>
    outage st s config k (effective_timeout config t) \<and>
    attempt_outcome (world st) (kind_at st s config k) (requested (world st) + k)
      (effective_timeout config t) = Inr r \<longrightarrow>
      fst (execute_tool st s tool args t) = Inr r \<and>
      reconnects (effects st (snd (execute_tool st s tool args t))) = k \<and>
      opens (effects st (snd (execute_tool st s tool args t))) =
        k + (if s \<in> dom (connections st) then 0 else 1) \<and>
      attempts_of (ticks (effects st (snd (execute_tool st s tool args t)))) = Suc k \<and>
      opened (world (snd (execute_tool st s tool args t))) =
        opened (world st) + k + (if s \<in> dom (connections st) then 0 else 1) \<and>
      map_option conn_type (connections (snd (execute_tool st s tool args t)) s) =
        Some (kind_at st s config k))"
proof -
  let ?n = "max_retries config"
  let ?evs = "effects st (snd (execute_tool st s tool args t))"
  have p1: "\<exists>st'. retry_loop config s tool args t' (a # rest) le st =
           retry_loop config s tool args t' rest (Some e) st' \<and>
         effects st st' =
           Ev_request s (request_data (uuid4 (world st) (uuids (world st))) tool args) (Inl e) #
           after_failure config s a e \<and>
         opened (world st') =
           (if int a < ?n - 1 \<and> is_connection_error e
            then Suc (opened (world st)) else opened (world st)) \<and>
         connections st' =
           (if int a < ?n - 1 \<and> is_connection_error e \<and> open_ok (world st) (opened (world st))
            then (connections st)(s \<mapsto>
                   \<lparr>conn_type = connection_type_value (connection_type config),
                    conn_endpoint = endpoint config, handle = opened (world st)\<rparr>)
            else connections st)"
    if h: "linked st s config \<and> connections st s = Some conn \<and>
      attempt_outcome (world st) (conn_type conn) (requested (world st)) t' = Inl e \<and>
      (int a < ?n - 1 \<longrightarrow> sleeps_fit config (Suc a))"
  proof -
    from h have l: "linked st s config" and c: "connections st s = Some conn"
      and o: "attempt_outcome (world st) (conn_type conn) (requested (world st)) t' = Inl e"
      and f: "int a < ?n - 1 \<longrightarrow> a < 1024"
      by (auto simp: sleeps_fit_def)
    from retry_step_failed[OF l c o f, of tool args rest le]
    obtain st' where 1: "retry_loop config s tool args t' (a # rest) le st =
         retry_loop config s tool args t' rest (Some e) st'"
      "extends st (Ev_request s (request_data (uuid4 (world st) (uuids (world st))) tool args) (Inl e)
                   # after_failure config s a e) st'"
      "opened (world st') =
         (if int a < ?n - 1 \<and> is_connection_error e
          then Suc (opened (world st)) else opened (world st))"
      "connections st' =
         (if int a < ?n - 1 \<and> is_connection_error e \<and> open_ok (world st) (opened (world st))
          then (connections st)(s \<mapsto>
                 \<lparr>conn_type = connection_type_value (connection_type config),
                  conn_endpoint = endpoint config, handle = opened (world st)\<rparr>)
          else connections st)" by blast
    from 1(1) extends_effects[OF 1(2)] 1(3) 1(4) show ?thesis by blast
  qed
  have p2: "reconnects ?evs = length (filter (reconnect_due ?n) (failures ?evs)) \<and>
      opens ?evs = reconnects ?evs + (if s \<in> dom (connections st) then 0 else 1) \<and>
      opened (world (snd (execute_tool st s tool args t))) = opened (world st) + opens ?evs"
    if h: "usable st s config \<and> sleeps_fit config (nat (?n - 1))"
  proof -
    from h have u: "usable st s config" by simp
    from execute_tool_run[OF u, of tool args t]
    obtain st' pre evs res where r: "execute_tool st s tool args t = (res, st')"
      "effects st st' = pre @ evs" "pre = (if s \<in> dom (connections st) then [] else [Ev_open s])"
      "reconnects evs = length (filter (reconnect_due ?n) (failures evs))"
      "opens evs = reconnects evs"
      "opened (world st') = opened (world st) + length pre + opens evs"
      by blast
    have e: "?evs = pre @ evs" using r(1,2) by simp
    have p: "reconnects pre = 0" "failures pre = []"
      "opens pre = (if s \<in> dom (connections st) then 0 else 1)"
      "length pre = (if s \<in> dom (connections st) then 0 else 1)"
      using r(3) by auto
    show ?thesis
      unfolding e using r(1) r(4) r(5) r(6)
      by (simp add: reconnects_append failures_append opens_append p)
  qed
  have p3: "fst (execute_tool st s tool args t) = Inr r \<and>
      reconnects ?evs = k \<and>
      opens ?evs = k + (if s \<in> dom (connections st) then 0 else 1) \<and>
      attempts_of (ticks ?evs) = Suc k \<and>
      opened (world (snd (execute_tool st s tool args t))) =
        opened (world st) + k + (if s \<in> dom (connections st) then 0 else 1) \<and>
      map_option conn_type (connections (snd (execute_tool st s tool args t)) s) =
        Some (kind_at st s config k)"
    if h: "usable st s config \<and> int k < ?n \<and> sleeps_fit config k \<and>
      outage st s config k (effective_timeout config t) \<and>
      attempt_outcome (world st) (kind_at st s config k) (requested (world st) + k)
        (effective_timeout config t) = Inr r"
  proof -
    from h have u: "usable st s config" and b: "int k < ?n" and c: "k \<le> 1024"
      and o: "outage st s config k (effective_timeout config t)"
      and a: "attempt_outcome (world st) (kind_at st s config k) (requested (world st) + k)
        (effective_timeout config t) = Inr r"
      by (auto simp: sleeps_fit_def)
    from execute_tool_after_errors[OF u b c o a, of tool args] show ?thesis by blast
  qed
  from p1 p2 p3 show ?thesis by blast
qed

theorem reconnects_follow_connection_errors_witness:
  "linked connected_example ''wa'' example_config \<and>
   sleeps_fit example_config (Suc 0) \<and>
   (\<exists>st'. retry_loop example_config ''wa'' ''list_tools'' (JObj []) 30 [0, 1, 2] None connected_example =
       retry_loop example_config ''wa'' ''list_tools'' (JObj []) 30 [1, 2]
         (Some (MCPConnectionError [Lit ''WebSocket connection closed''])) st' \<and>
       effects connected_example st' =
         [Ev_request ''wa'' (request_data ''u'' ''list_tools'' (JObj []))
            (Inl (MCPConnectionError [Lit ''WebSocket connection closed''])),
          Ev_attempt_failed 1 (MCPConnectionError [Lit ''WebSocket connection closed'']),
          Ev_sleep 1, Ev_reconnect ''wa'', Ev_open ''wa''] \<and>
       opened (world st') = 2 \<and>
       connections st' ''wa'' =
         Some \<lparr>conn_type = ''websocket'', conn_endpoint = ''ws://localhost:9000'', handle = 1\<rparr>) \<and>
   usable (example_client flaky_world) ''wa'' example_config \<and>
   sleeps_fit example_config 2 \<and>
   outage (example_client flaky_world) ''wa'' example_config 2 30 \<and>
   fst (execute_tool (example_client flaky_world) ''wa'' ''list_tools'' (JObj []) None) =
     Inr (JObj [(''tools'', JArr [JStr ''ping''])]) \<and>
   reconnects (effects (example_client flaky_world)
     (snd (execute_tool (example_client flaky_world) ''wa'' ''list_tools'' (JObj []) None))) = 2 \<and>
   opens (effects (example_client flaky_world)
     (snd (execute_tool (example_client flaky_world) ''wa'' ''list_tools'' (JObj []) None))) = 3 \<and>
   attempts_of (ticks (effects (example_client flaky_world)
     (snd (execute_tool (example_client flaky_world) ''wa'' ''list_tools'' (JObj []) None)))) = 3 \<and>
   opened (world (snd (execute_tool (example_client flaky_world) ''wa'' ''list_tools'' (JObj []) None))) = 3 \<and>
   length (filter (reconnect_due 3) (failures (effects (example_client flaky_world)
     (snd (execute_tool (example_client flaky_world) ''wa'' ''list_tools'' (JObj []) None))))) = 2"
proof -
  let ?st = "example_client flaky_world"
  let ?ce = "MCPConnectionError [Lit ''WebSocket connection closed'']"
  let ?conn = "\<lparr>conn_type = ''websocket'', conn_endpoint = ''ws://localhost:9000'', handle = 0\<rparr>"
  have u: "usable ?st ''wa'' example_config"
    by (rule usable_example) (simp add: flaky_world_def)
  have w: "world ?st = flaky_world" "requested flaky_world = 0" "opened flaky_world = 0"
    "''wa'' \<notin> dom (connections ?st)"
    by (simp_all add: example_client_eq flaky_world_def dead_world_def)
  have m: "max_retries example_config = 3" "connection_type example_config = WEBSOCKET"
    "retry_delay example_config = 1" "endpoint example_config = ''ws://localhost:9000''"
    by (simp_all add: example_config_def)
  have sf: "sleeps_fit example_config (Suc 0)" "sleeps_fit example_config 2"
    by (simp_all add: sleeps_fit_def m)
  have l: "linked connected_example ''wa'' example_config"
    by (simp add: linked_def connected_example_eq)
  have ka: "kind_at ?st ''wa'' example_config i = ''websocket''" for i
    by (simp add: kind_at_def example_client_eq m)
  have og: "outage ?st ''wa'' example_config 2 30"
    unfolding outage_def ka w
    by (simp add: upt_rec flaky_outcomes numeral_2_eq_2)
  note t = reconnects_follow_connection_errors[where st = connected_example and s = "''wa''"
      and config = example_config and t' = 30 and tool = "''list_tools''" and args = "JObj []"
      and e = ?ce and a = 0 and rest = "[1, 2]" and le = None and conn = ?conn]
  have g: "linked connected_example ''wa'' example_config \<and>
    connections connected_example ''wa'' = Some ?conn \<and>
    attempt_outcome (world connected_example) (conn_type ?conn)
      (requested (world connected_example)) 30 = Inl ?ce \<and>
    (int 0 < max_retries example_config - 1 \<longrightarrow> sleeps_fit example_config (Suc 0))"
    using l sf(1)
    by (simp add: connected_example_eq attempt_outcome_def flaky_world_def dead_world_def
        execute_websocket_request_def)
  from t[THEN conjunct1, THEN mp, OF g]
  obtain st' where s: "retry_loop example_config ''wa'' ''list_tools'' (JObj []) 30 [0, 1, 2] None connected_example =
       retry_loop example_config ''wa'' ''list_tools'' (JObj []) 30 [1, 2] (Some ?ce) st'"
    "effects connected_example st' =
       Ev_request ''wa'' (request_data (uuid4 (world connected_example) (uuids (world connected_example)))
         ''list_tools'' (JObj [])) (Inl ?ce) # after_failure example_config ''wa'' 0 ?ce"
    "opened (world st') =
       (if int 0 < max_retries example_config - 1 \<and> is_connection_error ?ce
        then Suc (opened (world connected_example)) else opened (world connected_example))"
    "connections st' =
       (if int 0 < max_retries example_config - 1 \<and> is_connection_error ?ce \<and>
           open_ok (world connected_example) (opened (world connected_example))
        then (connections connected_example)(''wa'' \<mapsto>
               \<lparr>conn_type = connection_type_value (connection_type example_config),
                conn_endpoint = endpoint example_config, handle = opened (world connected_example)\<rparr>)
        else connections connected_example)"
    by blast
  have e1: "effects connected_example st' =
         [Ev_request ''wa'' (request_data ''u'' ''list_tools'' (JObj [])) (Inl ?ce),
          Ev_attempt_failed 1 ?ce, Ev_sleep 1, Ev_reconnect ''wa'', Ev_open ''wa'']"
    unfolding s(2)
    by (simp add: m after_failure_def connected_example_eq flaky_world_def dead_world_def)
  have e2: "opened (world st') = 2"
    unfolding s(3) by (simp add: m connected_example_eq flaky_world_def dead_world_def)
  have e3: "connections st' ''wa'' =
         Some \<lparr>conn_type = ''websocket'', conn_endpoint = ''ws://localhost:9000'', handle = 1\<rparr>"
    unfolding s(4) by (simp add: m connected_example_eq flaky_world_def dead_world_def)
  have a: "\<exists>st'. retry_loop example_config ''wa'' ''list_tools'' (JObj []) 30 [0, 1, 2] None connected_example =
       retry_loop example_config ''wa'' ''list_tools'' (JObj []) 30 [1, 2] (Some ?ce) st' \<and>
       effects connected_example st' =
         [Ev_request ''wa'' (request_data ''u'' ''list_tools'' (JObj [])) (Inl ?ce),
          Ev_attempt_failed 1 ?ce, Ev_sleep 1, Ev_reconnect ''wa'', Ev_open ''wa''] \<and>
       opened (world st') = 2 \<and>
       connections st' ''wa'' =
         Some \<lparr>conn_type = ''websocket'', conn_endpoint = ''ws://localhost:9000'', handle = 1\<rparr>"
    using s(1) e1 e2 e3 by blast
  note t2 = reconnects_follow_connection_errors[where st = ?st and s = "''wa''"
      and config = example_config and t = None and tool = "''list_tools''" and args = "JObj []"
      and k = 2 and r = "JObj [(''tools'', JArr [JStr ''ping''])]"]
  have h: "usable ?st ''wa'' example_config \<and> int 2 < max_retries example_config \<and>
    sleeps_fit example_config 2 \<and>
    outage ?st ''wa'' example_config 2 (effective_timeout example_config None) \<and>
    attempt_outcome (world ?st) (kind_at ?st ''wa'' example_config 2) (requested (world ?st) + 2)
      (effective_timeout example_config None) = Inr (JObj [(''tools'', JArr [JStr ''ping''])])"
    using u sf(2) og flaky_outcomes(3,4)[of 30] by (simp add: m w ka failing_effective)
  from t2[THEN conjunct2, THEN conjunct2, THEN mp, OF h]
  have b: "fst (execute_tool ?st ''wa'' ''list_tools'' (JObj []) None) =
       Inr (JObj [(''tools'', JArr [JStr ''ping''])])"
     "reconnects (effects ?st (snd (execute_tool ?st ''wa'' ''list_tools'' (JObj []) None))) = 2"
     "opens (effects ?st (snd (execute_tool ?st ''wa'' ''list_tools'' (JObj []) None))) = 3"
     "attempts_of (ticks (effects ?st (snd (execute_tool ?st ''wa'' ''list_tools'' (JObj []) None)))) = 3"
     "opened (world (snd (execute_tool ?st ''wa'' ''list_tools'' (JObj []) None))) = 3"
    using w by simp_all
  have h2: "usable ?st ''wa'' example_config \<and>
      sleeps_fit example_config (nat (max_retries example_config - 1))"
    using u sf(2) by (simp add: m)
  from t2[THEN conjunct2, THEN conjunct1, THEN mp, OF h2] b(2)
  have c: "length (filter (reconnect_due 3) (failures (effects ?st
        (snd (execute_tool ?st ''wa'' ''list_tools'' (JObj []) None))))) = 2"
    by (simp add: m)
  from l sf a u og b c show ?thesis by blast
qed

section \<open>The automatic connect\<close>

text \<open>
  Claim C9. For a configured server without a connection, \<^verbatim>\<open>execute_tool\<close> first opens a
  transport. When that succeeds the server has a connection of its configured kind and
  the call goes on: it is the retry loop, run from the connected state, and if at least
  one attempt is allowed, the first request is made on the new connection with the
  outcome that the world holds for it; when that outcome is a result, the call returns
  it and nothing else has happened. When the opening fails the call raises the connection
  error "Cannot connect to server" and nothing else has happened. A connection error is
  raised in that case only.
\<close>

theorem execute_tool_connects_first:
  assumes "servers st s = Some config" and "s \<notin> dom (connections st)"
  shows "(\<exists>evs. effects st (snd (execute_tool st s tool args t)) = Ev_open s # evs) \<and>
     (open_ok (world st) (opened (world st)) \<longrightarrow>
        (\<exists>st1. connect st s = (Inr True, st1) \<and>
           connections st1 s =
             Some \<lparr>conn_type = connection_type_value (connection_type config),
                   conn_endpoint = endpoint config, handle = opened (world st)\<rparr> \<and>
           execute_tool st s tool args t =
             retry_loop config s tool args (effective_timeout config t)
               [0..<nat (max_retries config)] None (touch st1 s) \<and>
           (0 < max_retries config \<longrightarrow>
              (\<exists>evs. effects st (snd (execute_tool st s tool args t)) =
                 Ev_open s #
                 Ev_request s (request_data (uuid4 (world st1) (uuids (world st1))) tool args)
                   (attempt_outcome (world st) (connection_type_value (connection_type config))
                      (requested (world st)) (effective_timeout config t)) # evs) \<and>
              (attempt_outcome (world st) (connection_type_value (connection_type config))
                 (requested (world st)) (effective_timeout config t) = Inr r \<longrightarrow>
                 fst (execute_tool st s tool args t) = Inr r \<and>
                 effects st (snd (execute_tool st s tool args t)) =
                   [Ev_open s,
                    Ev_request s (request_data (uuid4 (world st1) (uuids (world st1))) tool args)
                      (Inr r)])))) \<and>
     (\<not> open_ok (world st) (opened (world st)) \<longrightarrow>
        (\<exists>st1. connect st s = (Inr False, st1) \<and>
           execute_tool st s tool args t =
             (Inl (MCPConnectionError [Lit ''Cannot connect to server: '', Lit s]), st1) \<and>
           effects st st1 = [Ev_open s])) \<and>
     ((\<exists>e. fst (execute_tool st s tool args t) = Inl e \<and> is_connection_error e) \<longleftrightarrow>
        \<not> open_ok (world st) (opened (world st)))"
proof -
  let ?kind = "connection_type_value (connection_type config)"
  let ?t = "effective_timeout config t"
  let ?n = "max_retries config"
  from connect_frame[OF assms(1)]
  obtain ok st1 where c: "connect st s = (Inr ok, st1)" "same_outside st st1"
    "extends st [Ev_open s] st1" "requested (world st1) = requested (world st)"
    "ok = open_ok (world st) (opened (world st))"
    "connections st1 =
       (if ok then (connections st)(s \<mapsto>
            \<lparr>conn_type = ?kind, conn_endpoint = endpoint config, handle = opened (world st)\<rparr>)
        else connections st)"
    by blast
  have s1: "servers st1 s = Some config" using c(2) assms(1) by (simp add: same_outside_def)
  show ?thesis
  proof (cases ok)
    case False
    have x: "execute_tool st s tool args t =
        (Inl (MCPConnectionError [Lit ''Cannot connect to server: '', Lit s]), st1)"
      using assms(2) c(1) False by (simp add: execute_tool_def)
    have e: "effects st st1 = [Ev_open s]" using c(3) by (rule extends_effects)
    show ?thesis using x e c(1) c(5) False by auto
  next
    case True
    define st0 where "st0 = touch st1 s"
    let ?conn = "\<lparr>conn_type = ?kind, conn_endpoint = endpoint config, handle = opened (world st)\<rparr>"
    let ?d = "request_data (uuid4 (world st1) (uuids (world st1))) tool args"
    let ?out = "attempt_outcome (world st) ?kind (requested (world st)) ?t"
    have cn: "connections st1 s = Some ?conn" using c(6) True by simp
    have x: "execute_tool st s tool args t =
        retry_loop config s tool args ?t [0..<nat ?n] None st0"
      using assms(2) c(1) True s1 by (simp add: execute_tool_def st0_def)
    have f0: "same_outside st1 st0" "extends st1 [] st0" "connections st0 = connections st1"
      "world st0 = world st1"
      unfolding st0_def by (rule touch_frame)+
    have so: "same_outside st st0" using c(2) f0(1) by (rule same_outside_trans)
    have e0: "extends st [Ev_open s] st0" using extends_trans[OF c(3) f0(2)] by simp
    have l: "linked st0 s config" using s1 cn f0(1,3) by (auto simp: linked_def same_outside_def)
    have c0: "connections st0 s = Some ?conn" using cn f0(3) by simp
    have o0: "attempt_outcome (world st0) (conn_type ?conn) (requested (world st0)) ?t = ?out"
      using attempt_outcome_cong[OF so] c(4) f0(4) by simp
    have d0: "request_data (uuid4 (world st0) (uuids (world st0))) tool args = ?d"
      by (simp add: f0(4))
    from retry_loop_run[OF l, of tool args ?t "[0..<nat ?n]" None]
    obtain st' evs res where r: "retry_loop config s tool args ?t [0..<nat ?n] None st0 = (res, st')"
       "extends st0 evs st'"
       "isl res \<longrightarrow> (\<exists>x. res = Inl (exhausted config x)) \<or> res = Inl overflow"
      by blast
    have e: "effects st (snd (execute_tool st s tool args t)) = Ev_open s # evs"
      using extends_effects[OF extends_trans[OF e0 r(2)]] x r(1) by simp
    have n: "\<not> (\<exists>e. fst (execute_tool st s tool args t) = Inl e \<and> is_connection_error e)"
      using x r(1) r(3) by (auto simp: exhausted_def overflow_def)
    have first: "(\<exists>evs. effects st (snd (execute_tool st s tool args t)) =
                 Ev_open s # Ev_request s ?d ?out # evs) \<and>
              (?out = Inr r \<longrightarrow>
                 fst (execute_tool st s tool args t) = Inr r \<and>
                 effects st (snd (execute_tool st s tool args t)) =
                   [Ev_open s, Ev_request s ?d (Inr r)])"
      if pos: "0 < ?n"
    proof -
      have up: "[0..<nat ?n] = 0 # [Suc 0..<nat ?n]" using pos by (simp add: upt_conv_Cons)
      show ?thesis
      proof (cases ?out)
        case (Inr r')
        from retry_step_succeeded[OF c0 o0[unfolded Inr], of config tool args 0 "[Suc 0..<nat ?n]" None]
        obtain st2 where 2: "retry_loop config s tool args ?t (0 # [Suc 0..<nat ?n]) None st0 = (Inr r', st2)"
          "extends st0 [Ev_request s (request_data (uuid4 (world st0) (uuids (world st0))) tool args) (Inr r')] st2"
          by blast
        have "effects st (snd (execute_tool st s tool args t)) = [Ev_open s, Ev_request s ?d (Inr r')]"
          using extends_effects[OF extends_trans[OF e0 2(2)]] x 2(1) up d0 by simp
        moreover have "fst (execute_tool st s tool args t) = Inr r'" using x 2(1) up by simp
        ultimately show ?thesis using Inr by auto
      next
        case (Inl e')
        have f: "int 0 < ?n - 1 \<longrightarrow> (0 :: nat) < 1024" by simp
        from retry_step_failed[OF l c0 o0[unfolded Inl] f, of tool args "[Suc 0..<nat ?n]" None]
        obtain st2 where 2: "retry_loop config s tool args ?t (0 # [Suc 0..<nat ?n]) None st0 =
             retry_loop config s tool args ?t [Suc 0..<nat ?n] (Some e') st2"
          "extends st0 (Ev_request s (request_data (uuid4 (world st0) (uuids (world st0))) tool args) (Inl e')
                        # after_failure config s 0 e') st2"
          "linked st2 s config" by blast
        from retry_loop_run[OF 2(3), of tool args ?t "[Suc 0..<nat ?n]" "Some e'"]
        obtain st3 evs3 res3 where 3:
          "retry_loop config s tool args ?t [Suc 0..<nat ?n] (Some e') st2 = (res3, st3)"
          "extends st2 evs3 st3" by blast
        have "extends st ([Ev_open s] @ (Ev_request s ?d (Inl e') # after_failure config s 0 e') @ evs3) st3"
          using extends_trans[OF extends_trans[OF e0 2(2)] 3(2)] d0 by simp
        then have "effects st (snd (execute_tool st s tool args t)) =
            Ev_open s # Ev_request s ?d (Inl e') # (after_failure config s 0 e' @ evs3)"
          using extends_effects x up 2(1) 3(1) by fastforce
        then show ?thesis using Inl by auto
      qed
    qed
    have cT: "connect st s = (Inr True, st1)" using c(1) True by simp
    have "\<exists>st1. connect st s = (Inr True, st1) \<and>
           connections st1 s = Some ?conn \<and>
           execute_tool st s tool args t =
             retry_loop config s tool args ?t [0..<nat ?n] None (touch st1 s) \<and>
           (0 < ?n \<longrightarrow>
              (\<exists>evs. effects st (snd (execute_tool st s tool args t)) =
                 Ev_open s # Ev_request s (request_data (uuid4 (world st1) (uuids (world st1))) tool args)
                   ?out # evs) \<and>
              (?out = Inr r \<longrightarrow>
                 fst (execute_tool st s tool args t) = Inr r \<and>
                 effects st (snd (execute_tool st s tool args t)) =
                   [Ev_open s,
                    Ev_request s (request_data (uuid4 (world st1) (uuids (world st1))) tool args)
                      (Inr r)]))"
      by (rule exI[of _ st1]) (use cT cn x[unfolded st0_def] first in blast)
    then show ?thesis using e n c(5) True by blast
  qed
qed

theorem execute_tool_connects_first_witness:
  "servers (example_client odd_world) ''wa'' = Some example_config \<and>
   ''wa'' \<notin> dom (connections (example_client odd_world)) \<and>
   open_ok odd_world 0 \<and> 0 < max_retries example_config \<and>
   attempt_outcome odd_world ''websocket'' 0 30 = Inr (JStr ''no tools here'') \<and>
   fst (execute_tool (example_client odd_world) ''wa'' ''list_tools'' (JObj []) None) =
     Inr (JStr ''no tools here'') \<and>
   effects (example_client odd_world)
     (snd (execute_tool (example_client odd_world) ''wa'' ''list_tools'' (JObj []) None)) =
     [Ev_open ''wa'',
      Ev_request ''wa'' (request_data ''u'' ''list_tools'' (JObj [])) (Inr (JStr ''no tools here''))] \<and>
   servers (example_client dead_world) ''wa'' = Some example_config \<and>
   ''wa'' \<notin> dom (connections (example_client dead_world)) \<and>
   \<not> open_ok dead_world 0 \<and>
   fst (execute_tool (example_client dead_world) ''wa'' ''ping'' (JObj []) None) =
     Inl (MCPConnectionError [Lit ''Cannot connect to server: '', Lit ''wa''])"
proof -
  let ?st = "example_client odd_world"
  have f: "servers ?st ''wa'' = Some example_config" "''wa'' \<notin> dom (connections ?st)"
    "open_ok odd_world 0" "world ?st = odd_world" "opened odd_world = 0" "requested odd_world = 0"
    "uuid4 odd_world = (\<lambda>k. ''u'')"
    by (simp_all add: example_client_eq odd_world_def dead_world_def)
  have m: "0 < max_retries example_config" "connection_type example_config = WEBSOCKET"
    by (simp_all add: example_config_def)
  have d: "servers (example_client dead_world) ''wa'' = Some example_config"
    "''wa'' \<notin> dom (connections (example_client dead_world))" "\<not> open_ok dead_world 0"
    "opened dead_world = 0" "world (example_client dead_world) = dead_world"
    by (simp_all add: example_client_eq dead_world_def)
  note t = execute_tool_connects_first[OF f(1,2), of "''list_tools''" "JObj []" None
      "JStr ''no tools here''"]
  have ok: "open_ok (world ?st) (opened (world ?st))" using f by simp
  from t[THEN conjunct2, THEN conjunct1, THEN mp, OF ok]
  obtain st1 where 1: "connect ?st ''wa'' = (Inr True, st1)"
    "0 < max_retries example_config \<longrightarrow>
       (\<exists>evs. effects ?st (snd (execute_tool ?st ''wa'' ''list_tools'' (JObj []) None)) =
          Ev_open ''wa'' #
          Ev_request ''wa'' (request_data (uuid4 (world st1) (uuids (world st1))) ''list_tools'' (JObj []))
            (attempt_outcome (world ?st) (connection_type_value (connection_type example_config))
               (requested (world ?st)) (effective_timeout example_config None)) # evs) \<and>
       (attempt_outcome (world ?st) (connection_type_value (connection_type example_config))
          (requested (world ?st)) (effective_timeout example_config None) = Inr (JStr ''no tools here'') \<longrightarrow>
          fst (execute_tool ?st ''wa'' ''list_tools'' (JObj []) None) = Inr (JStr ''no tools here'') \<and>
          effects ?st (snd (execute_tool ?st ''wa'' ''list_tools'' (JObj []) None)) =
            [Ev_open ''wa'',
             Ev_request ''wa'' (request_data (uuid4 (world st1) (uuids (world st1))) ''list_tools'' (JObj []))
               (Inr (JStr ''no tools here''))])"
    by blast
  have u: "uuid4 (world st1) = (\<lambda>k. ''u'')"
    using 1(1)
    by (auto simp: example_client_eq connect_def example_config_def connect_websocket_def
        open_transport_def new_uuid_def odd_world_def dead_world_def)
  have o: "attempt_outcome (world ?st) (connection_type_value (connection_type example_config))
          (requested (world ?st)) (effective_timeout example_config None) = Inr (JStr ''no tools here'')"
    using odd_outcome[of 30] by (simp add: f m failing_effective)
  from 1(2)[THEN mp, OF m(1), THEN conjunct2, THEN mp, OF o]
  have a: "fst (execute_tool ?st ''wa'' ''list_tools'' (JObj []) None) = Inr (JStr ''no tools here'')"
    "effects ?st (snd (execute_tool ?st ''wa'' ''list_tools'' (JObj []) None)) =
       [Ev_open ''wa'',
        Ev_request ''wa'' (request_data ''u'' ''list_tools'' (JObj [])) (Inr (JStr ''no tools here''))]"
    by (simp_all add: u)
  from execute_tool_connects_first[OF d(1,2), of "''ping''" "JObj []" None] d(3,4,5)
  have b: "fst (execute_tool (example_client dead_world) ''wa'' ''ping'' (JObj []) None) =
     Inl (MCPConnectionError [Lit ''Cannot connect to server: '', Lit ''wa''])"
    by auto
  from f(1,2,3) m(1) odd_outcome[of 30] a d(1,2,3) b show ?thesis by simp
qed

section \<open>Listing tools\<close>

text \<open>
  Claim C10. \<^verbatim>\<open>list_tools\<close> always returns a value. When the underlying call of
  \<^verbatim>\<open>execute_tool\<close> fails, it returns the empty list: so it does for a server that is not
  configured and for a configured one that cannot be reached. When the call returns a
  dict, it returns the dict's \<^verbatim>\<open>"tools"\<close> field, or the empty list when there is none;
  a result that is not a dict has no such field and gives the empty list too. The state
  it leaves is the one \<^verbatim>\<open>execute_tool\<close> leaves.
\<close>

theorem list_tools_never_raises:
  "(isl (fst (execute_tool st s ''list_tools'' (JObj []) None)) \<longrightarrow>
      fst (list_tools st s) = JArr []) \<and>
   (servers st s = None \<and> s \<notin> dom (connections st) \<longrightarrow>
      isl (fst (execute_tool st s ''list_tools'' (JObj []) None)) \<and>
      fst (list_tools st s) = JArr []) \<and>
   (servers st s = Some config \<and> s \<notin> dom (connections st) \<and>
    \<not> open_ok (world st) (opened (world st)) \<longrightarrow>
      isl (fst (execute_tool st s ''list_tools'' (JObj []) None)) \<and>
      fst (list_tools st s) = JArr []) \<and>
   (fst (execute_tool st s ''list_tools'' (JObj []) None) = Inr (JObj kvs) \<longrightarrow>
      fst (list_tools st s) = (case map_of kvs ''tools'' of None \<Rightarrow> JArr [] | Some v \<Rightarrow> v)) \<and>
   (fst (execute_tool st s ''list_tools'' (JObj []) None) = Inr r \<and> (\<forall>kvs. r \<noteq> JObj kvs) \<longrightarrow>
      fst (list_tools st s) = JArr []) \<and>
   snd (list_tools st s) = snd (execute_tool st s ''list_tools'' (JObj []) None)"
proof -
  obtain res st' where x: "execute_tool st s ''list_tools'' (JObj []) None = (res, st')" by force
  have a: "isl res \<longrightarrow> fst (list_tools st s) = JArr []"
    using x by (auto simp: list_tools_def isl_def)
  have b: "servers st s = None \<and> s \<notin> dom (connections st) \<longrightarrow> isl res"
  proof (intro impI)
    assume h: "servers st s = None \<and> s \<notin> dom (connections st)"
    then have "connect st s =
        (Inl (MCPConnectionError [Lit ''Server '', Lit s, Lit '' not configured'']), st)"
      by (simp add: connect_def)
    with h have "execute_tool st s ''list_tools'' (JObj []) None =
        (Inl (MCPConnectionError [Lit ''Server '', Lit s, Lit '' not configured'']), st)"
      by (simp add: execute_tool_def)
    with x show "isl res" by auto
  qed
  have c: "servers st s = Some config \<and> s \<notin> dom (connections st) \<and>
      \<not> open_ok (world st) (opened (world st)) \<longrightarrow> isl res"
  proof (intro impI)
    assume h: "servers st s = Some config \<and> s \<notin> dom (connections st) \<and>
      \<not> open_ok (world st) (opened (world st))"
    from connect_frame[of st s config] h
    obtain st1 where "connect st s = (Inr False, st1)" by auto
    with h have "execute_tool st s ''list_tools'' (JObj []) None =
        (Inl (MCPConnectionError [Lit ''Cannot connect to server: '', Lit s]), st1)"
      by (simp add: execute_tool_def)
    with x show "isl res" by auto
  qed
  have d: "res = Inr (JObj kvs) \<longrightarrow>
      fst (list_tools st s) = (case map_of kvs ''tools'' of None \<Rightarrow> JArr [] | Some v \<Rightarrow> v)"
    using x by (simp add: list_tools_def dict_get_def)
  have e: "res = Inr r \<and> (\<forall>kvs. r \<noteq> JObj kvs) \<longrightarrow> fst (list_tools st s) = JArr []"
    using x by (cases r) (simp_all add: list_tools_def)
  have f: "snd (list_tools st s) = st'"
    using x by (auto simp: list_tools_def split: sum.splits json.splits)
  from a b c d e f x show ?thesis by simp
qed

lemma flaky_list_tools:
  "fst (execute_tool (example_client flaky_world) ''wa'' ''list_tools'' (JObj []) None) =
     Inr (JObj [(''tools'', JArr [JStr ''ping''])])"
  by (rule flaky_run(1))

lemma odd_list_tools:
  "fst (execute_tool (example_client odd_world) ''wa'' ''list_tools'' (JObj []) None) =
     Inr (JStr ''no tools here'')"
  by (rule odd_run)

theorem list_tools_never_raises_witness:
  "fst (list_tools (new_client dead_world) ''nobody'') = JArr [] \<and>
   fst (list_tools (example_client dead_world) ''wa'') = JArr [] \<and>
   fst (list_tools (example_client flaky_world) ''wa'') = JArr [JStr ''ping''] \<and>
   fst (list_tools (example_client odd_world) ''wa'') = JArr []"
proof -
  have n: "servers (new_client dead_world) ''nobody'' = None \<and>
      ''nobody'' \<notin> dom (connections (new_client dead_world))"
    by (simp add: new_client_def)
  have d: "servers (example_client dead_world) ''wa'' = Some example_config \<and>
      ''wa'' \<notin> dom (connections (example_client dead_world)) \<and>
      \<not> open_ok (world (example_client dead_world)) (opened (world (example_client dead_world)))"
    by (simp add: example_client_eq dead_world_def)
  have o: "fst (execute_tool (example_client odd_world) ''wa'' ''list_tools'' (JObj []) None) =
      Inr (JStr ''no tools here'') \<and> (\<forall>kvs. JStr ''no tools here'' \<noteq> JObj kvs)"
    using odd_list_tools by simp
  note t1 = list_tools_never_raises[where st = "new_client dead_world" and s = "''nobody''"]
  note t2 = list_tools_never_raises[where st = "example_client dead_world" and s = "''wa''"
      and config = example_config]
  note t3 = list_tools_never_raises[where st = "example_client flaky_world" and s = "''wa''"
      and kvs = "[(''tools'', JArr [JStr ''ping''])]"]
  note t4 = list_tools_never_raises[where st = "example_client odd_world" and s = "''wa''"
      and r = "JStr ''no tools here''"]
  have a: "fst (list_tools (new_client dead_world) ''nobody'') = JArr []"
    using t1[THEN conjunct2, THEN conjunct1, THEN mp, OF n] by simp
  have b: "fst (list_tools (example_client dead_world) ''wa'') = JArr []"
    using t2[THEN conjunct2, THEN conjunct2, THEN conjunct1, THEN mp, OF d] by simp
  have c: "fst (list_tools (example_client flaky_world) ''wa'') = JArr [JStr ''ping'']"
    using t3[THEN conjunct2, THEN conjunct2, THEN conjunct2, THEN conjunct1, THEN mp,
        OF flaky_list_tools] by simp
  have e: "fst (list_tools (example_client odd_world) ''wa'') = JArr []"
    using t4[THEN conjunct2, THEN conjunct2, THEN conjunct2, THEN conjunct2, THEN conjunct1,
        THEN mp, OF o] by simp
  from a b c e show ?thesis by simp
qed

section \<open>Closing a connection\<close>








section \<open>Admission by the rate limiter\<close>

lemma younger_hd_recent:
  assumes "younger h t xs \<noteq> []"
  shows "t - hd (younger h t xs) < h"
proof -
  from assms have "hd (younger h t xs) \<in> set (younger h t xs)" by (rule hd_in_set)
  then show ?thesis by (simp add: younger_def)
qed

lemma minute_check_ok:
  assumes "minute_check l1 t op = (Inr (), l2)"
  shows "request_timestamps l2 = request_timestamps l1" and "limits l2 = limits l1"
    and "slept l2 = slept l1 @ minute_wait (max_per_minute (limits l1) op) t (request_timestamps l1)"
    and "clock l2 =
           clock l1 + sum_list (minute_wait (max_per_minute (limits l1) op) t (request_timestamps l1))"
    and "int (length (request_timestamps l1)) \<ge> max_per_minute (limits l1) op \<Longrightarrow>
           request_timestamps l1 \<noteq> []"
  using assms
  by (auto simp: minute_check_def minute_wait_def limiter_sleep_def Let_def
      split: if_splits list.splits)


lemma second_check_ok:
  assumes "second_check l2 t = (Inr (), l3)"
  shows "request_timestamps l3 = request_timestamps l2" and "limits l3 = limits l2"
    and "slept l3 = slept l2 @ second_wait (requests_per_second (limits l2)) t (request_timestamps l2)"
    and "clock l3 =
           clock l2 + sum_list (second_wait (requests_per_second (limits l2)) t (request_timestamps l2))"
  using assms
  by (auto simp: second_check_def second_wait_def limiter_sleep_def Let_def
      split: if_splits list.splits)


lemma waits_nonneg:
  "0 \<le> sum_list (minute_wait cap t w)" "0 \<le> sum_list (second_wait cap t w)"
  by (simp_all add: minute_wait_def second_wait_def)

lemma minute_wait_at_ceiling:
  assumes "int (length (younger 60 t xs)) \<ge> cap" "younger 60 t xs \<noteq> []"
  shows "minute_wait cap t (younger 60 t xs) = [60 - (t - hd (younger 60 t xs))]"
  using assms younger_hd_recent[OF assms(2)] by (simp add: minute_wait_def)

lemma enforce_ok:
  assumes "enforce_rate_limit l op = (Inr (), l')"
  shows "request_timestamps l' = pruned l @ [clock l]"
    and "limits l' = limits l"
    and "slept l' = slept l @ minute_wait (max_per_minute (limits l) op) (clock l) (pruned l)
                      @ second_wait (requests_per_second (limits l)) (clock l) (pruned l)"
    and "clock l' = clock l + sum_list (minute_wait (max_per_minute (limits l) op) (clock l) (pruned l))
                      + sum_list (second_wait (requests_per_second (limits l)) (clock l) (pruned l))"
    and "int (length (pruned l)) \<ge> max_per_minute (limits l) op \<Longrightarrow>
           pruned l \<noteq> [] \<and> hd (pruned l) + 60 \<le> clock l'"
proof -
  define l1 where "l1 = l\<lparr>request_timestamps := pruned l\<rparr>"
  have l1: "request_timestamps l1 = pruned l" "limits l1 = limits l" "slept l1 = slept l"
    "clock l1 = clock l"
    by (simp_all add: l1_def)
  obtain r2 l2 where m: "minute_check l1 (clock l) op = (r2, l2)" by force
  obtain r3 l3 where s: "second_check l2 (clock l) = (r3, l3)" by force
  have e: "enforce_rate_limit l op =
      (case (r2, l2) of
         (Inl e, l2) \<Rightarrow> (Inl e, l2)
       | (Inr u, l2) \<Rightarrow>
           (case second_check l2 (clock l) of
              (Inl e, l3) \<Rightarrow> (Inl e, l3)
            | (Inr u, l3) \<Rightarrow>
                (Inr (), l3\<lparr>request_timestamps := request_timestamps l3 @ [clock l]\<rparr>)))"
    by (simp add: enforce_rate_limit_def Let_def pruned_def l1_def[unfolded pruned_def, symmetric] m)
  have r2: "r2 = Inr ()" using assms e by (cases r2) auto
  have r3: "r3 = Inr ()" using assms e r2 s by (cases r3) auto
  have l': "l' = l3\<lparr>request_timestamps := request_timestamps l3 @ [clock l]\<rparr>"
    using assms e r2 r3 s by simp
  note mo = minute_check_ok[OF m[unfolded r2]]
  note so = second_check_ok[OF s[unfolded r3]]
  show "request_timestamps l' = pruned l @ [clock l]"
    by (simp add: l' so(1) mo(1) l1)
  show "limits l' = limits l" by (simp add: l' so(2) mo(2) l1)
  show "slept l' = slept l @ minute_wait (max_per_minute (limits l) op) (clock l) (pruned l)
                      @ second_wait (requests_per_second (limits l)) (clock l) (pruned l)"
    by (simp add: l' so mo l1)
  show c: "clock l' = clock l + sum_list (minute_wait (max_per_minute (limits l) op) (clock l) (pruned l))
                      + sum_list (second_wait (requests_per_second (limits l)) (clock l) (pruned l))"
    by (simp add: l' so mo l1)
  show "pruned l \<noteq> [] \<and> hd (pruned l) + 60 \<le> clock l'"
    if h: "int (length (pruned l)) \<ge> max_per_minute (limits l) op"
  proof -
    have ne: "pruned l \<noteq> []" using mo(5) h by (simp add: l1)
    have "minute_wait (max_per_minute (limits l) op) (clock l) (pruned l) =
        [60 - (clock l - hd (pruned l))]"
      using minute_wait_at_ceiling[of "max_per_minute (limits l) op" "clock l" "request_timestamps l"]
        h ne by (simp add: pruned_def)
    then have "clock l' = hd (pruned l) + 60 +
        sum_list (second_wait (requests_per_second (limits l)) (clock l) (pruned l))"
      using c by simp
    then show ?thesis
      using ne waits_nonneg(2)[of "requests_per_second (limits l)" "clock l" "pruned l"] by simp
  qed
qed








section \<open>The length of the stored window\<close>

lemma three_calls_run:
  "admit_all (new_limiter small_limits 0) three_calls =
     (Inr (), \<lparr>limits = small_limits, request_timestamps = [0, 10, 20], clock = 60, slept = [40]\<rparr>)"
  by (simp add: three_calls_def admit_def enforce_rate_limit_def minute_check_def second_check_def
      new_limiter_def younger_def max_per_minute_def small_limits_def default_rate_limits_def
      limiter_sleep_def Let_def)

text \<open>
  Claim C6, as stated, fails. With a ceiling of two chats a minute, three calls ten
  seconds apart are all admitted, the third after waiting for the first timestamp to
  become 60 seconds old; the window stored after it has three timestamps.
\<close>

theorem window_exceeds_ceiling:
  "fst (admit_all (new_limiter small_limits 0) three_calls) = Inr () \<and>
   max_per_minute small_limits ''chats'' = 2 \<and>
   request_timestamps (snd (admit_all (new_limiter small_limits 0) three_calls)) = [0, 10, 20] \<and>
   \<not> int (length (request_timestamps (snd (admit_all (new_limiter small_limits 0) three_calls))))
        \<le> max_per_minute small_limits ''chats''"
  unfolding three_calls_run
  by (simp add: max_per_minute_def small_limits_def default_rate_limits_def)

lemma admit_keeps_window_inv:
  assumes inv: "window_inv c l" and d: "0 \<le> fst call"
    and cap: "max_per_minute (limits l) (snd call) \<le> c"
    and ok: "admit l call = (Inr (), l')"
  shows "window_inv c l'" and "limits l' = limits l" and "request_timestamps l' \<noteq> []"
    and "int (length (request_timestamps l')) \<le> c + 1"
proof -
  define l0 where "l0 = l\<lparr>clock := clock l + fst call\<rparr>"
  have l0: "clock l0 = clock l + fst call" "request_timestamps l0 = request_timestamps l"
    "limits l0 = limits l"
    by (simp_all add: l0_def)
  have e: "enforce_rate_limit l0 (snd call) = (Inr (), l')" using ok by (simp add: admit_def l0_def)
  note eo = enforce_ok[OF e]
  let ?w = "pruned l0"
  have w: "?w = filter (\<lambda>ts. clock l0 - ts < 60) (request_timestamps l)"
    by (simp add: pruned_def younger_def l0)
  have wc: "int (length ?w) \<le> c"
  proof (cases "request_timestamps l = []")
    case True
    then have "?w = []" by (simp add: w)
    moreover have "\<not> int (length ?w) \<ge> max_per_minute (limits l0) (snd call)"
      using eo(5) \<open>?w = []\<close> by auto
    ultimately show ?thesis using cap by (simp add: l0)
  next
    case False
    with inv have i: "int (length (request_timestamps l)) \<le> c + 1"
      "int (length (request_timestamps l)) = c + 1 \<longrightarrow> hd (request_timestamps l) + 60 \<le> clock l"
      by (simp_all add: window_inv_def)
    show ?thesis
    proof (cases "int (length (request_timestamps l)) = c + 1")
      case True
      with i have "hd (request_timestamps l) + 60 \<le> clock l" by simp
      then have "\<not> clock l0 - hd (request_timestamps l) < 60" using d by (simp add: l0)
      moreover have "hd (request_timestamps l) \<in> set (request_timestamps l)" using False by simp
      ultimately have "length ?w < length (request_timestamps l)"
        unfolding w by (rule length_filter_less[rotated])
      then show ?thesis using True by simp
    next
      case False
      have "length ?w \<le> length (request_timestamps l)" unfolding w by (rule length_filter_le)
      then show ?thesis using i(1) False by simp
    qed
  qed
  show ts: "request_timestamps l' \<noteq> []" by (simp add: eo(1))
  show len: "int (length (request_timestamps l')) \<le> c + 1" using wc by (simp add: eo(1))
  show "limits l' = limits l" by (simp add: eo(2) l0)
  show "window_inv c l'"
  proof -
    have "hd (request_timestamps l') + 60 \<le> clock l'"
      if "int (length (request_timestamps l')) = c + 1"
    proof -
      from that have "int (length ?w) = c" by (simp add: eo(1))
      then have "int (length ?w) \<ge> max_per_minute (limits l0) (snd call)"
        using cap by (simp add: l0)
      from eo(5)[OF this] show ?thesis by (simp add: eo(1))
    qed
    then show ?thesis using len by (simp add: window_inv_def)
  qed
qed

lemma admit_all_keeps_window_inv:
  assumes "window_inv c l"
    and "\<forall>call\<in>set calls. 0 \<le> fst call \<and> max_per_minute (limits l) (snd call) \<le> c"
    and "admit_all l calls = (Inr (), l')"
  shows "window_inv c l' \<and> (calls \<noteq> [] \<longrightarrow> request_timestamps l' \<noteq> [])"
  using assms
proof (induction calls arbitrary: l)
  case Nil
  then show ?case by simp
next
  case (Cons call calls)
  obtain r l1 where a: "admit l call = (r, l1)" by force
  with Cons.prems(3) have r: "r = Inr ()" by (cases r) auto
  have h: "0 \<le> fst call" "max_per_minute (limits l) (snd call) \<le> c"
    using Cons.prems(2) by simp_all
  note k = admit_keeps_window_inv[OF Cons.prems(1) h a[unfolded r]]
  have rest: "admit_all l1 calls = (Inr (), l')" using Cons.prems(3) a r by simp
  have q: "\<forall>call\<in>set calls. 0 \<le> fst call \<and> max_per_minute (limits l1) (snd call) \<le> c"
    using Cons.prems(2) k(2) by simp
  from Cons.IH[OF k(1) q rest] have i: "window_inv c l'"
    "calls \<noteq> [] \<longrightarrow> request_timestamps l' \<noteq> []" by simp_all
  have "request_timestamps l' \<noteq> []"
  proof (cases calls)
    case Nil
    with rest k(3) show ?thesis by simp
  next
    case (Cons x xs)
    with i(2) show ?thesis by simp
  qed
  with i(1) show ?case by simp
qed

text \<open>
  Claim C6, amended. The window is pruned when an admission starts and the new timestamp
  is appended when it ends, so the timestamp whose age the call has waited out is still
  stored. In a sequence of admissions that starts with an empty window, with time never
  running backwards between the calls and every ceiling in use at most \<open>c\<close>, the window
  stored after each admission has at most \<open>c + 1\<close> timestamps.
\<close>

theorem window_at_most_ceiling_plus_one:
  assumes "admit_all (new_limiter rl t0) calls = (Inr (), l')"
    and "calls \<noteq> []"
    and "\<forall>call\<in>set calls. 0 \<le> fst call \<and> max_per_minute rl (snd call) \<le> c"
  shows "int (length (request_timestamps l')) \<le> c + 1"
proof -
  have i: "window_inv c (new_limiter rl t0)" by (simp add: window_inv_def new_limiter_def)
  have q: "\<forall>call\<in>set calls. 0 \<le> fst call \<and>
      max_per_minute (limits (new_limiter rl t0)) (snd call) \<le> c"
    using assms(3) by (simp add: new_limiter_def)
  from admit_all_keeps_window_inv[OF i q assms(1)] assms(2)
  show ?thesis by (auto simp: window_inv_def)
qed

theorem window_at_most_ceiling_plus_one_witness:
  "admit_all (new_limiter small_limits 0) three_calls =
     (Inr (), \<lparr>limits = small_limits, request_timestamps = [0, 10, 20], clock = 60, slept = [40]\<rparr>) \<and>
   three_calls \<noteq> [] \<and>
   list_all (\<lambda>call. 0 \<le> fst call \<and> max_per_minute small_limits (snd call) \<le> 2) three_calls \<and>
   int (length [0, 10, 20 :: rat]) \<le> 2 + 1"
proof -
  have n: "three_calls \<noteq> []" by (simp add: three_calls_def)
  have q: "\<forall>call\<in>set three_calls. 0 \<le> fst call \<and> max_per_minute small_limits (snd call) \<le> 2"
    by (simp add: three_calls_def max_per_minute_def small_limits_def default_rate_limits_def)
  from window_at_most_ceiling_plus_one[OF three_calls_run n q]
  have "int (length [0, 10, 20 :: rat]) \<le> 2 + 1" by simp
  with three_calls_run n q show ?thesis by (simp add: list_all_iff)
qed

end
